theory Spec2Isabelle
  imports Main "HOL-Library.Char_ord" "HOL-Library.List_Lexorder" "HOL-Library.Multiset"
begin

section \<open>Sharing in the SQL store: data model\<close>

text \<open>
  The embedding follows \<^verbatim>\<open>txdav/common/datastore/sql_sharing.py\<close>. The bind table, the
  homes, the notification collections and the trace of calls made to the collaborators
  (conduit, change notifications, query cache, sync tokens) form one explicit state, the
  \<open>world\<close>. Every method becomes a function from the world to a result and the new world;
  an exception is the \<open>Inl\<close> branch of the result, and the world returned with it is the
  state at the moment of the raise. A view object (\<open>CommonHomeChild\<close>) is passed by value,
  so a method that mutates \<open>self\<close> or \<open>shareeView\<close> in place returns the mutated view.
\<close>

text \<open>Modelled from the spec: the bind modes and statuses of \<^verbatim>\<open>sql_tables\<close>
  (section 3 of the specification: mode is one of OWN, READ, WRITE, DIRECT, INDIRECT;
  status is one of INVITED, ACCEPTED, DECLINED, INVALID, DELETED).\<close>

datatype bind_mode =
  BIND_MODE_OWN | BIND_MODE_READ | BIND_MODE_WRITE | BIND_MODE_DIRECT | BIND_MODE_INDIRECT

datatype bind_status =
  BIND_STATUS_INVITED | BIND_STATUS_ACCEPTED | BIND_STATUS_DECLINED
  | BIND_STATUS_INVALID | BIND_STATUS_DELETED

datatype error =
  ExternalShareFailed string
  | HomeChildNameAlreadyExistsError
  | AllRetriesFailed
  | IntegrityError
  | AttributeError
  | AssertionError

record home =
  home_uid :: string
  home_resourceID :: nat
  home_external :: bool

text \<open>One row of the bind table, with the columns of \<^verbatim>\<open>bindColumns\<close>.\<close>

record bind_row =
  HOME_RESOURCE_ID :: nat
  RESOURCE_ID :: nat
  EXTERNAL_ID :: "nat option"
  RESOURCE_NAME :: string
  BIND_MODE :: bind_mode
  BIND_STATUS :: bind_status
  BIND_REVISION :: nat
  MESSAGE :: "string option"

text \<open>The in-memory attributes of a \<open>CommonHomeChild\<close> (\<^verbatim>\<open>bindAttributes\<close>), with the
  home it was loaded from (\<^verbatim>\<open>_home\<close>, returned by \<^verbatim>\<open>viewerHome()\<close>) and the owner's home
  (\<^verbatim>\<open>ownerHome()\<close>).\<close>

record view =
  viewerHome :: home
  ownerHome :: home
  bindMode :: bind_mode
  resourceID :: nat
  externalID :: "nat option"
  name :: string
  bindStatus :: bind_status
  bindRevision :: nat
  bindMessage :: "string option"

text \<open>The dictionary \<^verbatim>\<open>_children\<close> of a home is keyed by names and by resource ids.\<close>

datatype child_key = ByName string | ByID nat

text \<open>The values a notification dictionary holds.\<close>

datatype nvalue =
  VStr string | VNone | VStatus bind_status | VMode bind_mode

type_synonym ndict = "(string \<times> nvalue) list"

datatype cache_key =
  KeyForHomeChildMetaData nat
  | KeyForObjectWithName nat string
  | KeyForObjectWithResourceID nat nat
  | KeyForObjectWithExternalID nat "nat option"

text \<open>The column map given to \<^verbatim>\<open>_updateBindColumnsQuery\<close>, by \<^verbatim>\<open>updateShare\<close> (mode, status,
  message) and by \<^verbatim>\<open>_initBindRevision\<close> (revision): a column is in the map when its entry
  is not \<open>None\<close>.\<close>

record column_map =
  col_BIND_MODE :: "bind_mode option"
  col_BIND_STATUS :: "bind_status option"
  col_MESSAGE :: "string option"
  col_BIND_REVISION :: "nat option"

text \<open>Calls made to the collaborators, in the order they are made.\<close>

datatype event =
  SQL_Insert bind_row
  | SQL_Update column_map nat nat
  | SQL_UpdateMessage "string option" nat nat
  | SQL_Delete nat nat
  | NotifyPropertyChanged nat nat
  | NotifyChanged nat
  | InvalidateAfterCommit cache_key
  | InitSyncToken nat nat
  | DeletedSyncToken nat nat
  | NewShare nat nat "string option"
  | Send_shareinvite string nat string string string bind_mode "string option" "string option"
  | Send_shareuninvite string nat string string
  | Send_sharereply string string string bind_status "string option"
  | WriteNotificationObject string string ndict ndict
  | RemoveNotificationObjectWithUID string string
  | CreateChild nat nat
  | RemoveExternalChild nat nat
  | SetSupportedComponents nat string
  | SetInviteCopyProperties nat nat
  | LogError string

record world =
  homes :: "home list"
  directory :: "string \<Rightarrow> bool option"
  binds :: "bind_row list"
  children :: "nat \<Rightarrow> child_key \<Rightarrow> nat option"
  notifications :: "string \<Rightarrow> string \<Rightarrow> (ndict \<times> ndict) option"
  displayName :: "nat \<Rightarrow> nat \<Rightarrow> string option"
  syncTokenRevision :: "nat \<Rightarrow> nat"
  hasSupportedComponents :: bool
  supportedComponents :: "nat \<Rightarrow> string option"
  resource_seq :: nat
  uuid4 :: "nat \<Rightarrow> string"
  uuid_count :: nat
  retries :: nat
  queryCacher :: bool
  nowUTC :: string
  trace :: "event list"

type_synonym 'a result = "(error + 'a) \<times> world"

section \<open>Sequencing\<close>

definition andThen :: "(world \<Rightarrow> 'a result) \<Rightarrow> ('a \<Rightarrow> world \<Rightarrow> 'b result) \<Rightarrow> world \<Rightarrow> 'b result" where
  "andThen m f w = (case m w of (Inl e, w') \<Rightarrow> (Inl e, w') | (Inr x, w') \<Rightarrow> f x w')"

definition returnValue :: "'a \<Rightarrow> world \<Rightarrow> 'a result" where
  "returnValue x w = (Inr x, w)"

definition raise :: "error \<Rightarrow> world \<Rightarrow> 'a result" where
  "raise e w = (Inl e, w)"

definition emit :: "event \<Rightarrow> world \<Rightarrow> world" where
  "emit e w = w\<lparr>trace := trace w @ [e]\<rparr>"

section \<open>Collaborators\<close>

text \<open>Modelled from the spec: the change notifications of a resource and of a home
  (section 4.1, "raises a change notification on both the owner and sharee homes") are
  calls into the notifier, which is not part of this file; the call is recorded.\<close>

definition notifyPropertyChanged :: "view \<Rightarrow> world \<Rightarrow> world" where
  "notifyPropertyChanged v w =
     emit (NotifyPropertyChanged (home_resourceID (viewerHome v)) (resourceID v)) w"

definition notifyChanged :: "home \<Rightarrow> world \<Rightarrow> world" where
  "notifyChanged h w = emit (NotifyChanged (home_resourceID h)) w"

text \<open>Modelled from the spec: sync-token initialisation and teardown (section 4.1) belong
  to the revision machinery of the store, which is not part of this file; the calls are
  recorded, and the revision of a resource is read from the world.\<close>

definition initSyncToken :: "view \<Rightarrow> world \<Rightarrow> world" where
  "initSyncToken v w = emit (InitSyncToken (home_resourceID (viewerHome v)) (resourceID v)) w"

definition deletedSyncToken :: "view \<Rightarrow> world \<Rightarrow> world" where
  "deletedSyncToken v w =
     emit (DeletedSyncToken (home_resourceID (viewerHome v)) (resourceID v)) w"

text \<open>\<^verbatim>\<open>invalidateQueryCache\<close>: with a query cacher, four keys are invalidated after
  commit; without one nothing happens.\<close>

definition queryCacheKeys :: "view \<Rightarrow> cache_key list" where
  "queryCacheKeys v =
     [KeyForHomeChildMetaData (resourceID v),
      KeyForObjectWithName (home_resourceID (viewerHome v)) (name v),
      KeyForObjectWithResourceID (home_resourceID (viewerHome v)) (resourceID v),
      KeyForObjectWithExternalID (home_resourceID (viewerHome v)) (externalID v)]"

definition invalidateQueryCache :: "view \<Rightarrow> world \<Rightarrow> world" where
  "invalidateQueryCache v w =
     (if queryCacher w
      then w\<lparr>trace := trace w @ map InvalidateAfterCommit (queryCacheKeys v)\<rparr>
      else w)"

subsection \<open>The bind table\<close>

definition bind_key :: "nat \<Rightarrow> nat \<Rightarrow> bind_row \<Rightarrow> bool" where
  "bind_key rid hid r = (RESOURCE_ID r = rid \<and> HOME_RESOURCE_ID r = hid)"

text \<open>Modelled from the spec: the storage engine rejects an insert that breaks the
  uniqueness of the pair (resource, home) or of the name within a home (section 3,
  invariants; section 6, "name uniqueness is scoped per home").\<close>

definition insert_conflict :: "bind_row \<Rightarrow> world \<Rightarrow> bool" where
  "insert_conflict r w =
     list_ex (\<lambda>r'. HOME_RESOURCE_ID r' = HOME_RESOURCE_ID r \<and>
                    (RESOURCE_ID r' = RESOURCE_ID r \<or> RESOURCE_NAME r' = RESOURCE_NAME r))
             (binds w)"

text \<open>\<^verbatim>\<open>_updateBindColumnsQuery(columnMap).on(txn, resourceID, homeID)\<close>.\<close>

definition apply_columns :: "column_map \<Rightarrow> bind_row \<Rightarrow> bind_row" where
  "apply_columns cm r =
     r\<lparr>BIND_MODE := (case col_BIND_MODE cm of Some m \<Rightarrow> m | None \<Rightarrow> BIND_MODE r),
       BIND_STATUS := (case col_BIND_STATUS cm of Some s \<Rightarrow> s | None \<Rightarrow> BIND_STATUS r),
       MESSAGE := (case col_MESSAGE cm of Some m \<Rightarrow> Some m | None \<Rightarrow> MESSAGE r),
       BIND_REVISION :=
         (case col_BIND_REVISION cm of Some n \<Rightarrow> n | None \<Rightarrow> BIND_REVISION r)\<rparr>"

definition updateBindColumnsQuery :: "column_map \<Rightarrow> nat \<Rightarrow> nat \<Rightarrow> world \<Rightarrow> world" where
  "updateBindColumnsQuery cm rid hid w =
     emit (SQL_Update cm rid hid)
       (w\<lparr>binds := map (\<lambda>r. if bind_key rid hid r then apply_columns cm r else r) (binds w)\<rparr>)"

text \<open>The column map \<^verbatim>\<open>{bind.BIND_REVISION: revision}\<close> of \<^verbatim>\<open>_initBindRevision\<close>.\<close>

definition revisionMap :: "nat \<Rightarrow> column_map" where
  "revisionMap revision =
     \<lparr>col_BIND_MODE = None, col_BIND_STATUS = None, col_MESSAGE = None,
      col_BIND_REVISION = Some revision\<rparr>"

definition updateBindMessageQuery :: "string option \<Rightarrow> nat \<Rightarrow> nat \<Rightarrow> world \<Rightarrow> world" where
  "updateBindMessageQuery msg rid hid w =
     emit (SQL_UpdateMessage msg rid hid)
       (w\<lparr>binds := map (\<lambda>r. if bind_key rid hid r then r\<lparr>MESSAGE := msg\<rparr> else r) (binds w)\<rparr>)"

text \<open>\<^verbatim>\<open>_deleteBindForResourceIDAndHomeID\<close>.\<close>

definition deleteBindForResourceIDAndHomeID :: "nat \<Rightarrow> nat \<Rightarrow> world \<Rightarrow> world" where
  "deleteBindForResourceIDAndHomeID rid hid w =
     emit (SQL_Delete rid hid) (w\<lparr>binds := filter (\<lambda>r. \<not> bind_key rid hid r) (binds w)\<rparr>)"

subsection \<open>Homes and their children\<close>

text \<open>Modelled from the spec: \<^verbatim>\<open>txn.homeWithUID(homeType, uid, create)\<close> resolves a home
  by the UID of its principal and, with \<open>create\<close>, provisions it on first contact
  (section 4.1 "resolves/creates the sharee's consuming home", section 4.3). Whether a
  principal is hosted on another node is the directory's knowledge; a UID unknown to the
  directory has no home.\<close>

definition homeWithUID :: "string \<Rightarrow> bool \<Rightarrow> world \<Rightarrow> home option \<times> world" where
  "homeWithUID u create w =
     (case find (\<lambda>h. home_uid h = u) (homes w) of
        Some h \<Rightarrow> (Some h, w)
      | None \<Rightarrow>
          if create then
            (case directory w u of
               None \<Rightarrow> (None, w)
             | Some ext \<Rightarrow>
                 let h = \<lparr>home_uid = u, home_resourceID = resource_seq w, home_external = ext\<rparr>
                 in (Some h, w\<lparr>homes := homes w @ [h], resource_seq := Suc (resource_seq w)\<rparr>))
          else (None, w))"

text \<open>Modelled from the spec: the owner's home of a resource is the home of its one OWN
  bind record (section 3, "exactly one OWN bind record exists per resourceID").\<close>

definition ownerHomeOf :: "world \<Rightarrow> nat \<Rightarrow> home option" where
  "ownerHomeOf w rid =
     (case find (\<lambda>r. RESOURCE_ID r = rid \<and> BIND_MODE r = BIND_MODE_OWN) (binds w) of
        None \<Rightarrow> None
      | Some r \<Rightarrow> find (\<lambda>h. home_resourceID h = HOME_RESOURCE_ID r) (homes w))"

text \<open>Modelled from the spec: a view is loaded from a bind row of the home (section 6,
  \<open>selectByResourceAndHome\<close>, \<open>selectByNameAndHome\<close>, \<open>selectByExternalIDAndHome\<close>). A row
  whose owner home cannot be resolved yields no view.\<close>

definition view_of :: "home \<Rightarrow> home \<Rightarrow> bind_row \<Rightarrow> view" where
  "view_of h oh r =
     \<lparr>viewerHome = h, ownerHome = oh, bindMode = BIND_MODE r,
      resourceID = RESOURCE_ID r, externalID = EXTERNAL_ID r,
      name = RESOURCE_NAME r, bindStatus = BIND_STATUS r,
      bindRevision = BIND_REVISION r, bindMessage = MESSAGE r\<rparr>"

definition makeView :: "world \<Rightarrow> home \<Rightarrow> bind_row \<Rightarrow> view option" where
  "makeView w h r =
     (case (if BIND_MODE r = BIND_MODE_OWN then Some h else ownerHomeOf w (RESOURCE_ID r)) of
        None \<Rightarrow> None
      | Some oh \<Rightarrow> Some (view_of h oh r))"

text \<open>Modelled from the spec: \<open>accepted = None\<close> loads a row of any status, \<open>Some b\<close> only a
  row whose status is ACCEPTED exactly when \<open>b\<close> holds.\<close>

definition objectWith :: "world \<Rightarrow> home \<Rightarrow> (bind_row \<Rightarrow> bool) \<Rightarrow> bool option \<Rightarrow> view option" where
  "objectWith w h P accepted =
     (case find (\<lambda>r. HOME_RESOURCE_ID r = home_resourceID h \<and> P r) (binds w) of
        None \<Rightarrow> None
      | Some r \<Rightarrow>
          (case accepted of
             None \<Rightarrow> makeView w h r
           | Some b \<Rightarrow>
               if (BIND_STATUS r = BIND_STATUS_ACCEPTED) = b then makeView w h r else None))"

definition allChildWithID :: "world \<Rightarrow> home \<Rightarrow> nat \<Rightarrow> view option" where
  "allChildWithID w h rid = objectWith w h (\<lambda>r. RESOURCE_ID r = rid) None"

definition childWithID :: "world \<Rightarrow> home \<Rightarrow> nat \<Rightarrow> view option" where
  "childWithID w h rid = objectWith w h (\<lambda>r. RESOURCE_ID r = rid) (Some True)"

definition anyObjectWithShareUID :: "world \<Rightarrow> home \<Rightarrow> string \<Rightarrow> view option" where
  "anyObjectWithShareUID w h n = objectWith w h (\<lambda>r. RESOURCE_NAME r = n) None"

definition childWithName :: "world \<Rightarrow> home \<Rightarrow> string \<Rightarrow> view option" where
  "childWithName w h n = objectWith w h (\<lambda>r. RESOURCE_NAME r = n) (Some True)"

definition childWithExternalID :: "world \<Rightarrow> home \<Rightarrow> nat \<Rightarrow> view option" where
  "childWithExternalID w h x = objectWith w h (\<lambda>r. EXTERNAL_ID r = Some x) (Some True)"

section \<open>SharingMixIn: simple accessors\<close>

definition owned :: "view \<Rightarrow> bool" where
  "owned v = (bindMode v = BIND_MODE_OWN)"

definition direct :: "view \<Rightarrow> bool" where
  "direct v = (bindMode v = BIND_MODE_DIRECT)"

definition shareUID :: "view \<Rightarrow> string" where
  "shareUID v = name v"

definition shareMode :: "view \<Rightarrow> bind_mode" where
  "shareMode v = bindMode v"

definition effectiveShareMode :: "view \<Rightarrow> bind_mode" where
  "effectiveShareMode v = bindMode v"

definition shareStatus :: "view \<Rightarrow> bind_status" where
  "shareStatus v = bindStatus v"

definition shareMessage :: "view \<Rightarrow> string option" where
  "shareMessage v = bindMessage v"

definition sharedResourceType :: "view \<Rightarrow> string" where
  "sharedResourceType v = ''''"

text \<open>\<^verbatim>\<open>shareName\<close>: the branch for the resource type \<^verbatim>\<open>"group"\<close> is never taken with the
  \<^verbatim>\<open>sharedResourceType\<close> of this class.\<close>

definition shareName :: "view \<Rightarrow> string" where
  "shareName v = name v"

text \<open>Modelled from the spec: a view is external when the home of its owner is hosted on
  another node (section 4.2: "if the bind is federated ... unless the owner itself is
  external").\<close>

definition external :: "view \<Rightarrow> bool" where
  "external v = home_external (ownerHome v)"

text \<open>\<^verbatim>\<open>newShareName\<close>: a fresh UUID, drawn from the stream of the world.\<close>

definition newShareName :: "world \<Rightarrow> string \<times> world" where
  "newShareName w = (uuid4 w (uuid_count w), w\<lparr>uuid_count := Suc (uuid_count w)\<rparr>)"

text \<open>\<^verbatim>\<open>newShare\<close> does nothing in this class and is overridden in derived classes; the
  call is recorded.\<close>

definition newShare :: "view \<Rightarrow> string option \<Rightarrow> world \<Rightarrow> world" where
  "newShare v displayname w =
     emit (NewShare (home_resourceID (viewerHome v)) (resourceID v) displayname) w"

section \<open>SharingMixIn: the lower level API\<close>

text \<open>\<^verbatim>\<open>_initBindRevision\<close>.\<close>

definition initBindRevision :: "view \<Rightarrow> world \<Rightarrow> view \<times> world" where
  "initBindRevision v w =
     (let v' = v\<lparr>bindRevision := syncTokenRevision w (resourceID v)\<rparr>;
          w1 = updateBindColumnsQuery (revisionMap (bindRevision v')) (resourceID v')
                 (home_resourceID (viewerHome v')) w
      in (v', invalidateQueryCache v' w1))"

text \<open>\<^verbatim>\<open>_changedStatus\<close>: the entry stored in \<^verbatim>\<open>_children\<close> is the view itself, held here
  by its resource id.\<close>

definition changedStatus :: "view \<Rightarrow> nat \<Rightarrow> world \<Rightarrow> view \<times> world" where
  "changedStatus v previouslyAcceptedCount w =
     (if bindStatus v = BIND_STATUS_ACCEPTED then
        (case initBindRevision v (initSyncToken v w) of
           (v', w1) \<Rightarrow>
             (v', w1\<lparr>children := (children w1)
                      (home_resourceID (viewerHome v') :=
                         (children w1 (home_resourceID (viewerHome v')))
                           (ByName (name v') \<mapsto> resourceID v',
                            ByID (resourceID v') \<mapsto> resourceID v'))\<rparr>))
      else if bindStatus v = BIND_STATUS_INVITED \<or> bindStatus v = BIND_STATUS_DECLINED then
        (let w1 = deletedSyncToken v w
         in (v, w1\<lparr>children := (children w1)
                     (home_resourceID (viewerHome v) :=
                        (children w1 (home_resourceID (viewerHome v)))
                          (ByName (name v) := None, ByID (resourceID v) := None))\<rparr>))
      else (v, w))"

definition previousAcceptCount :: "view \<Rightarrow> nat" where
  "previousAcceptCount v = 1"

definition columnMap_of :: "view \<Rightarrow> bind_mode option \<Rightarrow> bind_status option \<Rightarrow> string option \<Rightarrow> column_map" where
  "columnMap_of shareeView mode status summary =
     \<lparr>col_BIND_MODE = (if mode \<noteq> None \<and> mode \<noteq> Some (bindMode shareeView) then mode else None),
      col_BIND_STATUS =
        (if status \<noteq> None \<and> status \<noteq> Some (bindStatus shareeView) then status else None),
      col_MESSAGE =
        (if summary \<noteq> None \<and> summary \<noteq> bindMessage shareeView then summary else None),
      col_BIND_REVISION = None\<rparr>"

definition columnMap_empty :: "column_map \<Rightarrow> bool" where
  "columnMap_empty cm =
     (col_BIND_MODE cm = None \<and> col_BIND_STATUS cm = None \<and> col_MESSAGE cm = None \<and>
      col_BIND_REVISION cm = None)"

text \<open>\<^verbatim>\<open>updateShare(shareeView, mode, status, summary)\<close> on the owner's view \<open>self\<close>; returns
  the sharee view as it has been mutated.\<close>

definition updateShare :: "view \<Rightarrow> view \<Rightarrow> bind_mode option \<Rightarrow> bind_status option \<Rightarrow> string option \<Rightarrow> world \<Rightarrow> view \<times> world" where
  "updateShare self shareeView mode status summary w =
     (let columnMap = columnMap_of shareeView mode status summary in
      if \<not> columnMap_empty columnMap then
        (let w1 = updateBindColumnsQuery columnMap (resourceID self)
                    (home_resourceID (viewerHome shareeView)) w;
             v1 = (case col_BIND_MODE columnMap of
                     Some m \<Rightarrow> shareeView\<lparr>bindMode := m\<rparr> | None \<Rightarrow> shareeView)
         in case (case col_BIND_STATUS columnMap of
                    Some s \<Rightarrow> changedStatus (v1\<lparr>bindStatus := s\<rparr>) (previousAcceptCount shareeView) w1
                  | None \<Rightarrow> (v1, w1)) of
              (v2, w2) \<Rightarrow>
                (let v3 = (case col_MESSAGE columnMap of
                             Some m \<Rightarrow> v2\<lparr>bindMessage := Some m\<rparr> | None \<Rightarrow> v2);
                     w3 = invalidateQueryCache v3 w2;
                     w4 = notifyPropertyChanged self w3;
                     w5 = notifyChanged (viewerHome v3) w4
                 in (v3, w5)))
      else (shareeView, w))"

text \<open>\<^verbatim>\<open>setShared(shared)\<close>; returns \<open>self\<close> as it has been mutated.\<close>

definition setShared :: "view \<Rightarrow> bool \<Rightarrow> world \<Rightarrow> view result" where
  "setShared self shared w =
     (if \<not> owned self then (Inl AssertionError, w)
      else
        (let newMessage = (if shared then Some ''shared'' else None) in
         if bindMessage self = newMessage then (Inr self, w)
         else
           (let self' = self\<lparr>bindMessage := newMessage\<rparr>;
                w1 = updateBindMessageQuery (bindMessage self') (resourceID self')
                       (home_resourceID (viewerHome self')) w;
                w2 = invalidateQueryCache self' w1;
                w3 = notifyPropertyChanged self' w2
            in (Inr self', w3))))"

text \<open>Modelled from the spec: \<^verbatim>\<open>txn.subtransaction(thunk)\<close> runs the thunk in a
  transaction of its own and retries it a bounded number of times (section 5); a failed
  attempt is rolled back in the bind table, and when every attempt has failed the call
  raises AllRetriesFailed.\<close>

fun attempt :: "nat \<Rightarrow> (world \<Rightarrow> 'a result) \<Rightarrow> world \<Rightarrow> 'a result" where
  "attempt 0 thunk w = (Inl AllRetriesFailed, w)"
| "attempt (Suc n) thunk w =
     (case thunk w of
        (Inr x, w') \<Rightarrow> (Inr x, w')
      | (Inl e, w') \<Rightarrow> attempt n thunk (w'\<lparr>binds := binds w, trace := trace w\<rparr>))"

definition subtransaction :: "(world \<Rightarrow> 'a result) \<Rightarrow> world \<Rightarrow> 'a result" where
  "subtransaction thunk w = attempt (Suc (retries w)) thunk w"

text \<open>The thunk \<^verbatim>\<open>doInsert\<close> of \<^verbatim>\<open>shareWith\<close>; a rejected insert raises inside the
  sub-transaction.\<close>

definition doInsert :: "view \<Rightarrow> home \<Rightarrow> bind_mode \<Rightarrow> bind_status \<Rightarrow> string option \<Rightarrow> string option \<Rightarrow> world \<Rightarrow> string result" where
  "doInsert self shareeHome mode status summary shareName_opt w =
     (case (case shareName_opt of Some n \<Rightarrow> (n, w) | None \<Rightarrow> newShareName w) of
        (newName, w1) \<Rightarrow>
          (let row = \<lparr>HOME_RESOURCE_ID = home_resourceID shareeHome,
                      RESOURCE_ID = resourceID self,
                      EXTERNAL_ID = externalID self,
                      RESOURCE_NAME = newName,
                      BIND_MODE = mode,
                      BIND_STATUS = status,
                      BIND_REVISION = 0,
                      MESSAGE = summary\<rparr>
           in if insert_conflict row w1 then (Inl IntegrityError, w1)
              else (Inr newName, emit (SQL_Insert row) (w1\<lparr>binds := binds w1 @ [row]\<rparr>))))"

text \<open>The \<^verbatim>\<open>try ... except AllRetriesFailed ... else\<close> statement of \<^verbatim>\<open>shareWith\<close>: the insert in
  its sub-transaction, the fallback to \<^verbatim>\<open>updateShare\<close> on the existing record, and the
  initialisation of an accepted new share. Its value is \<^verbatim>\<open>bindName\<close>.\<close>

definition shareWith_try :: "view \<Rightarrow> home \<Rightarrow> bind_mode \<Rightarrow> bind_status \<Rightarrow> string option \<Rightarrow> string option \<Rightarrow> world \<Rightarrow> string result" where
  "shareWith_try self shareeHome mode status summary shareName_opt w =
     (case subtransaction (doInsert self shareeHome mode status summary shareName_opt) w of
        (Inl AllRetriesFailed, w1) \<Rightarrow>
          (case allChildWithID w1 shareeHome (resourceID self) of
             None \<Rightarrow> (Inl AttributeError, w1)
           | Some child \<Rightarrow>
               (case updateShare self child (Some mode) (Some status) summary w1 of
                  (child', w2) \<Rightarrow> (Inr (name child'), w2)))
      | (Inl e, w1) \<Rightarrow> (Inl e, w1)
      | (Inr bindName, w1) \<Rightarrow>
          if status = BIND_STATUS_ACCEPTED then
            (case anyObjectWithShareUID w1 shareeHome bindName of
               None \<Rightarrow> (Inl AttributeError, w1)
             | Some shareeView \<Rightarrow>
                 (case initBindRevision shareeView (initSyncToken shareeView w1) of
                    (shareeView', w2) \<Rightarrow> (Inr bindName, w2)))
          else (Inr bindName, w1))"

text \<open>\<^verbatim>\<open>shareWith(shareeHome, mode, status, summary, shareName)\<close>; returns the bind name
  and \<open>self\<close> as mutated by \<^verbatim>\<open>setShared\<close>.\<close>

definition shareWith :: "view \<Rightarrow> home \<Rightarrow> bind_mode \<Rightarrow> bind_status option \<Rightarrow> string option \<Rightarrow> string option \<Rightarrow> world \<Rightarrow> (string \<times> view) result" where
  "shareWith self shareeHome mode status_opt summary shareName_opt w =
     (let status = (case status_opt of None \<Rightarrow> BIND_STATUS_ACCEPTED | Some s \<Rightarrow> s) in
      andThen (shareWith_try self shareeHome mode status summary shareName_opt)
        (\<lambda>bindName.
           andThen (setShared self True)
             (\<lambda>self' w. (Inr (bindName, self'),
                          notifyChanged shareeHome (notifyPropertyChanged self' w)))) w)"

text \<open>\<^verbatim>\<open>ownerView()\<close> and \<^verbatim>\<open>shareeView(shareeUID)\<close>.\<close>

definition ownerView :: "view \<Rightarrow> world \<Rightarrow> view option" where
  "ownerView self w = childWithID w (ownerHome self) (resourceID self)"

definition shareeView :: "view \<Rightarrow> string \<Rightarrow> world \<Rightarrow> view option" where
  "shareeView self shareeUID w =
     (if home_uid (viewerHome self) = shareeUID then None
      else (case fst (homeWithUID shareeUID False w) of
              None \<Rightarrow> None
            | Some shareeHome \<Rightarrow> allChildWithID w shareeHome (resourceID self)))"

text \<open>\<^verbatim>\<open>createShare(shareeUID, mode, summary, shareName)\<close>; returns the sharee view (which
  may be \<open>None\<close>) and \<open>self\<close>.\<close>

definition createShare :: "view \<Rightarrow> string \<Rightarrow> bind_mode \<Rightarrow> string option \<Rightarrow> string option \<Rightarrow> world \<Rightarrow> (view option \<times> view) result" where
  "createShare self shareeUID mode summary shareName_opt w =
     (case homeWithUID shareeUID True w of
        (None, w1) \<Rightarrow> (Inl AttributeError, w1)
      | (Some shareeHome, w1) \<Rightarrow>
          andThen
            (shareWith self shareeHome mode
               (Some (if mode \<noteq> BIND_MODE_DIRECT then BIND_STATUS_INVITED
                      else BIND_STATUS_ACCEPTED))
               summary shareName_opt)
            (\<lambda>(bindName, self') w2. (Inr (shareeView self' shareeUID w2, self'), w2)) w1)"

text \<open>\<^verbatim>\<open>removeShare(shareeView)\<close>.\<close>

definition removeShare :: "view \<Rightarrow> view \<Rightarrow> world \<Rightarrow> world" where
  "removeShare self sv w =
     (let shareeHome = viewerHome sv;
          w1 = deletedSyncToken sv w;
          w2 = w1\<lparr>children := (children w1)
                  (home_resourceID shareeHome :=
                     (children w1 (home_resourceID shareeHome))
                       (ByName (name sv) := None, ByID (resourceID sv) := None))\<rparr>;
          w3 = notifyPropertyChanged self w2;
          w4 = notifyChanged shareeHome w3;
          w5 = deleteBindForResourceIDAndHomeID (resourceID self)
                 (home_resourceID shareeHome) w4
      in invalidateQueryCache sv w5)"

text \<open>\<^verbatim>\<open>SharingInvitation\<close> and \<^verbatim>\<open>sharingInvites()\<close>: the rows of the resource whose mode
  is not OWN, joined with the home table, in the order of the bind table.\<close>

record SharingInvitation =
  inv_uid :: string
  inv_ownerUID :: string
  inv_ownerHomeID :: nat
  inv_shareeUID :: string
  inv_shareeHomeID :: nat
  inv_mode :: bind_mode
  inv_status :: bind_status
  inv_summary :: "string option"

definition sharedInvitationBindForResourceID :: "world \<Rightarrow> nat \<Rightarrow> (home \<times> bind_row) list" where
  "sharedInvitationBindForResourceID w rid =
     concat (map (\<lambda>r. map (\<lambda>h. (h, r))
                        (filter (\<lambda>h. home_resourceID h = HOME_RESOURCE_ID r) (homes w)))
                 (filter (\<lambda>r. RESOURCE_ID r = rid \<and> BIND_MODE r \<noteq> BIND_MODE_OWN) (binds w)))"

definition sharingInvites :: "view \<Rightarrow> world \<Rightarrow> SharingInvitation list" where
  "sharingInvites self w =
     (if \<not> owned self then []
      else map (\<lambda>(h, r).
                  \<lparr>inv_uid = RESOURCE_NAME r,
                   inv_ownerUID = home_uid (ownerHome self),
                   inv_ownerHomeID = home_resourceID (ownerHome self),
                   inv_shareeUID = home_uid h,
                   inv_shareeHomeID = HOME_RESOURCE_ID r,
                   inv_mode = BIND_MODE r,
                   inv_status = BIND_STATUS r,
                   inv_summary = MESSAGE r\<rparr>)
               (sharedInvitationBindForResourceID w (resourceID self)))"

text \<open>\<^verbatim>\<open>allInvitations()\<close>: the direct shares are filtered out and the list is sorted
  (stably) by the UID of the sharee.\<close>

definition allInvitations :: "view \<Rightarrow> world \<Rightarrow> SharingInvitation list" where
  "allInvitations self w =
     sort_key inv_shareeUID
       (filter (\<lambda>x. inv_mode x \<noteq> BIND_MODE_DIRECT) (sharingInvites self w))"

section \<open>SharingMixIn: notifications and the conduit\<close>

definition str_option :: "string option \<Rightarrow> string" where
  "str_option x = (case x of None \<Rightarrow> ''None'' | Some s \<Rightarrow> s)"

definition nvalue_of :: "string option \<Rightarrow> nvalue" where
  "nvalue_of x = (case x of None \<Rightarrow> VNone | Some s \<Rightarrow> VStr s)"

text \<open>Modelled from the spec: the notification collection of a principal
  (\<^verbatim>\<open>txn.notificationsWithUID\<close>) with its write and remove operations (section 6,
  NotificationChannel).\<close>

definition writeNotificationObject :: "string \<Rightarrow> string \<Rightarrow> ndict \<Rightarrow> ndict \<Rightarrow> world \<Rightarrow> world" where
  "writeNotificationObject puid nuid ntype ndata w =
     emit (WriteNotificationObject puid nuid ntype ndata)
       (w\<lparr>notifications := (notifications w)
            (puid := (notifications w puid)(nuid \<mapsto> (ntype, ndata)))\<rparr>)"

definition removeNotificationObjectWithUID :: "string \<Rightarrow> string \<Rightarrow> world \<Rightarrow> world" where
  "removeNotificationObjectWithUID puid nuid w =
     emit (RemoveNotificationObjectWithUID puid nuid)
       (w\<lparr>notifications := (notifications w)
            (puid := (notifications w puid)(nuid := None))\<rparr>)"

text \<open>\<^verbatim>\<open>_sendInviteNotification(shareeView, notificationState)\<close>, called on the owner's
  resource. The display name is the \<open>DisplayName\<close> property of the sharee's view.\<close>

definition inviteNotificationType :: "view \<Rightarrow> ndict" where
  "inviteNotificationType sv =
     [(''notification-type'', VStr ''invite-notification''),
      (''shared-type'', VStr (sharedResourceType sv))]"

definition inviteNotificationData :: "view \<Rightarrow> view \<Rightarrow> bind_status option \<Rightarrow> world \<Rightarrow> ndict" where
  "inviteNotificationData self sv notificationState w =
     (let displayname =
            (if notificationState = Some BIND_STATUS_DELETED then
               VStr (case displayName w (home_resourceID (viewerHome sv)) (resourceID sv) of
                       Some d \<Rightarrow> d
                     | None \<Rightarrow> str_option (shareMessage sv))
             else nvalue_of (shareMessage sv))
      in [(''notification-type'', VStr ''invite-notification''),
          (''shared-type'', VStr (sharedResourceType sv)),
          (''dtstamp'', VStr (nowUTC w)),
          (''owner'', VStr (home_uid (ownerHome sv))),
          (''sharee'', VStr (home_uid (viewerHome sv))),
          (''uid'', VStr (shareUID sv)),
          (''status'', VStatus (case notificationState of
                                  None \<Rightarrow> shareStatus sv | Some s \<Rightarrow> s)),
          (''access'', VMode (effectiveShareMode sv)),
          (''ownerName'', VStr (shareName self)),
          (''summary'', displayname)]
         @ (if hasSupportedComponents w then
              [(''supported-components'', nvalue_of (supportedComponents w (resourceID self)))]
            else []))"

definition sendInviteNotification :: "view \<Rightarrow> view \<Rightarrow> bind_status option \<Rightarrow> world \<Rightarrow> world" where
  "sendInviteNotification self sv notificationState w =
     writeNotificationObject (home_uid (viewerHome sv)) (shareUID sv)
       (inviteNotificationType sv) (inviteNotificationData self sv notificationState w) w"

text \<open>\<^verbatim>\<open>_sendReplyNotification(ownerView, summary)\<close>, called on the sharee's view.\<close>

definition replyNotificationType :: "view \<Rightarrow> ndict" where
  "replyNotificationType self =
     [(''notification-type'', VStr ''invite-reply''),
      (''shared-type'', VStr (sharedResourceType self))]"

definition replyNotificationData :: "view \<Rightarrow> view \<Rightarrow> string option \<Rightarrow> world \<Rightarrow> ndict" where
  "replyNotificationData self ov summary w =
     [(''notification-type'', VStr ''invite-reply''),
      (''shared-type'', VStr (sharedResourceType self)),
      (''dtstamp'', VStr (nowUTC w)),
      (''owner'', VStr (home_uid (ownerHome self))),
      (''sharee'', VStr (home_uid (viewerHome self))),
      (''status'', VStatus (shareStatus self)),
      (''ownerName'', VStr (shareName ov)),
      (''in-reply-to'', VStr (shareUID self)),
      (''summary'', nvalue_of summary)]"

definition sendReplyNotification :: "view \<Rightarrow> view \<Rightarrow> string option \<Rightarrow> world \<Rightarrow> world" where
  "sendReplyNotification self ov summary w =
     writeNotificationObject (home_uid (ownerHome self)) (shareUID self @ ''-reply'')
       (replyNotificationType self) (replyNotificationData self ov summary w) w"

text \<open>\<^verbatim>\<open>_removeInviteNotification(shareeView)\<close>.\<close>

definition removeInviteNotification :: "view \<Rightarrow> view \<Rightarrow> world \<Rightarrow> world" where
  "removeInviteNotification self sv w =
     removeNotificationObjectWithUID (home_uid (viewerHome sv)) (shareUID sv) w"

text \<open>Modelled from the spec: the three outbound calls of the federation conduit
  (section 6); the call and its arguments are recorded.\<close>

definition sendExternalInvite :: "view \<Rightarrow> view \<Rightarrow> world \<Rightarrow> world" where
  "sendExternalInvite self sv w =
     emit (Send_shareinvite (home_uid (ownerHome sv)) (resourceID self) (shareName self)
             (home_uid (viewerHome sv)) (shareUID sv) (shareMode sv) (shareMessage sv)
             (if hasSupportedComponents w then supportedComponents w (resourceID self)
              else None)) w"

definition sendExternalUninvite :: "view \<Rightarrow> view \<Rightarrow> world \<Rightarrow> world" where
  "sendExternalUninvite self sv w =
     emit (Send_shareuninvite (home_uid (ownerHome sv)) (resourceID self)
             (home_uid (viewerHome sv)) (shareUID sv)) w"

definition replyExternalInvite :: "view \<Rightarrow> bind_status \<Rightarrow> string option \<Rightarrow> world \<Rightarrow> world" where
  "replyExternalInvite self st summary w =
     emit (Send_sharereply (home_uid (ownerHome self)) (home_uid (viewerHome self))
             (shareUID self) st summary) w"

section \<open>SharingMixIn: the higher level API\<close>

text \<open>\<^verbatim>\<open>inviteUIDToShare(shareeUID, mode, summary, shareName)\<close>; returns the sharee view
  and \<open>self\<close>.\<close>

definition inviteUIDToShare :: "view \<Rightarrow> string \<Rightarrow> bind_mode \<Rightarrow> string option \<Rightarrow> string option \<Rightarrow> world \<Rightarrow> (view \<times> view) result" where
  "inviteUIDToShare self shareeUID mode summary shareName_opt w =
     andThen
       (\<lambda>w. case shareeView self shareeUID w of
          Some sv \<Rightarrow>
            (let status = (if shareStatus sv = BIND_STATUS_DECLINED \<or>
                              shareStatus sv = BIND_STATUS_INVALID
                           then Some BIND_STATUS_INVITED else None)
             in case updateShare self sv (Some mode) status summary w of
                  (sv', w1) \<Rightarrow> (Inr (Some sv', self), w1))
        | None \<Rightarrow> createShare self shareeUID mode summary shareName_opt w)
       (\<lambda>(sv_opt, self') w1.
          case sv_opt of
            None \<Rightarrow> (Inl AttributeError, w1)
          | Some sv \<Rightarrow>
              if home_external (viewerHome sv)
              then (Inr (sv, self'), sendExternalInvite self' sv w1)
              else (Inr (sv, self'), sendInviteNotification self' sv None w1)) w"

text \<open>\<^verbatim>\<open>directShareWithUser(shareeUID, shareName)\<close>; returns the sharee view and \<open>self\<close>.\<close>

definition directShareWithUser :: "view \<Rightarrow> string \<Rightarrow> string option \<Rightarrow> world \<Rightarrow> (view \<times> view) result" where
  "directShareWithUser self shareeUID shareName_opt w =
     (case shareeView self shareeUID w of
        Some sv \<Rightarrow> (Inr (sv, self), w)
      | None \<Rightarrow>
          andThen (createShare self shareeUID BIND_MODE_DIRECT None shareName_opt)
            (\<lambda>(sv_opt, self') w1.
               case sv_opt of
                 None \<Rightarrow> (Inl AttributeError, w1)
               | Some sv \<Rightarrow>
                   (let w2 = newShare sv None w1
                    in if home_external (viewerHome sv)
                       then (Inr (sv, self'), sendExternalInvite self' sv w2)
                       else (Inr (sv, self'), w2))) w)"

text \<open>\<^verbatim>\<open>uninviteUIDFromShare(shareeUID)\<close>.\<close>

definition uninviteUIDFromShare :: "view \<Rightarrow> string \<Rightarrow> world \<Rightarrow> world" where
  "uninviteUIDFromShare self shareeUID w =
     (case shareeView self shareeUID w of
        None \<Rightarrow> w
      | Some sv \<Rightarrow>
          (let w1 = (if home_external (viewerHome sv) then sendExternalUninvite self sv w
                     else if \<not> direct sv then
                       (if shareStatus sv \<noteq> BIND_STATUS_ACCEPTED
                        then removeInviteNotification self sv w
                        else sendInviteNotification self sv (Some BIND_STATUS_DELETED) w)
                     else w)
           in removeShare self sv w1))"

text \<open>\<^verbatim>\<open>acceptShare(summary)\<close> and \<^verbatim>\<open>declineShare()\<close> on the sharee's view; each returns
  \<open>self\<close> as mutated by the owner's \<^verbatim>\<open>updateShare\<close>.\<close>

definition acceptShare :: "view \<Rightarrow> string option \<Rightarrow> world \<Rightarrow> view result" where
  "acceptShare self summary w =
     (if \<not> direct self \<and> shareStatus self \<noteq> BIND_STATUS_ACCEPTED then
        (let w1 = (if external self
                   then replyExternalInvite self BIND_STATUS_ACCEPTED summary w else w)
         in case ownerView self w1 of
              None \<Rightarrow> (Inl AttributeError, w1)
            | Some ov \<Rightarrow>
                (case updateShare ov self None (Some BIND_STATUS_ACCEPTED) None w1 of
                   (self', w2) \<Rightarrow>
                     (let w3 = newShare self' summary w2
                      in if \<not> external ov
                         then (Inr self', sendReplyNotification self' ov summary w3)
                         else (Inr self', w3))))
      else (Inr self, w))"

definition declineShare :: "view \<Rightarrow> world \<Rightarrow> view result" where
  "declineShare self w =
     (if \<not> direct self \<and> shareStatus self \<noteq> BIND_STATUS_DECLINED then
        (let w1 = (if external self
                   then replyExternalInvite self BIND_STATUS_DECLINED None w else w)
         in case ownerView self w1 of
              None \<Rightarrow> (Inl AttributeError, w1)
            | Some ov \<Rightarrow>
                (case updateShare ov self None (Some BIND_STATUS_DECLINED) None w1 of
                   (self', w2) \<Rightarrow>
                     if \<not> external ov
                     then (Inr self', sendReplyNotification self' ov None w2)
                     else (Inr self', w2)))
      else (Inr self, w))"

text \<open>\<^verbatim>\<open>deleteShare()\<close> on the sharee's view.\<close>

definition deleteShare :: "view \<Rightarrow> world \<Rightarrow> view result" where
  "deleteShare self w =
     (if direct self then
        (case ownerView self w of
           None \<Rightarrow> (Inl AttributeError, w)
         | Some ov \<Rightarrow>
             (let w1 = removeShare ov self w
              in if external ov
                 then (Inr self, replyExternalInvite self BIND_STATUS_DECLINED None w1)
                 else (Inr self, w1)))
      else declineShare self w)"

section \<open>SharingHomeMixIn\<close>

text \<open>\<^verbatim>\<open>acceptShare(shareUID, summary)\<close> and \<^verbatim>\<open>declineShare(shareUID)\<close> of a home.\<close>

definition home_acceptShare :: "home \<Rightarrow> string \<Rightarrow> string option \<Rightarrow> world \<Rightarrow> (view option) result" where
  "home_acceptShare self uid summary w =
     (case anyObjectWithShareUID w self uid of
        None \<Rightarrow> (Inr None, w)
      | Some sv \<Rightarrow> andThen (acceptShare sv summary) (\<lambda>sv' w1. (Inr (Some sv'), w1)) w)"

definition home_declineShare :: "home \<Rightarrow> string \<Rightarrow> world \<Rightarrow> bool result" where
  "home_declineShare self uid w =
     (case anyObjectWithShareUID w self uid of
        None \<Rightarrow> (Inr False, w)
      | Some sv \<Rightarrow> andThen (declineShare sv) (\<lambda>sv' w1. (Inr True, w1)) w)"

text \<open>Modelled from the spec: creation of a collection in a home fails when the name
  is taken in that home; otherwise the collection gets a fresh resource id and its OWN
  bind record (section 4.3, name-collision repair; section 3).\<close>

definition createChildWithName :: "home \<Rightarrow> string \<Rightarrow> nat option \<Rightarrow> world \<Rightarrow> view result" where
  "createChildWithName h n ext w =
     (if list_ex (\<lambda>r. HOME_RESOURCE_ID r = home_resourceID h \<and> RESOURCE_NAME r = n) (binds w)
      then (Inl HomeChildNameAlreadyExistsError, w)
      else
        (let row = \<lparr>HOME_RESOURCE_ID = home_resourceID h,
                    RESOURCE_ID = resource_seq w,
                    EXTERNAL_ID = ext,
                    RESOURCE_NAME = n,
                    BIND_MODE = BIND_MODE_OWN,
                    BIND_STATUS = BIND_STATUS_ACCEPTED,
                    BIND_REVISION = 0,
                    MESSAGE = None\<rparr>;
             v = view_of h h row
         in (Inr v, emit (CreateChild (home_resourceID h) (resource_seq w))
                      (w\<lparr>binds := binds w @ [row], resource_seq := Suc (resource_seq w)\<rparr>))))"

text \<open>Modelled from the spec: removing an external (shadow) collection deletes the
  collection with its bind records and takes it out of the home's index of children
  (section 4.3, "delete the stale shadow").\<close>

definition removeExternalChild :: "home \<Rightarrow> view \<Rightarrow> world \<Rightarrow> world" where
  "removeExternalChild h v w =
     emit (RemoveExternalChild (home_resourceID h) (resourceID v))
       (w\<lparr>binds := filter (\<lambda>r. RESOURCE_ID r \<noteq> resourceID v) (binds w),
          children := (children w)
            (home_resourceID h :=
               (children w (home_resourceID h))
                 (ByName (name v) := None, ByID (resourceID v) := None))\<rparr>)"

text \<open>Modelled from the spec: the capability of restricting the component types of a
  collection, which only some resource classes have (section 9).\<close>

definition setSupportedComponents :: "view \<Rightarrow> string \<Rightarrow> world \<Rightarrow> world" where
  "setSupportedComponents v comps w =
     emit (SetSupportedComponents (resourceID v) comps)
       (w\<lparr>supportedComponents := (supportedComponents w)(resourceID v := Some comps)\<rparr>)"

text \<open>\<^verbatim>\<open>setInviteCopyProperties\<close> does nothing in this class; the call is recorded.\<close>

definition setInviteCopyProperties :: "view \<Rightarrow> world \<Rightarrow> world" where
  "setInviteCopyProperties v w =
     emit (SetInviteCopyProperties (home_resourceID (viewerHome v)) (resourceID v)) w"

text \<open>The part of \<^verbatim>\<open>processExternalInvite\<close> that resolves or creates the owner's
  collection.\<close>

definition externalOwnerView :: "home \<Rightarrow> nat \<Rightarrow> string \<Rightarrow> string option \<Rightarrow> world \<Rightarrow> view result" where
  "externalOwnerView oh ownerRID ownerName supported_components w =
     (case childWithExternalID w oh ownerRID of
        Some ov \<Rightarrow> (Inr ov, w)
      | None \<Rightarrow>
          andThen
            (\<lambda>w. case createChildWithName oh ownerName (Some ownerRID) w of
               (Inl HomeChildNameAlreadyExistsError, w1) \<Rightarrow>
                 (case childWithName w1 oh ownerName of
                    None \<Rightarrow> (Inl AttributeError, w1)
                  | Some oldOwnerView \<Rightarrow>
                      if length (sharingInvites oldOwnerView w1) \<noteq> 0 then
                        (Inl HomeChildNameAlreadyExistsError,
                         emit (LogError ''External invite collection name is present with a different externalID and still has shares'') w1)
                      else
                        createChildWithName oh ownerName (Some ownerRID)
                          (removeExternalChild oh oldOwnerView
                             (emit (LogError ''External invite collection name is present with a different externalID - trying to fix'') w1)))
             | r \<Rightarrow> r)
            (\<lambda>ov w1.
               case supported_components of
                 Some comps \<Rightarrow>
                   if hasSupportedComponents w1
                   then (Inr ov, setSupportedComponents ov comps w1) else (Inr ov, w1)
               | None \<Rightarrow> (Inr ov, w1)) w)"

text \<open>\<^verbatim>\<open>processExternalInvite\<close> on the sharee's home \<open>self\<close>.\<close>

definition processExternalInvite :: "home \<Rightarrow> string \<Rightarrow> nat \<Rightarrow> string \<Rightarrow> string \<Rightarrow> bind_mode \<Rightarrow> string option \<Rightarrow> string option \<Rightarrow> world \<Rightarrow> unit result" where
  "processExternalInvite self ownerUID ownerRID ownerName uid mode summary supported_components w =
     (case homeWithUID ownerUID True w of
        (None, w1) \<Rightarrow> (Inl (ExternalShareFailed (''Invalid owner UID: '' @ ownerUID)), w1)
      | (Some oh, w1) \<Rightarrow>
          if \<not> home_external oh
          then (Inl (ExternalShareFailed (''Invalid owner UID: '' @ ownerUID)), w1)
          else
            andThen (externalOwnerView oh ownerRID ownerName supported_components)
              (\<lambda>ov.
                 andThen
                   (if mode = BIND_MODE_DIRECT
                    then directShareWithUser ov (home_uid self) (Some uid)
                    else inviteUIDToShare ov (home_uid self) mode summary (Some uid))
                   (\<lambda>(sv, ov') w2. (Inr (), setInviteCopyProperties sv w2))) w1)"

text \<open>\<^verbatim>\<open>processExternalUninvite\<close> on the sharee's home \<open>self\<close>.\<close>

definition processExternalUninvite :: "home \<Rightarrow> string \<Rightarrow> nat \<Rightarrow> string \<Rightarrow> world \<Rightarrow> unit result" where
  "processExternalUninvite self ownerUID ownerRID uid w =
     (case fst (homeWithUID ownerUID False w) of
        None \<Rightarrow> (Inl (ExternalShareFailed (''Invalid owner UID: '' @ ownerUID)), w)
      | Some oh \<Rightarrow>
          if \<not> home_external oh
          then (Inl (ExternalShareFailed (''Invalid owner UID: '' @ ownerUID)), w)
          else
            (case childWithExternalID w oh ownerRID of
               None \<Rightarrow> (Inl (ExternalShareFailed (''Invalid share ID: '' @ uid)), w)
             | Some ov \<Rightarrow>
                 (let w1 = uninviteUIDFromShare ov (home_uid self) w
                  in if length (sharingInvites ov w1) = 0
                     then (Inr (), removeExternalChild oh ov w1)
                     else (Inr (), w1))))"

text \<open>\<^verbatim>\<open>processExternalReply\<close>.\<close>

definition processExternalReply :: "home \<Rightarrow> string \<Rightarrow> string \<Rightarrow> string \<Rightarrow> bind_status \<Rightarrow> string option \<Rightarrow> world \<Rightarrow> unit result" where
  "processExternalReply self ownerUID shareeUID uid st summary w =
     (case fst (homeWithUID shareeUID False w) of
        None \<Rightarrow> (Inl (ExternalShareFailed (''Invalid sharee UID: '' @ shareeUID)), w)
      | Some shareeHome \<Rightarrow>
          if \<not> home_external shareeHome
          then (Inl (ExternalShareFailed (''Invalid sharee UID: '' @ shareeUID)), w)
          else
            (case anyObjectWithShareUID w shareeHome uid of
               None \<Rightarrow> (Inl (ExternalShareFailed (''Invalid share UID: '' @ uid)), w)
             | Some sv \<Rightarrow>
                 if st = BIND_STATUS_ACCEPTED then
                   andThen (home_acceptShare shareeHome uid summary) (\<lambda>_ w1. (Inr (), w1)) w
                 else if st = BIND_STATUS_DECLINED then
                   (if direct sv
                    then andThen (deleteShare sv) (\<lambda>_ w1. (Inr (), w1)) w
                    else andThen (home_declineShare shareeHome uid) (\<lambda>_ w1. (Inr (), w1)) w)
                 else (Inr (), w)))"

section \<open>Example worlds\<close>

text \<open>A local owner with one calendar (resource 10), a local sharee, a sharee hosted on
  another node, and the bind rows a scenario adds to the owner's own row.\<close>

definition ex_ownerHome :: home where
  "ex_ownerHome = \<lparr>home_uid = ''owner'', home_resourceID = 1, home_external = False\<rparr>"

definition ex_shareeHome :: home where
  "ex_shareeHome = \<lparr>home_uid = ''sharee'', home_resourceID = 2, home_external = False\<rparr>"

definition ex_remoteHome :: home where
  "ex_remoteHome = \<lparr>home_uid = ''remote'', home_resourceID = 3, home_external = True\<rparr>"

definition ex_ownRow :: bind_row where
  "ex_ownRow =
     \<lparr>HOME_RESOURCE_ID = 1, RESOURCE_ID = 10, EXTERNAL_ID = None,
      RESOURCE_NAME = ''calendar'', BIND_MODE = BIND_MODE_OWN,
      BIND_STATUS = BIND_STATUS_ACCEPTED, BIND_REVISION = 0, MESSAGE = None\<rparr>"

definition ex_shareRow :: "nat \<Rightarrow> string \<Rightarrow> bind_mode \<Rightarrow> bind_status \<Rightarrow> bind_row" where
  "ex_shareRow hid n m st =
     \<lparr>HOME_RESOURCE_ID = hid, RESOURCE_ID = 10, EXTERNAL_ID = None,
      RESOURCE_NAME = n, BIND_MODE = m, BIND_STATUS = st, BIND_REVISION = 0,
      MESSAGE = None\<rparr>"

definition ex_world :: "bind_row list \<Rightarrow> world" where
  "ex_world rows =
     \<lparr>homes = [ex_ownerHome, ex_shareeHome, ex_remoteHome],
      directory = (\<lambda>u. None),
      binds = ex_ownRow # rows,
      children = (\<lambda>h k. None),
      notifications = (\<lambda>p n. None),
      displayName = (\<lambda>h r. None),
      syncTokenRevision = (\<lambda>r. 7),
      hasSupportedComponents = False,
      supportedComponents = (\<lambda>r. None),
      resource_seq = 20,
      uuid4 = (\<lambda>n. ''uuid''),
      uuid_count = 0,
      retries = 1,
      queryCacher = True,
      nowUTC = ''20150101T000000Z'',
      trace = []\<rparr>"

definition ex_ownerView :: view where
  "ex_ownerView =
     \<lparr>viewerHome = ex_ownerHome, ownerHome = ex_ownerHome, bindMode = BIND_MODE_OWN,
      resourceID = 10, externalID = None, name = ''calendar'',
      bindStatus = BIND_STATUS_ACCEPTED, bindRevision = 0, bindMessage = None\<rparr>"

definition ex_shareeView :: "home \<Rightarrow> string \<Rightarrow> bind_mode \<Rightarrow> bind_status \<Rightarrow> view" where
  "ex_shareeView h n m st =
     \<lparr>viewerHome = h, ownerHome = ex_ownerHome, bindMode = m,
      resourceID = 10, externalID = None, name = n,
      bindStatus = st, bindRevision = 0, bindMessage = None\<rparr>"

section \<open>Notions used in the statements\<close>

text \<open>The data-model invariant a statement about an owner's view \<open>self\<close> relies on
  (section 3 of the specification): the view is owned, its home is a home of the world,
  the first bind record of the resource in that home is its OWN record, with status
  ACCEPTED, and every OWN record of the resource is in that home.\<close>

definition owner_resource :: "world \<Rightarrow> view \<Rightarrow> bool" where
  "owner_resource w self =
     (owned self \<and> ownerHome self = viewerHome self \<and>
      find (\<lambda>h. home_resourceID h = home_resourceID (viewerHome self)) (homes w) =
        Some (viewerHome self) \<and>
      (case find (bind_key (resourceID self) (home_resourceID (viewerHome self))) (binds w) of
         None \<Rightarrow> False
       | Some r \<Rightarrow> BIND_MODE r = BIND_MODE_OWN \<and> BIND_STATUS r = BIND_STATUS_ACCEPTED) \<and>
      list_all (\<lambda>r. RESOURCE_ID r = resourceID self \<and> BIND_MODE r = BIND_MODE_OWN \<longrightarrow>
                     HOME_RESOURCE_ID r = home_resourceID (viewerHome self)) (binds w))"

text \<open>The bind rows of a resource in a home.\<close>

definition pair_rows :: "world \<Rightarrow> nat \<Rightarrow> nat \<Rightarrow> bind_row list" where
  "pair_rows w rid hid = filter (bind_key rid hid) (binds w)"

text \<open>The effect of \<^verbatim>\<open>setShared(True)\<close> on a bind row, and the row \<^verbatim>\<open>doInsert\<close> inserts.\<close>

definition shared_row :: "view \<Rightarrow> bind_row \<Rightarrow> bind_row" where
  "shared_row self r =
     (if bindMessage self \<noteq> Some ''shared'' \<and>
         bind_key (resourceID self) (home_resourceID (viewerHome self)) r
      then r\<lparr>MESSAGE := Some ''shared''\<rparr> else r)"

definition chosenName :: "string option \<Rightarrow> world \<Rightarrow> string" where
  "chosenName nopt w = (case nopt of Some n \<Rightarrow> n | None \<Rightarrow> uuid4 w (uuid_count w))"

definition newBindRow :: "view \<Rightarrow> home \<Rightarrow> bind_mode \<Rightarrow> bind_status \<Rightarrow> string option \<Rightarrow> string option \<Rightarrow> world \<Rightarrow> bind_row" where
  "newBindRow self shareeHome mode st summary nopt w =
     \<lparr>HOME_RESOURCE_ID = home_resourceID shareeHome,
      RESOURCE_ID = resourceID self,
      EXTERNAL_ID = externalID self,
      RESOURCE_NAME = chosenName nopt w,
      BIND_MODE = mode,
      BIND_STATUS = st,
      BIND_REVISION = (if st = BIND_STATUS_ACCEPTED then syncTokenRevision w (resourceID self)
                       else 0),
      MESSAGE = summary\<rparr>"

text \<open>A row can be inserted for the resource of \<open>self\<close> in a home under a name when the
  home has no row of the resource and no row of that name.\<close>

definition can_insert :: "view \<Rightarrow> home \<Rightarrow> string \<Rightarrow> world \<Rightarrow> bool" where
  "can_insert self shareeHome n w =
     (\<not> list_ex (\<lambda>r. HOME_RESOURCE_ID r = home_resourceID shareeHome \<and>
                      (RESOURCE_ID r = resourceID self \<or> RESOURCE_NAME r = n)) (binds w))"

text \<open>Calls that reach other principals: conduit messages and notification writes.\<close>

fun outward :: "event \<Rightarrow> bool" where
  "outward (Send_shareinvite a b c d e f g h) = True"
| "outward (Send_shareuninvite a b c d) = True"
| "outward (Send_sharereply a b c d e) = True"
| "outward (WriteNotificationObject a b c d) = True"
| "outward (RemoveNotificationObjectWithUID a b) = True"
| "outward e = False"

text \<open>The sharee view after the columns of a column map have been written to it.\<close>

definition applied_view :: "column_map \<Rightarrow> view \<Rightarrow> view" where
  "applied_view cm sv =
     sv\<lparr>bindMode := (case col_BIND_MODE cm of Some m \<Rightarrow> m | None \<Rightarrow> bindMode sv),
        bindStatus := (case col_BIND_STATUS cm of Some s \<Rightarrow> s | None \<Rightarrow> bindStatus sv),
        bindMessage := (case col_MESSAGE cm of Some m \<Rightarrow> Some m | None \<Rightarrow> bindMessage sv)\<rparr>"

text \<open>The invalidations \<^verbatim>\<open>invalidateQueryCache\<close> records for a view, and the calls a status
  transition of \<^verbatim>\<open>_changedStatus\<close> records for a view that has its new status.\<close>

definition cacheEvents :: "view \<Rightarrow> world \<Rightarrow> event list" where
  "cacheEvents v w = (if queryCacher w then map InvalidateAfterCommit (queryCacheKeys v) else [])"

definition transitionEvents :: "view \<Rightarrow> world \<Rightarrow> event list" where
  "transitionEvents v w =
     (if bindStatus v = BIND_STATUS_ACCEPTED then
        [InitSyncToken (home_resourceID (viewerHome v)) (resourceID v),
         SQL_Update (revisionMap (syncTokenRevision w (resourceID v))) (resourceID v)
           (home_resourceID (viewerHome v))]
        @ cacheEvents v w
      else if bindStatus v = BIND_STATUS_INVITED \<or> bindStatus v = BIND_STATUS_DECLINED then
        [DeletedSyncToken (home_resourceID (viewerHome v)) (resourceID v)]
      else [])"


text \<open>The home \<open>sh\<close> of a sharee holds exactly one bind record \<open>r\<close> of the resource of the
  owner's view \<open>self\<close>: the owner's resource is well formed, \<open>sh\<close> is the home its UID
  resolves to and is another home than the owner's, and the record is not an OWN
  record.\<close>

definition sole_share :: "world \<Rightarrow> view \<Rightarrow> home \<Rightarrow> bind_row \<Rightarrow> bool" where
  "sole_share w self sh r =
     (owner_resource w self \<and>
      find (\<lambda>h. home_uid h = home_uid sh) (homes w) = Some sh \<and>
      home_uid (viewerHome self) \<noteq> home_uid sh \<and>
      home_resourceID sh \<noteq> home_resourceID (viewerHome self) \<and>
      pair_rows w (resourceID self) (home_resourceID sh) = [r] \<and>
      BIND_MODE r \<noteq> BIND_MODE_OWN)"
section \<open>Basic facts about the state machine\<close>

lemmas ex_defs =
  ex_ownerHome_def ex_shareeHome_def ex_remoteHome_def ex_ownRow_def ex_shareRow_def
  ex_world_def ex_ownerView_def ex_shareeView_def

lemmas effect_defs =
  emit_def notifyPropertyChanged_def notifyChanged_def initSyncToken_def
  deletedSyncToken_def invalidateQueryCache_def updateBindColumnsQuery_def
  updateBindMessageQuery_def deleteBindForResourceIDAndHomeID_def

lemma apply_revisionMap [simp]:
  "apply_columns (revisionMap n) r = r\<lparr>BIND_REVISION := n\<rparr>"
  by (simp add: apply_columns_def revisionMap_def)

lemma changedStatus_view:
  "fst (changedStatus v n w) =
     (if bindStatus v = BIND_STATUS_ACCEPTED
      then v\<lparr>bindRevision := syncTokenRevision w (resourceID v)\<rparr> else v)"
  by (simp add: changedStatus_def initBindRevision_def Let_def effect_defs)

lemma changedStatus_binds:
  "binds (snd (changedStatus v n w)) =
     (if bindStatus v = BIND_STATUS_ACCEPTED
      then map (\<lambda>r. if bind_key (resourceID v) (home_resourceID (viewerHome v)) r
                     then r\<lparr>BIND_REVISION := syncTokenRevision w (resourceID v)\<rparr> else r)
               (binds w)
      else binds w)"
  by (simp add: changedStatus_def initBindRevision_def Let_def effect_defs)

lemma changedStatus_frame:
  "homes (snd (changedStatus v n w)) = homes w"
  "notifications (snd (changedStatus v n w)) = notifications w"
  "queryCacher (snd (changedStatus v n w)) = queryCacher w"
  "syncTokenRevision (snd (changedStatus v n w)) = syncTokenRevision w"
  "nowUTC (snd (changedStatus v n w)) = nowUTC w"
  by (simp_all add: changedStatus_def initBindRevision_def Let_def effect_defs)

lemma changedStatus_children:
  "children (snd (changedStatus v n w)) =
     (if bindStatus v = BIND_STATUS_ACCEPTED then
        (children w)(home_resourceID (viewerHome v) :=
           (children w (home_resourceID (viewerHome v)))
             (ByName (name v) \<mapsto> resourceID v, ByID (resourceID v) \<mapsto> resourceID v))
      else if bindStatus v = BIND_STATUS_INVITED \<or> bindStatus v = BIND_STATUS_DECLINED then
        (children w)(home_resourceID (viewerHome v) :=
           (children w (home_resourceID (viewerHome v)))
             (ByName (name v) := None, ByID (resourceID v) := None))
      else children w)"
  by (simp add: changedStatus_def initBindRevision_def Let_def effect_defs)

lemma changedStatus_trace:
  "trace (snd (changedStatus v n w)) = trace w @ transitionEvents v w"
  by (simp add: changedStatus_def initBindRevision_def Let_def effect_defs transitionEvents_def
      cacheEvents_def queryCacheKeys_def)

lemma updateShare_empty:
  "columnMap_empty (columnMap_of sv mode status summary) \<Longrightarrow>
     updateShare self sv mode status summary w = (sv, w)"
  by (simp add: updateShare_def)

lemma updateShare_view:
  "fst (updateShare self sv mode status summary w) =
     (let cm = columnMap_of sv mode status summary in
      (applied_view cm sv)\<lparr>bindRevision :=
         (if col_BIND_STATUS cm = Some BIND_STATUS_ACCEPTED
          then syncTokenRevision w (resourceID sv) else bindRevision sv)\<rparr>)"
  by (auto simp add: updateShare_def Let_def applied_view_def columnMap_empty_def case_prod_beta
        changedStatus_view effect_defs split: option.splits)

lemma updateShare_binds:
  "binds (snd (updateShare self sv mode status summary w)) =
     (let cm = columnMap_of sv mode status summary;
          b1 = map (\<lambda>r. if bind_key (resourceID self) (home_resourceID (viewerHome sv)) r
                         then apply_columns cm r else r) (binds w)
      in if columnMap_empty cm then binds w
         else if col_BIND_STATUS cm = Some BIND_STATUS_ACCEPTED
         then map (\<lambda>r. if bind_key (resourceID sv) (home_resourceID (viewerHome sv)) r
                        then r\<lparr>BIND_REVISION := syncTokenRevision w (resourceID sv)\<rparr> else r) b1
         else b1)"
  by (auto simp add: updateShare_def Let_def columnMap_empty_def case_prod_beta
        changedStatus_binds changedStatus_frame effect_defs split: option.splits)

lemma updateShare_frame:
  "homes (snd (updateShare self sv mode status summary w)) = homes w"
  "notifications (snd (updateShare self sv mode status summary w)) = notifications w"
  "queryCacher (snd (updateShare self sv mode status summary w)) = queryCacher w"
  "syncTokenRevision (snd (updateShare self sv mode status summary w)) = syncTokenRevision w"
  "nowUTC (snd (updateShare self sv mode status summary w)) = nowUTC w"
  by (auto simp add: updateShare_def Let_def columnMap_empty_def case_prod_beta
        changedStatus_frame effect_defs split: option.splits)

lemma updateShare_children:
  "children (snd (updateShare self sv mode status summary w)) =
     (case col_BIND_STATUS (columnMap_of sv mode status summary) of
        None \<Rightarrow> children w
      | Some s \<Rightarrow>
         if s = BIND_STATUS_ACCEPTED then
          (children w)(home_resourceID (viewerHome sv) :=
             (children w (home_resourceID (viewerHome sv)))
               (ByName (name sv) \<mapsto> resourceID sv, ByID (resourceID sv) \<mapsto> resourceID sv))
        else if s = BIND_STATUS_INVITED \<or> s = BIND_STATUS_DECLINED then
          (children w)(home_resourceID (viewerHome sv) :=
             (children w (home_resourceID (viewerHome sv)))
               (ByName (name sv) := None, ByID (resourceID sv) := None))
        else children w)"
  by (auto simp add: updateShare_def Let_def columnMap_empty_def case_prod_beta
        changedStatus_children changedStatus_view effect_defs split: option.splits)

lemma updateShare_trace:
  "trace (snd (updateShare self sv mode status summary w)) =
     (let cm = columnMap_of sv mode status summary in
      if columnMap_empty cm then trace w
      else trace w
           @ [SQL_Update cm (resourceID self) (home_resourceID (viewerHome sv))]
           @ (case col_BIND_STATUS cm of
                None \<Rightarrow> []
              | Some s \<Rightarrow> transitionEvents (applied_view (cm\<lparr>col_MESSAGE := None\<rparr>) sv) w)
           @ cacheEvents (fst (updateShare self sv mode status summary w)) w
           @ [NotifyPropertyChanged (home_resourceID (viewerHome self)) (resourceID self),
              NotifyChanged (home_resourceID (viewerHome sv))])"
  by (auto simp add: updateShare_def Let_def columnMap_empty_def case_prod_beta applied_view_def
        changedStatus_trace changedStatus_view changedStatus_frame effect_defs
        transitionEvents_def cacheEvents_def queryCacheKeys_def split: option.splits)

lemma bind_key_apply_columns [simp]:
  "bind_key rid hid (apply_columns cm r) = bind_key rid hid r"
  by (simp add: bind_key_def apply_columns_def)

lemma bind_key_update [simp]:
  "bind_key rid hid (r\<lparr>BIND_REVISION := n\<rparr>) = bind_key rid hid r"
  "bind_key rid hid (r\<lparr>MESSAGE := m\<rparr>) = bind_key rid hid r"
  by (simp_all add: bind_key_def)

lemma apply_columns_fields [simp]:
  "BIND_STATUS (apply_columns cm r) =
     (case col_BIND_STATUS cm of Some s \<Rightarrow> s | None \<Rightarrow> BIND_STATUS r)"
  "BIND_MODE (apply_columns cm r) =
     (case col_BIND_MODE cm of Some m \<Rightarrow> m | None \<Rightarrow> BIND_MODE r)"
  "MESSAGE (apply_columns cm r) =
     (case col_MESSAGE cm of Some m \<Rightarrow> Some m | None \<Rightarrow> MESSAGE r)"
  "RESOURCE_ID (apply_columns cm r) = RESOURCE_ID r"
  "HOME_RESOURCE_ID (apply_columns cm r) = HOME_RESOURCE_ID r"
  "RESOURCE_NAME (apply_columns cm r) = RESOURCE_NAME r"
  "EXTERNAL_ID (apply_columns cm r) = EXTERNAL_ID r"
  "BIND_REVISION (apply_columns cm r) =
     (case col_BIND_REVISION cm of Some n \<Rightarrow> n | None \<Rightarrow> BIND_REVISION r)"
  by (simp_all add: apply_columns_def)

lemma updateShare_status_view:
  "col_BIND_STATUS (columnMap_of sv mode status summary) = Some s \<Longrightarrow>
     bindStatus (fst (updateShare self sv mode status summary w)) = s"
  by (simp add: updateShare_view Let_def applied_view_def)

lemma updateShare_status_rows:
  assumes "col_BIND_STATUS (columnMap_of sv mode status summary) = Some s"
  shows "list_all (\<lambda>r. BIND_STATUS r = s)
           (filter (bind_key (resourceID self) (home_resourceID (viewerHome sv)))
              (binds (snd (updateShare self sv mode status summary w))))"
proof -
  have ne: "\<not> columnMap_empty (columnMap_of sv mode status summary)"
    using assms by (simp add: columnMap_empty_def)
  show ?thesis
    using assms ne
    by (simp add: updateShare_binds Let_def list_all_iff) (auto split: if_splits)
qed

text \<open>The lookups read the homes and the bind table only.\<close>

lemma ownerHomeOf_cong:
  "homes w' = homes w \<Longrightarrow> binds w' = binds w \<Longrightarrow> ownerHomeOf w' rid = ownerHomeOf w rid"
  by (simp add: ownerHomeOf_def split: option.splits)

lemma makeView_cong:
  "homes w' = homes w \<Longrightarrow> binds w' = binds w \<Longrightarrow> makeView w' h r = makeView w h r"
  by (simp add: makeView_def view_of_def ownerHomeOf_cong [of w' w])

lemma objectWith_cong:
  "homes w' = homes w \<Longrightarrow> binds w' = binds w \<Longrightarrow>
     objectWith w' h P a = objectWith w h P a"
  by (simp add: objectWith_def makeView_cong [of w' w] split: option.splits)

lemma lookups_cong:
  assumes "homes w' = homes w" and "binds w' = binds w"
  shows "allChildWithID w' h rid = allChildWithID w h rid"
    and "childWithID w' h rid = childWithID w h rid"
    and "anyObjectWithShareUID w' h n = anyObjectWithShareUID w h n"
    and "childWithName w' h n = childWithName w h n"
    and "childWithExternalID w' h x = childWithExternalID w h x"
    and "ownerView self w' = ownerView self w"
    and "shareeView self u w' = shareeView self u w"
  using assms
  by (simp_all add: allChildWithID_def childWithID_def anyObjectWithShareUID_def
        childWithName_def childWithExternalID_def ownerView_def shareeView_def
        homeWithUID_def objectWith_cong [of w' w] split: option.splits)

lemma emit_fields [simp]:
  "binds (emit e w) = binds w"
  "homes (emit e w) = homes w"
  "children (emit e w) = children w"
  "notifications (emit e w) = notifications w"
  "queryCacher (emit e w) = queryCacher w"
  "syncTokenRevision (emit e w) = syncTokenRevision w"
  "nowUTC (emit e w) = nowUTC w"
  "trace (emit e w) = trace w @ [e]"
  by (simp_all add: emit_def)

lemma cacheEvents_emit [simp]: "cacheEvents v (emit e w) = cacheEvents v w"
  by (simp add: cacheEvents_def)

lemma transitionEvents_emit [simp]: "transitionEvents v (emit e w) = transitionEvents v w"
  by (simp add: transitionEvents_def)

lemma lookups_emit [simp]:
  "allChildWithID (emit e w) h rid = allChildWithID w h rid"
  "childWithID (emit e w) h rid = childWithID w h rid"
  "anyObjectWithShareUID (emit e w) h n = anyObjectWithShareUID w h n"
  "childWithName (emit e w) h n = childWithName w h n"
  "childWithExternalID (emit e w) h x = childWithExternalID w h x"
  "ownerView self (emit e w) = ownerView self w"
  "shareeView self u (emit e w) = shareeView self u w"
  by (simp_all add: lookups_cong [of "emit e w" w])

section \<open>updateShare: the column diff and its side effects\<close>

text \<open>
  Claim C7, as the specification states it, does not hold: when no requested value
  differs from the sharee view, \<^verbatim>\<open>updateShare\<close> returns before the cache invalidation and
  the change notifications. With a query cacher configured, a call that requests the
  current mode and status records nothing at all.
\<close>

theorem updateShare_always_notifies_counterexample:
  "NotifyChanged 2 \<notin>
     set (trace (snd (updateShare ex_ownerView
            (ex_shareeView ex_shareeHome ''s1'' BIND_MODE_READ BIND_STATUS_INVITED)
            (Some BIND_MODE_READ) (Some BIND_STATUS_INVITED) None
            (ex_world [ex_shareRow 2 ''s1'' BIND_MODE_READ BIND_STATUS_INVITED])))) \<and>
   NotifyPropertyChanged 1 10 \<notin>
     set (trace (snd (updateShare ex_ownerView
            (ex_shareeView ex_shareeHome ''s1'' BIND_MODE_READ BIND_STATUS_INVITED)
            (Some BIND_MODE_READ) (Some BIND_STATUS_INVITED) None
            (ex_world [ex_shareRow 2 ''s1'' BIND_MODE_READ BIND_STATUS_INVITED])))) \<and>
   InvalidateAfterCommit (KeyForHomeChildMetaData 10) \<notin>
     set (trace (snd (updateShare ex_ownerView
            (ex_shareeView ex_shareeHome ''s1'' BIND_MODE_READ BIND_STATUS_INVITED)
            (Some BIND_MODE_READ) (Some BIND_STATUS_INVITED) None
            (ex_world [ex_shareRow 2 ''s1'' BIND_MODE_READ BIND_STATUS_INVITED])))) \<and>
   queryCacher (ex_world [ex_shareRow 2 ''s1'' BIND_MODE_READ BIND_STATUS_INVITED])"
  by (simp add: updateShare_def columnMap_of_def columnMap_empty_def ex_defs)

text \<open>
  Claim C7, amended. A column is in the diff exactly when a value is requested for it and
  differs from the sharee view; the revision column is never in the diff. With an empty
  diff \<^verbatim>\<open>updateShare\<close> changes nothing: no storage write, no invalidation, no change
  notification. With a non-empty diff the call does, in this order and nothing else:

  \<^item> one update of the rows keyed by the owner's resource id and the sharee's home, which
    writes the columns of the diff and leaves every other column and every other row as
    it was;
  \<^item> when status is in the diff, the status transition: on a move to accepted the sync
    token is initialised, a second update writes the revision column of the rows keyed by
    the sharee view's resource id and the sharee's home, the cache keys of the sharee view
    are invalidated, and the view enters the index of children; on a move to invited or
    declined the sync token is deleted and the view leaves the index; on a move to any
    other status, and when status is not in the diff, nothing;
  \<^item> the invalidation of the cache keys of the sharee view, when a query cacher is
    configured;
  \<^item> the change notifications of the owner's resource and of the sharee's home.

  The sharee view returned carries the values of the diff, and the revision on a move to
  accepted; homes and stored notifications are left as they were.
\<close>

theorem updateShare_minimal_diff:
  "(col_BIND_MODE (columnMap_of sv mode status summary) =
      (if mode = Some (bindMode sv) then None else mode)) \<and>
   (col_BIND_STATUS (columnMap_of sv mode status summary) =
      (if status = Some (bindStatus sv) then None else status)) \<and>
   (col_MESSAGE (columnMap_of sv mode status summary) =
      (if summary = bindMessage sv then None else summary)) \<and>
   (col_BIND_REVISION (columnMap_of sv mode status summary) = None) \<and>
   (columnMap_empty (columnMap_of sv mode status summary) \<longrightarrow>
      updateShare self sv mode status summary w = (sv, w)) \<and>
   (\<not> columnMap_empty (columnMap_of sv mode status summary) \<longrightarrow>
      fst (updateShare self sv mode status summary w) =
        sv\<lparr>bindMode := (case col_BIND_MODE (columnMap_of sv mode status summary) of
                           Some m \<Rightarrow> m | None \<Rightarrow> bindMode sv),
           bindStatus := (case col_BIND_STATUS (columnMap_of sv mode status summary) of
                           Some s \<Rightarrow> s | None \<Rightarrow> bindStatus sv),
           bindMessage := (case col_MESSAGE (columnMap_of sv mode status summary) of
                           Some m \<Rightarrow> Some m | None \<Rightarrow> bindMessage sv),
           bindRevision :=
             (if col_BIND_STATUS (columnMap_of sv mode status summary)
                   = Some BIND_STATUS_ACCEPTED
              then syncTokenRevision w (resourceID sv) else bindRevision sv)\<rparr> \<and>
      binds (snd (updateShare self sv mode status summary w)) =
        map (\<lambda>r. if bind_key (resourceID sv) (home_resourceID (viewerHome sv)) r \<and>
                     col_BIND_STATUS (columnMap_of sv mode status summary)
                       = Some BIND_STATUS_ACCEPTED
                  then r\<lparr>BIND_REVISION := syncTokenRevision w (resourceID sv)\<rparr> else r)
          (map (\<lambda>r. if bind_key (resourceID self) (home_resourceID (viewerHome sv)) r
                    then r\<lparr>BIND_MODE :=
                             (case col_BIND_MODE (columnMap_of sv mode status summary) of
                                Some m \<Rightarrow> m | None \<Rightarrow> BIND_MODE r),
                           BIND_STATUS :=
                             (case col_BIND_STATUS (columnMap_of sv mode status summary) of
                                Some s \<Rightarrow> s | None \<Rightarrow> BIND_STATUS r),
                           MESSAGE :=
                             (case col_MESSAGE (columnMap_of sv mode status summary) of
                                Some m \<Rightarrow> Some m | None \<Rightarrow> MESSAGE r)\<rparr>
                    else r)
             (binds w)) \<and>
      children (snd (updateShare self sv mode status summary w)) =
        (if col_BIND_STATUS (columnMap_of sv mode status summary)
              = Some BIND_STATUS_ACCEPTED then
           (children w)(home_resourceID (viewerHome sv) :=
              (children w (home_resourceID (viewerHome sv)))
                (ByName (name sv) \<mapsto> resourceID sv, ByID (resourceID sv) \<mapsto> resourceID sv))
         else if col_BIND_STATUS (columnMap_of sv mode status summary)
                   = Some BIND_STATUS_INVITED \<or>
                 col_BIND_STATUS (columnMap_of sv mode status summary)
                   = Some BIND_STATUS_DECLINED then
           (children w)(home_resourceID (viewerHome sv) :=
              (children w (home_resourceID (viewerHome sv)))
                (ByName (name sv) := None, ByID (resourceID sv) := None))
         else children w) \<and>
      trace (snd (updateShare self sv mode status summary w)) =
        trace w
        @ [SQL_Update (columnMap_of sv mode status summary) (resourceID self)
             (home_resourceID (viewerHome sv))]
        @ (if col_BIND_STATUS (columnMap_of sv mode status summary)
                = Some BIND_STATUS_ACCEPTED then
             [InitSyncToken (home_resourceID (viewerHome sv)) (resourceID sv),
              SQL_Update (revisionMap (syncTokenRevision w (resourceID sv))) (resourceID sv)
                (home_resourceID (viewerHome sv))]
             @ (if queryCacher w then map InvalidateAfterCommit (queryCacheKeys sv) else [])
           else if col_BIND_STATUS (columnMap_of sv mode status summary)
                     = Some BIND_STATUS_INVITED \<or>
                   col_BIND_STATUS (columnMap_of sv mode status summary)
                     = Some BIND_STATUS_DECLINED then
             [DeletedSyncToken (home_resourceID (viewerHome sv)) (resourceID sv)]
           else [])
        @ (if queryCacher w then map InvalidateAfterCommit (queryCacheKeys sv) else [])
        @ [NotifyPropertyChanged (home_resourceID (viewerHome self)) (resourceID self),
           NotifyChanged (home_resourceID (viewerHome sv))] \<and>
      homes (snd (updateShare self sv mode status summary w)) = homes w \<and>
      notifications (snd (updateShare self sv mode status summary w)) = notifications w)"
proof -
  let ?cm = "columnMap_of sv mode status summary"
  let ?u = "updateShare self sv mode status summary w"
  have diff: "col_BIND_MODE ?cm = (if mode = Some (bindMode sv) then None else mode)"
    "col_BIND_STATUS ?cm = (if status = Some (bindStatus sv) then None else status)"
    "col_MESSAGE ?cm = (if summary = bindMessage sv then None else summary)"
    "col_BIND_REVISION ?cm = None"
    by (auto simp add: columnMap_of_def)
  have empty: "columnMap_empty ?cm \<longrightarrow> ?u = (sv, w)"
    by (simp add: updateShare_empty)
  have keys: "\<And>v. queryCacheKeys (applied_view ?cm sv\<lparr>bindRevision := v\<rparr>) = queryCacheKeys sv"
    "queryCacheKeys (applied_view (?cm\<lparr>col_MESSAGE := None\<rparr>) sv) = queryCacheKeys sv"
    by (simp_all add: queryCacheKeys_def applied_view_def)
  have view: "fst ?u =
        sv\<lparr>bindMode := (case col_BIND_MODE ?cm of Some m \<Rightarrow> m | None \<Rightarrow> bindMode sv),
           bindStatus := (case col_BIND_STATUS ?cm of Some s \<Rightarrow> s | None \<Rightarrow> bindStatus sv),
           bindMessage := (case col_MESSAGE ?cm of Some m \<Rightarrow> Some m | None \<Rightarrow> bindMessage sv),
           bindRevision :=
             (if col_BIND_STATUS ?cm = Some BIND_STATUS_ACCEPTED
              then syncTokenRevision w (resourceID sv) else bindRevision sv)\<rparr>"
    by (simp add: updateShare_view Let_def applied_view_def)
  have rows: "\<not> columnMap_empty ?cm \<longrightarrow> binds (snd ?u) =
        map (\<lambda>r. if bind_key (resourceID sv) (home_resourceID (viewerHome sv)) r \<and>
                     col_BIND_STATUS ?cm = Some BIND_STATUS_ACCEPTED
                  then r\<lparr>BIND_REVISION := syncTokenRevision w (resourceID sv)\<rparr> else r)
          (map (\<lambda>r. if bind_key (resourceID self) (home_resourceID (viewerHome sv)) r
                    then r\<lparr>BIND_MODE :=
                             (case col_BIND_MODE ?cm of Some m \<Rightarrow> m | None \<Rightarrow> BIND_MODE r),
                           BIND_STATUS :=
                             (case col_BIND_STATUS ?cm of Some s \<Rightarrow> s | None \<Rightarrow> BIND_STATUS r),
                           MESSAGE :=
                             (case col_MESSAGE ?cm of Some m \<Rightarrow> Some m | None \<Rightarrow> MESSAGE r)\<rparr>
                    else r)
             (binds w))"
    using diff(4) by (simp add: updateShare_binds Let_def apply_columns_def)
  have kids: "children (snd ?u) =
        (if col_BIND_STATUS ?cm = Some BIND_STATUS_ACCEPTED then
           (children w)(home_resourceID (viewerHome sv) :=
              (children w (home_resourceID (viewerHome sv)))
                (ByName (name sv) \<mapsto> resourceID sv, ByID (resourceID sv) \<mapsto> resourceID sv))
         else if col_BIND_STATUS ?cm = Some BIND_STATUS_INVITED \<or>
                 col_BIND_STATUS ?cm = Some BIND_STATUS_DECLINED then
           (children w)(home_resourceID (viewerHome sv) :=
              (children w (home_resourceID (viewerHome sv)))
                (ByName (name sv) := None, ByID (resourceID sv) := None))
         else children w)"
    by (simp add: updateShare_children split: option.splits)
  have events: "\<not> columnMap_empty ?cm \<longrightarrow> trace (snd ?u) =
        trace w
        @ [SQL_Update ?cm (resourceID self) (home_resourceID (viewerHome sv))]
        @ (if col_BIND_STATUS ?cm = Some BIND_STATUS_ACCEPTED then
             [InitSyncToken (home_resourceID (viewerHome sv)) (resourceID sv),
              SQL_Update (revisionMap (syncTokenRevision w (resourceID sv))) (resourceID sv)
                (home_resourceID (viewerHome sv))]
             @ (if queryCacher w then map InvalidateAfterCommit (queryCacheKeys sv) else [])
           else if col_BIND_STATUS ?cm = Some BIND_STATUS_INVITED \<or>
                   col_BIND_STATUS ?cm = Some BIND_STATUS_DECLINED then
             [DeletedSyncToken (home_resourceID (viewerHome sv)) (resourceID sv)]
           else [])
        @ (if queryCacher w then map InvalidateAfterCommit (queryCacheKeys sv) else [])
        @ [NotifyPropertyChanged (home_resourceID (viewerHome self)) (resourceID self),
           NotifyChanged (home_resourceID (viewerHome sv))]"
    by (simp add: updateShare_trace updateShare_view Let_def transitionEvents_def
          cacheEvents_def keys split: option.splits)
       (simp add: applied_view_def)
  have frame: "homes (snd ?u) = homes w" "notifications (snd ?u) = notifications w"
    by (simp_all add: updateShare_frame)
  from diff empty view rows kids events frame show ?thesis by blast
qed

text \<open>The theorem at three calls on a sharee invited with read access: one that requests
  write access (a diff of one column), one that requests what the view already holds
  (an empty diff), and one that accepts (status in the diff, and a second update for the
  revision).\<close>

theorem updateShare_minimal_diff_witness:
  "\<not> columnMap_empty
       (columnMap_of (ex_shareeView ex_shareeHome ''s1'' BIND_MODE_READ BIND_STATUS_INVITED)
          (Some BIND_MODE_WRITE) (Some BIND_STATUS_INVITED) None) \<and>
   trace (snd (updateShare ex_ownerView
            (ex_shareeView ex_shareeHome ''s1'' BIND_MODE_READ BIND_STATUS_INVITED)
            (Some BIND_MODE_WRITE) (Some BIND_STATUS_INVITED) None
            (ex_world [ex_shareRow 2 ''s1'' BIND_MODE_READ BIND_STATUS_INVITED]))) =
     [SQL_Update \<lparr>col_BIND_MODE = Some BIND_MODE_WRITE, col_BIND_STATUS = None,
                  col_MESSAGE = None, col_BIND_REVISION = None\<rparr> 10 2,
      InvalidateAfterCommit (KeyForHomeChildMetaData 10),
      InvalidateAfterCommit (KeyForObjectWithName 2 ''s1''),
      InvalidateAfterCommit (KeyForObjectWithResourceID 2 10),
      InvalidateAfterCommit (KeyForObjectWithExternalID 2 None),
      NotifyPropertyChanged 1 10, NotifyChanged 2] \<and>
   binds (snd (updateShare ex_ownerView
            (ex_shareeView ex_shareeHome ''s1'' BIND_MODE_READ BIND_STATUS_INVITED)
            (Some BIND_MODE_WRITE) (Some BIND_STATUS_INVITED) None
            (ex_world [ex_shareRow 2 ''s1'' BIND_MODE_READ BIND_STATUS_INVITED]))) =
     [ex_ownRow, ex_shareRow 2 ''s1'' BIND_MODE_WRITE BIND_STATUS_INVITED] \<and>
   columnMap_empty
       (columnMap_of (ex_shareeView ex_shareeHome ''s1'' BIND_MODE_READ BIND_STATUS_INVITED)
          (Some BIND_MODE_READ) None None) \<and>
   updateShare ex_ownerView
       (ex_shareeView ex_shareeHome ''s1'' BIND_MODE_READ BIND_STATUS_INVITED)
       (Some BIND_MODE_READ) None None
       (ex_world [ex_shareRow 2 ''s1'' BIND_MODE_READ BIND_STATUS_INVITED]) =
     (ex_shareeView ex_shareeHome ''s1'' BIND_MODE_READ BIND_STATUS_INVITED,
      ex_world [ex_shareRow 2 ''s1'' BIND_MODE_READ BIND_STATUS_INVITED]) \<and>
   \<not> columnMap_empty
       (columnMap_of (ex_shareeView ex_shareeHome ''s1'' BIND_MODE_READ BIND_STATUS_INVITED)
          None (Some BIND_STATUS_ACCEPTED) None) \<and>
   trace (snd (updateShare ex_ownerView
            (ex_shareeView ex_shareeHome ''s1'' BIND_MODE_READ BIND_STATUS_INVITED)
            None (Some BIND_STATUS_ACCEPTED) None
            (ex_world [ex_shareRow 2 ''s1'' BIND_MODE_READ BIND_STATUS_INVITED]))) =
     [SQL_Update \<lparr>col_BIND_MODE = None, col_BIND_STATUS = Some BIND_STATUS_ACCEPTED,
                  col_MESSAGE = None, col_BIND_REVISION = None\<rparr> 10 2,
      InitSyncToken 2 10,
      SQL_Update \<lparr>col_BIND_MODE = None, col_BIND_STATUS = None,
                  col_MESSAGE = None, col_BIND_REVISION = Some 7\<rparr> 10 2,
      InvalidateAfterCommit (KeyForHomeChildMetaData 10),
      InvalidateAfterCommit (KeyForObjectWithName 2 ''s1''),
      InvalidateAfterCommit (KeyForObjectWithResourceID 2 10),
      InvalidateAfterCommit (KeyForObjectWithExternalID 2 None),
      InvalidateAfterCommit (KeyForHomeChildMetaData 10),
      InvalidateAfterCommit (KeyForObjectWithName 2 ''s1''),
      InvalidateAfterCommit (KeyForObjectWithResourceID 2 10),
      InvalidateAfterCommit (KeyForObjectWithExternalID 2 None),
      NotifyPropertyChanged 1 10, NotifyChanged 2] \<and>
   binds (snd (updateShare ex_ownerView
            (ex_shareeView ex_shareeHome ''s1'' BIND_MODE_READ BIND_STATUS_INVITED)
            None (Some BIND_STATUS_ACCEPTED) None
            (ex_world [ex_shareRow 2 ''s1'' BIND_MODE_READ BIND_STATUS_INVITED]))) =
     [ex_ownRow,
      (ex_shareRow 2 ''s1'' BIND_MODE_READ BIND_STATUS_ACCEPTED)\<lparr>BIND_REVISION := 7\<rparr>]"
  using
    updateShare_minimal_diff [of
      "ex_shareeView ex_shareeHome ''s1'' BIND_MODE_READ BIND_STATUS_INVITED"
      "Some BIND_MODE_WRITE" "Some BIND_STATUS_INVITED" None ex_ownerView
      "ex_world [ex_shareRow 2 ''s1'' BIND_MODE_READ BIND_STATUS_INVITED]"]
    updateShare_minimal_diff [of
      "ex_shareeView ex_shareeHome ''s1'' BIND_MODE_READ BIND_STATUS_INVITED"
      "Some BIND_MODE_READ" None None ex_ownerView
      "ex_world [ex_shareRow 2 ''s1'' BIND_MODE_READ BIND_STATUS_INVITED]"]
    updateShare_minimal_diff [of
      "ex_shareeView ex_shareeHome ''s1'' BIND_MODE_READ BIND_STATUS_INVITED"
      None "Some BIND_STATUS_ACCEPTED" None ex_ownerView
      "ex_world [ex_shareRow 2 ''s1'' BIND_MODE_READ BIND_STATUS_INVITED]"]
  by (simp add: columnMap_of_def columnMap_empty_def queryCacheKeys_def revisionMap_def
        bind_key_def ex_defs)
section \<open>The index of children\<close>

text \<open>
  Claim C9, as the specification states it, does not hold: \<^verbatim>\<open>shareWith\<close> with no status
  creates a bind whose status is ACCEPTED and initialises its sync token and bind
  revision, but does not put the new view into \<^verbatim>\<open>_children\<close> of the sharee's home. After
  the call the one bind of resource 10 in home 2 is ACCEPTED and the index of home 2 has
  neither its name nor its resource id.
\<close>

theorem children_index_iff_accepted_counterexample:
  "fst (shareWith ex_ownerView ex_shareeHome BIND_MODE_READ None None (Some ''s1'')
          (ex_world [])) =
     Inr (''s1'', ex_ownerView\<lparr>bindMessage := Some ''shared''\<rparr>) \<and>
   map BIND_STATUS (filter (bind_key 10 2)
     (binds (snd (shareWith ex_ownerView ex_shareeHome BIND_MODE_READ None None (Some ''s1'')
                    (ex_world []))))) = [BIND_STATUS_ACCEPTED] \<and>
   children (snd (shareWith ex_ownerView ex_shareeHome BIND_MODE_READ None None (Some ''s1'')
                    (ex_world []))) 2 (ByName ''s1'') = None \<and>
   children (snd (shareWith ex_ownerView ex_shareeHome BIND_MODE_READ None None (Some ''s1'')
                    (ex_world []))) 2 (ByID 10) = None"
  by (simp add: shareWith_def shareWith_try_def subtransaction_def doInsert_def insert_conflict_def andThen_def
        anyObjectWithShareUID_def objectWith_def makeView_def view_of_def ownerHomeOf_def
        initBindRevision_def setShared_def owned_def bind_key_def Let_def effect_defs ex_defs)

text \<open>
  Claim C9, amended. An \<^verbatim>\<open>updateShare\<close> that moves the status of a bind into ACCEPTED
  writes that status to the bind row and puts the sharee view into the index of its home
  under both its name and its resource id; an \<^verbatim>\<open>updateShare\<close> that moves the status to
  INVITED or DECLINED writes that status and takes both keys out of the index; and
  \<^verbatim>\<open>removeShare\<close> takes both keys out of the index and deletes the bind row.
\<close>

theorem children_index_transitions:
  "(bindStatus sv \<noteq> BIND_STATUS_ACCEPTED \<longrightarrow>
      children (snd (updateShare self sv mode (Some BIND_STATUS_ACCEPTED) summary w))
        (home_resourceID (viewerHome sv)) (ByName (name sv)) = Some (resourceID sv) \<and>
      children (snd (updateShare self sv mode (Some BIND_STATUS_ACCEPTED) summary w))
        (home_resourceID (viewerHome sv)) (ByID (resourceID sv)) = Some (resourceID sv) \<and>
      bindStatus (fst (updateShare self sv mode (Some BIND_STATUS_ACCEPTED) summary w)) =
        BIND_STATUS_ACCEPTED \<and>
      list_all (\<lambda>r. BIND_STATUS r = BIND_STATUS_ACCEPTED)
        (filter (bind_key (resourceID self) (home_resourceID (viewerHome sv)))
           (binds (snd (updateShare self sv mode (Some BIND_STATUS_ACCEPTED) summary w))))) \<and>
   ((s = BIND_STATUS_INVITED \<or> s = BIND_STATUS_DECLINED) \<and> bindStatus sv \<noteq> s \<longrightarrow>
      children (snd (updateShare self sv mode (Some s) summary w))
        (home_resourceID (viewerHome sv)) (ByName (name sv)) = None \<and>
      children (snd (updateShare self sv mode (Some s) summary w))
        (home_resourceID (viewerHome sv)) (ByID (resourceID sv)) = None \<and>
      bindStatus (fst (updateShare self sv mode (Some s) summary w)) = s \<and>
      list_all (\<lambda>r. BIND_STATUS r = s)
        (filter (bind_key (resourceID self) (home_resourceID (viewerHome sv)))
           (binds (snd (updateShare self sv mode (Some s) summary w))))) \<and>
   children (removeShare self sv w) (home_resourceID (viewerHome sv)) (ByName (name sv)) = None \<and>
   children (removeShare self sv w) (home_resourceID (viewerHome sv)) (ByID (resourceID sv)) = None \<and>
   filter (bind_key (resourceID self) (home_resourceID (viewerHome sv)))
     (binds (removeShare self sv w)) = []"
proof -
  have acc: "bindStatus sv \<noteq> BIND_STATUS_ACCEPTED \<longrightarrow>
      children (snd (updateShare self sv mode (Some BIND_STATUS_ACCEPTED) summary w))
        (home_resourceID (viewerHome sv)) (ByName (name sv)) = Some (resourceID sv) \<and>
      children (snd (updateShare self sv mode (Some BIND_STATUS_ACCEPTED) summary w))
        (home_resourceID (viewerHome sv)) (ByID (resourceID sv)) = Some (resourceID sv) \<and>
      bindStatus (fst (updateShare self sv mode (Some BIND_STATUS_ACCEPTED) summary w)) =
        BIND_STATUS_ACCEPTED \<and>
      list_all (\<lambda>r. BIND_STATUS r = BIND_STATUS_ACCEPTED)
        (filter (bind_key (resourceID self) (home_resourceID (viewerHome sv)))
           (binds (snd (updateShare self sv mode (Some BIND_STATUS_ACCEPTED) summary w))))"
    by (simp add: updateShare_children updateShare_status_view updateShare_status_rows
          columnMap_of_def)
  have evict: "(s = BIND_STATUS_INVITED \<or> s = BIND_STATUS_DECLINED) \<and> bindStatus sv \<noteq> s \<longrightarrow>
      children (snd (updateShare self sv mode (Some s) summary w))
        (home_resourceID (viewerHome sv)) (ByName (name sv)) = None \<and>
      children (snd (updateShare self sv mode (Some s) summary w))
        (home_resourceID (viewerHome sv)) (ByID (resourceID sv)) = None \<and>
      bindStatus (fst (updateShare self sv mode (Some s) summary w)) = s \<and>
      list_all (\<lambda>r. BIND_STATUS r = s)
        (filter (bind_key (resourceID self) (home_resourceID (viewerHome sv)))
           (binds (snd (updateShare self sv mode (Some s) summary w))))"
    by (auto simp add: updateShare_children updateShare_status_view updateShare_status_rows
          columnMap_of_def)
  have rem: "children (removeShare self sv w) (home_resourceID (viewerHome sv))
               (ByName (name sv)) = None \<and>
             children (removeShare self sv w) (home_resourceID (viewerHome sv))
               (ByID (resourceID sv)) = None \<and>
             filter (bind_key (resourceID self) (home_resourceID (viewerHome sv)))
               (binds (removeShare self sv w)) = []"
    by (simp add: removeShare_def Let_def effect_defs)
  from acc evict rem show ?thesis by blast
qed

text \<open>The theorem on an invited sharee who accepts, and on an accepted sharee who
  declines.\<close>

theorem children_index_transitions_witness:
  "bindStatus (ex_shareeView ex_shareeHome ''s1'' BIND_MODE_READ BIND_STATUS_INVITED) \<noteq>
     BIND_STATUS_ACCEPTED \<and>
   children (snd (updateShare ex_ownerView
       (ex_shareeView ex_shareeHome ''s1'' BIND_MODE_READ BIND_STATUS_INVITED)
       None (Some BIND_STATUS_ACCEPTED) None
       (ex_world [ex_shareRow 2 ''s1'' BIND_MODE_READ BIND_STATUS_INVITED])))
     2 (ByName ''s1'') = Some 10 \<and>
   children (snd (updateShare ex_ownerView
       (ex_shareeView ex_shareeHome ''s1'' BIND_MODE_READ BIND_STATUS_INVITED)
       None (Some BIND_STATUS_ACCEPTED) None
       (ex_world [ex_shareRow 2 ''s1'' BIND_MODE_READ BIND_STATUS_INVITED])))
     2 (ByID 10) = Some 10 \<and>
   bindStatus (ex_shareeView ex_shareeHome ''s1'' BIND_MODE_READ BIND_STATUS_ACCEPTED) \<noteq>
     BIND_STATUS_DECLINED \<and>
   children (snd (updateShare ex_ownerView
       (ex_shareeView ex_shareeHome ''s1'' BIND_MODE_READ BIND_STATUS_ACCEPTED)
       None (Some BIND_STATUS_DECLINED) None
       ((ex_world [ex_shareRow 2 ''s1'' BIND_MODE_READ BIND_STATUS_ACCEPTED])
          \<lparr>children := (\<lambda>h. [ByName ''s1'' \<mapsto> 10, ByID 10 \<mapsto> 10])\<rparr>)))
     2 (ByName ''s1'') = None \<and>
   map BIND_STATUS (binds (snd (updateShare ex_ownerView
       (ex_shareeView ex_shareeHome ''s1'' BIND_MODE_READ BIND_STATUS_ACCEPTED)
       None (Some BIND_STATUS_DECLINED) None
       ((ex_world [ex_shareRow 2 ''s1'' BIND_MODE_READ BIND_STATUS_ACCEPTED])
          \<lparr>children := (\<lambda>h. [ByName ''s1'' \<mapsto> 10, ByID 10 \<mapsto> 10])\<rparr>)))) =
     [BIND_STATUS_ACCEPTED, BIND_STATUS_DECLINED]"
  using
    children_index_transitions [of
      "ex_shareeView ex_shareeHome ''s1'' BIND_MODE_READ BIND_STATUS_INVITED"
      ex_ownerView None None
      "ex_world [ex_shareRow 2 ''s1'' BIND_MODE_READ BIND_STATUS_INVITED]"
      BIND_STATUS_INVITED]
    children_index_transitions [of
      "ex_shareeView ex_shareeHome ''s1'' BIND_MODE_READ BIND_STATUS_ACCEPTED"
      ex_ownerView None None
      "(ex_world [ex_shareRow 2 ''s1'' BIND_MODE_READ BIND_STATUS_ACCEPTED])
          \<lparr>children := (\<lambda>h. [ByName ''s1'' \<mapsto> 10, ByID 10 \<mapsto> 10])\<rparr>"
      BIND_STATUS_DECLINED]
  by (simp add: updateShare_binds columnMap_of_def columnMap_empty_def apply_columns_def
        bind_key_def Let_def ex_defs)

section \<open>Listing the invitations\<close>

text \<open>
  Claim C6, as the specification states it, does not hold for \<^verbatim>\<open>sharingInvites\<close>: it lists
  the binds of the resource irrespective of mode, so for an owner's resource with one
  INVITED bind and one DIRECT bind it returns both entries.
\<close>

theorem sharingInvites_excludes_direct_counterexample:
  "map inv_mode (sharingInvites ex_ownerView
     (ex_world [ex_shareRow 2 ''s1'' BIND_MODE_READ BIND_STATUS_INVITED,
                ex_shareRow 3 ''s2'' BIND_MODE_DIRECT BIND_STATUS_ACCEPTED])) =
   [BIND_MODE_READ, BIND_MODE_DIRECT]"
  by (simp add: sharingInvites_def sharedInvitationBindForResourceID_def owned_def ex_defs)

lemma invites_filter_rows:
  "filter (\<lambda>x. inv_mode x \<noteq> BIND_MODE_DIRECT)
     (concat (map (\<lambda>r. map (\<lambda>h.
          \<lparr>inv_uid = RESOURCE_NAME r, inv_ownerUID = ou, inv_ownerHomeID = oi,
           inv_shareeUID = home_uid h, inv_shareeHomeID = HOME_RESOURCE_ID r,
           inv_mode = BIND_MODE r, inv_status = BIND_STATUS r, inv_summary = MESSAGE r\<rparr>)
          (hs r)) rs)) =
   concat (map (\<lambda>r. map (\<lambda>h.
          \<lparr>inv_uid = RESOURCE_NAME r, inv_ownerUID = ou, inv_ownerHomeID = oi,
           inv_shareeUID = home_uid h, inv_shareeHomeID = HOME_RESOURCE_ID r,
           inv_mode = BIND_MODE r, inv_status = BIND_STATUS r, inv_summary = MESSAGE r\<rparr>)
          (hs r)) (filter (\<lambda>r. BIND_MODE r \<noteq> BIND_MODE_DIRECT) rs))"
  by (induction rs) (simp_all add: filter_map comp_def)

lemma sharingInvites_rows:
  "owned v \<Longrightarrow> sharingInvites v w =
     concat (map (\<lambda>r. map (\<lambda>h.
          \<lparr>inv_uid = RESOURCE_NAME r, inv_ownerUID = home_uid (ownerHome v),
           inv_ownerHomeID = home_resourceID (ownerHome v),
           inv_shareeUID = home_uid h, inv_shareeHomeID = HOME_RESOURCE_ID r,
           inv_mode = BIND_MODE r, inv_status = BIND_STATUS r, inv_summary = MESSAGE r\<rparr>)
          (filter (\<lambda>h. home_resourceID h = HOME_RESOURCE_ID r) (homes w)))
        (filter (\<lambda>r. RESOURCE_ID r = resourceID v \<and> BIND_MODE r \<noteq> BIND_MODE_OWN) (binds w)))"
  by (simp add: sharingInvites_def sharedInvitationBindForResourceID_def map_concat comp_def)

text \<open>
  Claim C6, amended. For the owner's view of a resource, \<^verbatim>\<open>sharingInvites\<close> returns one entry
  for each bind row of the resource whose mode is not OWN, joined with the sharee's home,
  in the order of the bind table, the direct rows included; \<^verbatim>\<open>allInvitations\<close> returns the
  entries of the rows whose mode is neither OWN nor DIRECT, sorted by the UID of the
  sharee. So when the resource has exactly one bind whose mode is not direct (an INVITED
  bind, say) and one DIRECT bind, \<^verbatim>\<open>sharingInvites\<close> returns both entries and
  \<^verbatim>\<open>allInvitations\<close> returns the entry of the first alone. For a view that is not the
  owner's, both return the empty list.
\<close>

theorem allInvitations_excludes_direct:
  "(\<not> owned v \<longrightarrow> sharingInvites v w = [] \<and> allInvitations v w = []) \<and>
   (owned v \<longrightarrow>
      sharingInvites v w =
        concat (map (\<lambda>r. map (\<lambda>h.
             \<lparr>inv_uid = RESOURCE_NAME r, inv_ownerUID = home_uid (ownerHome v),
              inv_ownerHomeID = home_resourceID (ownerHome v),
              inv_shareeUID = home_uid h, inv_shareeHomeID = HOME_RESOURCE_ID r,
              inv_mode = BIND_MODE r, inv_status = BIND_STATUS r, inv_summary = MESSAGE r\<rparr>)
             (filter (\<lambda>h. home_resourceID h = HOME_RESOURCE_ID r) (homes w)))
           (filter (\<lambda>r. RESOURCE_ID r = resourceID v \<and> BIND_MODE r \<noteq> BIND_MODE_OWN)
              (binds w))) \<and>
      allInvitations v w =
        sort_key inv_shareeUID
          (concat (map (\<lambda>r. map (\<lambda>h.
             \<lparr>inv_uid = RESOURCE_NAME r, inv_ownerUID = home_uid (ownerHome v),
              inv_ownerHomeID = home_resourceID (ownerHome v),
              inv_shareeUID = home_uid h, inv_shareeHomeID = HOME_RESOURCE_ID r,
              inv_mode = BIND_MODE r, inv_status = BIND_STATUS r, inv_summary = MESSAGE r\<rparr>)
             (filter (\<lambda>h. home_resourceID h = HOME_RESOURCE_ID r) (homes w)))
           (filter (\<lambda>r. RESOURCE_ID r = resourceID v \<and> BIND_MODE r \<noteq> BIND_MODE_OWN \<and>
                         BIND_MODE r \<noteq> BIND_MODE_DIRECT)
              (binds w))))) \<and>
   (owned v \<and>
    filter (\<lambda>r. RESOURCE_ID r = resourceID v \<and> BIND_MODE r \<noteq> BIND_MODE_OWN) (binds w)
      = [r1, r2] \<and>
    filter (\<lambda>h. home_resourceID h = HOME_RESOURCE_ID r1) (homes w) = [h1] \<and>
    filter (\<lambda>h. home_resourceID h = HOME_RESOURCE_ID r2) (homes w) = [h2] \<and>
    (BIND_MODE r1 = BIND_MODE_DIRECT) \<noteq> (BIND_MODE r2 = BIND_MODE_DIRECT) \<longrightarrow>
      sharingInvites v w =
        [\<lparr>inv_uid = RESOURCE_NAME r1, inv_ownerUID = home_uid (ownerHome v),
          inv_ownerHomeID = home_resourceID (ownerHome v),
          inv_shareeUID = home_uid h1, inv_shareeHomeID = HOME_RESOURCE_ID r1,
          inv_mode = BIND_MODE r1, inv_status = BIND_STATUS r1, inv_summary = MESSAGE r1\<rparr>,
         \<lparr>inv_uid = RESOURCE_NAME r2, inv_ownerUID = home_uid (ownerHome v),
          inv_ownerHomeID = home_resourceID (ownerHome v),
          inv_shareeUID = home_uid h2, inv_shareeHomeID = HOME_RESOURCE_ID r2,
          inv_mode = BIND_MODE r2, inv_status = BIND_STATUS r2, inv_summary = MESSAGE r2\<rparr>] \<and>
      allInvitations v w =
        (if BIND_MODE r2 = BIND_MODE_DIRECT
         then [\<lparr>inv_uid = RESOURCE_NAME r1, inv_ownerUID = home_uid (ownerHome v),
                 inv_ownerHomeID = home_resourceID (ownerHome v),
                 inv_shareeUID = home_uid h1, inv_shareeHomeID = HOME_RESOURCE_ID r1,
                 inv_mode = BIND_MODE r1, inv_status = BIND_STATUS r1,
                 inv_summary = MESSAGE r1\<rparr>]
         else [\<lparr>inv_uid = RESOURCE_NAME r2, inv_ownerUID = home_uid (ownerHome v),
                 inv_ownerHomeID = home_resourceID (ownerHome v),
                 inv_shareeUID = home_uid h2, inv_shareeHomeID = HOME_RESOURCE_ID r2,
                 inv_mode = BIND_MODE r2, inv_status = BIND_STATUS r2,
                 inv_summary = MESSAGE r2\<rparr>])) \<and>
   sorted (map inv_shareeUID (allInvitations v w)) \<and>
   list_all (\<lambda>x. inv_mode x \<noteq> BIND_MODE_DIRECT) (allInvitations v w) \<and>
   mset (allInvitations v w) =
     mset (filter (\<lambda>x. inv_mode x \<noteq> BIND_MODE_DIRECT) (sharingInvites v w))"
proof -
  have none: "\<not> owned v \<longrightarrow> sharingInvites v w = [] \<and> allInvitations v w = []"
    by (simp add: allInvitations_def sharingInvites_def)
  have all: "owned v \<longrightarrow>
      allInvitations v w =
        sort_key inv_shareeUID
          (concat (map (\<lambda>r. map (\<lambda>h.
             \<lparr>inv_uid = RESOURCE_NAME r, inv_ownerUID = home_uid (ownerHome v),
              inv_ownerHomeID = home_resourceID (ownerHome v),
              inv_shareeUID = home_uid h, inv_shareeHomeID = HOME_RESOURCE_ID r,
              inv_mode = BIND_MODE r, inv_status = BIND_STATUS r, inv_summary = MESSAGE r\<rparr>)
             (filter (\<lambda>h. home_resourceID h = HOME_RESOURCE_ID r) (homes w)))
           (filter (\<lambda>r. RESOURCE_ID r = resourceID v \<and> BIND_MODE r \<noteq> BIND_MODE_OWN \<and>
                         BIND_MODE r \<noteq> BIND_MODE_DIRECT)
              (binds w))))"
    by (simp add: allInvitations_def sharingInvites_rows invites_filter_rows conj_ac)
  have two: "owned v \<and>
    filter (\<lambda>r. RESOURCE_ID r = resourceID v \<and> BIND_MODE r \<noteq> BIND_MODE_OWN) (binds w)
      = [r1, r2] \<and>
    filter (\<lambda>h. home_resourceID h = HOME_RESOURCE_ID r1) (homes w) = [h1] \<and>
    filter (\<lambda>h. home_resourceID h = HOME_RESOURCE_ID r2) (homes w) = [h2] \<and>
    (BIND_MODE r1 = BIND_MODE_DIRECT) \<noteq> (BIND_MODE r2 = BIND_MODE_DIRECT) \<longrightarrow>
      sharingInvites v w =
        [\<lparr>inv_uid = RESOURCE_NAME r1, inv_ownerUID = home_uid (ownerHome v),
          inv_ownerHomeID = home_resourceID (ownerHome v),
          inv_shareeUID = home_uid h1, inv_shareeHomeID = HOME_RESOURCE_ID r1,
          inv_mode = BIND_MODE r1, inv_status = BIND_STATUS r1, inv_summary = MESSAGE r1\<rparr>,
         \<lparr>inv_uid = RESOURCE_NAME r2, inv_ownerUID = home_uid (ownerHome v),
          inv_ownerHomeID = home_resourceID (ownerHome v),
          inv_shareeUID = home_uid h2, inv_shareeHomeID = HOME_RESOURCE_ID r2,
          inv_mode = BIND_MODE r2, inv_status = BIND_STATUS r2, inv_summary = MESSAGE r2\<rparr>] \<and>
      allInvitations v w =
        (if BIND_MODE r2 = BIND_MODE_DIRECT
         then [\<lparr>inv_uid = RESOURCE_NAME r1, inv_ownerUID = home_uid (ownerHome v),
                 inv_ownerHomeID = home_resourceID (ownerHome v),
                 inv_shareeUID = home_uid h1, inv_shareeHomeID = HOME_RESOURCE_ID r1,
                 inv_mode = BIND_MODE r1, inv_status = BIND_STATUS r1,
                 inv_summary = MESSAGE r1\<rparr>]
         else [\<lparr>inv_uid = RESOURCE_NAME r2, inv_ownerUID = home_uid (ownerHome v),
                 inv_ownerHomeID = home_resourceID (ownerHome v),
                 inv_shareeUID = home_uid h2, inv_shareeHomeID = HOME_RESOURCE_ID r2,
                 inv_mode = BIND_MODE r2, inv_status = BIND_STATUS r2,
                 inv_summary = MESSAGE r2\<rparr>])"
  proof (intro impI, elim conjE)
    assume o: "owned v"
      and rs: "filter (\<lambda>r. RESOURCE_ID r = resourceID v \<and> BIND_MODE r \<noteq> BIND_MODE_OWN)
                 (binds w) = [r1, r2]"
      and h1: "filter (\<lambda>h. home_resourceID h = HOME_RESOURCE_ID r1) (homes w) = [h1]"
      and h2: "filter (\<lambda>h. home_resourceID h = HOME_RESOURCE_ID r2) (homes w) = [h2]"
      and d: "(BIND_MODE r1 = BIND_MODE_DIRECT) \<noteq> (BIND_MODE r2 = BIND_MODE_DIRECT)"
    have si: "sharingInvites v w =
        [\<lparr>inv_uid = RESOURCE_NAME r1, inv_ownerUID = home_uid (ownerHome v),
          inv_ownerHomeID = home_resourceID (ownerHome v),
          inv_shareeUID = home_uid h1, inv_shareeHomeID = HOME_RESOURCE_ID r1,
          inv_mode = BIND_MODE r1, inv_status = BIND_STATUS r1, inv_summary = MESSAGE r1\<rparr>,
         \<lparr>inv_uid = RESOURCE_NAME r2, inv_ownerUID = home_uid (ownerHome v),
          inv_ownerHomeID = home_resourceID (ownerHome v),
          inv_shareeUID = home_uid h2, inv_shareeHomeID = HOME_RESOURCE_ID r2,
          inv_mode = BIND_MODE r2, inv_status = BIND_STATUS r2, inv_summary = MESSAGE r2\<rparr>]"
      using o rs h1 h2 by (simp add: sharingInvites_rows)
    show "sharingInvites v w =
        [\<lparr>inv_uid = RESOURCE_NAME r1, inv_ownerUID = home_uid (ownerHome v),
          inv_ownerHomeID = home_resourceID (ownerHome v),
          inv_shareeUID = home_uid h1, inv_shareeHomeID = HOME_RESOURCE_ID r1,
          inv_mode = BIND_MODE r1, inv_status = BIND_STATUS r1, inv_summary = MESSAGE r1\<rparr>,
         \<lparr>inv_uid = RESOURCE_NAME r2, inv_ownerUID = home_uid (ownerHome v),
          inv_ownerHomeID = home_resourceID (ownerHome v),
          inv_shareeUID = home_uid h2, inv_shareeHomeID = HOME_RESOURCE_ID r2,
          inv_mode = BIND_MODE r2, inv_status = BIND_STATUS r2, inv_summary = MESSAGE r2\<rparr>] \<and>
      allInvitations v w =
        (if BIND_MODE r2 = BIND_MODE_DIRECT
         then [\<lparr>inv_uid = RESOURCE_NAME r1, inv_ownerUID = home_uid (ownerHome v),
                 inv_ownerHomeID = home_resourceID (ownerHome v),
                 inv_shareeUID = home_uid h1, inv_shareeHomeID = HOME_RESOURCE_ID r1,
                 inv_mode = BIND_MODE r1, inv_status = BIND_STATUS r1,
                 inv_summary = MESSAGE r1\<rparr>]
         else [\<lparr>inv_uid = RESOURCE_NAME r2, inv_ownerUID = home_uid (ownerHome v),
                 inv_ownerHomeID = home_resourceID (ownerHome v),
                 inv_shareeUID = home_uid h2, inv_shareeHomeID = HOME_RESOURCE_ID r2,
                 inv_mode = BIND_MODE r2, inv_status = BIND_STATUS r2,
                 inv_summary = MESSAGE r2\<rparr>])"
      using d by (auto simp add: allInvitations_def si)
  qed
  have rest: "sorted (map inv_shareeUID (allInvitations v w))"
    "list_all (\<lambda>x. inv_mode x \<noteq> BIND_MODE_DIRECT) (allInvitations v w)"
    "mset (allInvitations v w) =
       mset (filter (\<lambda>x. inv_mode x \<noteq> BIND_MODE_DIRECT) (sharingInvites v w))"
    by (simp_all add: allInvitations_def list_all_iff)
  from none all two rest sharingInvites_rows [of v w] show ?thesis by blast
qed

text \<open>The theorem at a resource with a DIRECT bind of a remote sharee and an INVITED bind
  of a local sharee, for the sharee's view and for the owner's.\<close>

theorem allInvitations_excludes_direct_witness:
  "\<not> owned (ex_shareeView ex_shareeHome ''s1'' BIND_MODE_READ BIND_STATUS_INVITED) \<and>
   sharingInvites (ex_shareeView ex_shareeHome ''s1'' BIND_MODE_READ BIND_STATUS_INVITED)
     (ex_world [ex_shareRow 3 ''s2'' BIND_MODE_DIRECT BIND_STATUS_ACCEPTED,
                ex_shareRow 2 ''s1'' BIND_MODE_READ BIND_STATUS_INVITED]) = [] \<and>
   owned ex_ownerView \<and>
   filter (\<lambda>r. RESOURCE_ID r = resourceID ex_ownerView \<and> BIND_MODE r \<noteq> BIND_MODE_OWN)
     (binds (ex_world [ex_shareRow 3 ''s2'' BIND_MODE_DIRECT BIND_STATUS_ACCEPTED,
                       ex_shareRow 2 ''s1'' BIND_MODE_READ BIND_STATUS_INVITED])) =
     [ex_shareRow 3 ''s2'' BIND_MODE_DIRECT BIND_STATUS_ACCEPTED,
      ex_shareRow 2 ''s1'' BIND_MODE_READ BIND_STATUS_INVITED] \<and>
   sharingInvites ex_ownerView
     (ex_world [ex_shareRow 3 ''s2'' BIND_MODE_DIRECT BIND_STATUS_ACCEPTED,
                ex_shareRow 2 ''s1'' BIND_MODE_READ BIND_STATUS_INVITED]) =
   [\<lparr>inv_uid = ''s2'', inv_ownerUID = ''owner'', inv_ownerHomeID = 1,
     inv_shareeUID = ''remote'', inv_shareeHomeID = 3, inv_mode = BIND_MODE_DIRECT,
     inv_status = BIND_STATUS_ACCEPTED, inv_summary = None\<rparr>,
    \<lparr>inv_uid = ''s1'', inv_ownerUID = ''owner'', inv_ownerHomeID = 1,
     inv_shareeUID = ''sharee'', inv_shareeHomeID = 2, inv_mode = BIND_MODE_READ,
     inv_status = BIND_STATUS_INVITED, inv_summary = None\<rparr>] \<and>
   allInvitations ex_ownerView
     (ex_world [ex_shareRow 3 ''s2'' BIND_MODE_DIRECT BIND_STATUS_ACCEPTED,
                ex_shareRow 2 ''s1'' BIND_MODE_READ BIND_STATUS_INVITED]) =
   [\<lparr>inv_uid = ''s1'', inv_ownerUID = ''owner'', inv_ownerHomeID = 1,
     inv_shareeUID = ''sharee'', inv_shareeHomeID = 2, inv_mode = BIND_MODE_READ,
     inv_status = BIND_STATUS_INVITED, inv_summary = None\<rparr>]"
  using
    allInvitations_excludes_direct [of
      "ex_shareeView ex_shareeHome ''s1'' BIND_MODE_READ BIND_STATUS_INVITED"
      "ex_world [ex_shareRow 3 ''s2'' BIND_MODE_DIRECT BIND_STATUS_ACCEPTED,
                 ex_shareRow 2 ''s1'' BIND_MODE_READ BIND_STATUS_INVITED]"]
    allInvitations_excludes_direct [of ex_ownerView
      "ex_world [ex_shareRow 3 ''s2'' BIND_MODE_DIRECT BIND_STATUS_ACCEPTED,
                 ex_shareRow 2 ''s1'' BIND_MODE_READ BIND_STATUS_INVITED]"
      "ex_shareRow 3 ''s2'' BIND_MODE_DIRECT BIND_STATUS_ACCEPTED"
      "ex_shareRow 2 ''s1'' BIND_MODE_READ BIND_STATUS_INVITED"
      ex_remoteHome ex_shareeHome]
  by (simp add: owned_def ex_defs)

section \<open>processExternalReply with an unrecognised status\<close>

text \<open>
  Claim C10. When the sharee's home resolves and is external and a bind with the share
  UID exists in it, \<^verbatim>\<open>processExternalReply\<close> with a status that is neither ACCEPTED nor
  DECLINED returns normally and leaves the world as it was.
\<close>

theorem processExternalReply_other_status:
  assumes "fst (homeWithUID shareeUID False w) = Some shareeHome"
    and "home_external shareeHome"
    and "anyObjectWithShareUID w shareeHome uid = Some sv"
    and "st \<noteq> BIND_STATUS_ACCEPTED"
    and "st \<noteq> BIND_STATUS_DECLINED"
  shows "processExternalReply self ownerUID shareeUID uid st summary w = (Inr (), w)"
  using assms by (simp add: processExternalReply_def)

theorem processExternalReply_other_status_witness:
  "fst (homeWithUID ''remote'' False
          (ex_world [ex_shareRow 3 ''s2'' BIND_MODE_READ BIND_STATUS_INVITED])) =
     Some ex_remoteHome \<and>
   home_external ex_remoteHome \<and>
   anyObjectWithShareUID (ex_world [ex_shareRow 3 ''s2'' BIND_MODE_READ BIND_STATUS_INVITED])
     ex_remoteHome ''s2'' =
     Some (ex_shareeView ex_remoteHome ''s2'' BIND_MODE_READ BIND_STATUS_INVITED) \<and>
   processExternalReply ex_ownerHome ''owner'' ''remote'' ''s2'' BIND_STATUS_INVALID None
     (ex_world [ex_shareRow 3 ''s2'' BIND_MODE_READ BIND_STATUS_INVITED]) =
     (Inr (), ex_world [ex_shareRow 3 ''s2'' BIND_MODE_READ BIND_STATUS_INVITED])"
proof -
  have h1: "fst (homeWithUID ''remote'' False
          (ex_world [ex_shareRow 3 ''s2'' BIND_MODE_READ BIND_STATUS_INVITED])) =
     Some ex_remoteHome"
    by (simp add: homeWithUID_def ex_defs)
  have h2: "home_external ex_remoteHome"
    by (simp add: ex_defs)
  have h3: "anyObjectWithShareUID
      (ex_world [ex_shareRow 3 ''s2'' BIND_MODE_READ BIND_STATUS_INVITED])
      ex_remoteHome ''s2'' =
     Some (ex_shareeView ex_remoteHome ''s2'' BIND_MODE_READ BIND_STATUS_INVITED)"
    by (simp add: anyObjectWithShareUID_def objectWith_def makeView_def view_of_def ownerHomeOf_def ex_defs)
  have h4: "BIND_STATUS_INVALID \<noteq> BIND_STATUS_ACCEPTED" and h5: "BIND_STATUS_INVALID \<noteq> BIND_STATUS_DECLINED"
    by simp_all
  from h1 h2 h3 processExternalReply_other_status [OF h1 h2 h3 h4 h5, of ex_ownerHome "''owner''" None]
  show ?thesis by simp
qed

section \<open>acceptShare and declineShare\<close>

lemma status_only_columnMap:
  "bindStatus v \<noteq> s \<Longrightarrow>
     columnMap_of v None (Some s) None =
       \<lparr>col_BIND_MODE = None, col_BIND_STATUS = Some s, col_MESSAGE = None, col_BIND_REVISION = None\<rparr>"
  by (simp add: columnMap_of_def)

lemma status_only_view:
  "bindStatus v \<noteq> s \<Longrightarrow>
     fst (updateShare ov v None (Some s) None w) =
       v\<lparr>bindStatus := s,
         bindRevision := (if s = BIND_STATUS_ACCEPTED then syncTokenRevision w (resourceID v)
                          else bindRevision v)\<rparr>"
  by (simp add: updateShare_view status_only_columnMap applied_view_def)

lemma status_only_trace:
  "bindStatus v \<noteq> s \<Longrightarrow>
     trace (snd (updateShare ov v None (Some s) None w)) =
       trace w
       @ [SQL_Update \<lparr>col_BIND_MODE = None, col_BIND_STATUS = Some s, col_MESSAGE = None, col_BIND_REVISION = None\<rparr>
            (resourceID ov) (home_resourceID (viewerHome v))]
       @ transitionEvents (v\<lparr>bindStatus := s\<rparr>) w
       @ cacheEvents (fst (updateShare ov v None (Some s) None w)) w
       @ [NotifyPropertyChanged (home_resourceID (viewerHome ov)) (resourceID ov),
          NotifyChanged (home_resourceID (viewerHome v))]"
  by (simp add: updateShare_trace status_only_columnMap columnMap_empty_def applied_view_def)

lemma no_reply_in_transition:
  "Send_sharereply a b c d e \<notin> set (transitionEvents v w)"
  "Send_sharereply a b c d e \<notin> set (cacheEvents v w)"
  by (auto simp add: transitionEvents_def cacheEvents_def)

text \<open>
  Claim C5. \<^verbatim>\<open>acceptShare\<close> and \<^verbatim>\<open>declineShare\<close> on a sharee view return with the world
  unchanged when the bind is direct or its status is already the target status.
  Otherwise, when the owner's view resolves: the sharee view gets the target status; the
  first call recorded is the reply to the owner's node when the view is external, and
  only then comes the update of the bind row by the owner's \<^verbatim>\<open>updateShare\<close> (which writes
  the status column alone), and no other reply is sent; the rows of the bind have the
  target status; and the notification collections change only when the owner is not
  external, by the reply notification written for the owner under the share UID followed
  by \<^verbatim>\<open>-reply\<close>.
\<close>

theorem acceptShare_declineShare:
  "(direct self \<or> shareStatus self = BIND_STATUS_ACCEPTED \<longrightarrow>
      acceptShare self summary w = (Inr self, w)) \<and>
   (direct self \<or> shareStatus self = BIND_STATUS_DECLINED \<longrightarrow>
      declineShare self w = (Inr self, w)) \<and>
   (\<not> direct self \<and> shareStatus self \<noteq> BIND_STATUS_ACCEPTED \<and> ownerView self w = Some ov \<longrightarrow>
      fst (acceptShare self summary w) =
        Inr (self\<lparr>bindStatus := BIND_STATUS_ACCEPTED,
                  bindRevision := syncTokenRevision w (resourceID self)\<rparr>) \<and>
      (\<exists>rest. trace (snd (acceptShare self summary w)) =
         trace w
         @ (if external self
            then [Send_sharereply (home_uid (ownerHome self)) (home_uid (viewerHome self))
                    (shareUID self) BIND_STATUS_ACCEPTED summary]
            else [])
         @ [SQL_Update \<lparr>col_BIND_MODE = None, col_BIND_STATUS = Some BIND_STATUS_ACCEPTED,
                         col_MESSAGE = None, col_BIND_REVISION = None\<rparr>
              (resourceID ov) (home_resourceID (viewerHome self))]
         @ rest
         \<and> (\<forall>a b c d e. Send_sharereply a b c d e \<notin> set rest)) \<and>
      list_all (\<lambda>r. BIND_STATUS r = BIND_STATUS_ACCEPTED)
        (filter (bind_key (resourceID ov) (home_resourceID (viewerHome self)))
           (binds (snd (acceptShare self summary w)))) \<and>
      notifications (snd (acceptShare self summary w)) =
        (if external ov then notifications w
         else (notifications w)
           (home_uid (ownerHome self) :=
              (notifications w (home_uid (ownerHome self)))
                (shareUID self @ ''-reply'' \<mapsto>
                   (replyNotificationType self,
                    replyNotificationData
                      (self\<lparr>bindStatus := BIND_STATUS_ACCEPTED,
                            bindRevision := syncTokenRevision w (resourceID self)\<rparr>)
                      ov summary w))))) \<and>
   (\<not> direct self \<and> shareStatus self \<noteq> BIND_STATUS_DECLINED \<and> ownerView self w = Some ov \<longrightarrow>
      fst (declineShare self w) = Inr (self\<lparr>bindStatus := BIND_STATUS_DECLINED\<rparr>) \<and>
      (\<exists>rest. trace (snd (declineShare self w)) =
         trace w
         @ (if external self
            then [Send_sharereply (home_uid (ownerHome self)) (home_uid (viewerHome self))
                    (shareUID self) BIND_STATUS_DECLINED None]
            else [])
         @ [SQL_Update \<lparr>col_BIND_MODE = None, col_BIND_STATUS = Some BIND_STATUS_DECLINED,
                         col_MESSAGE = None, col_BIND_REVISION = None\<rparr>
              (resourceID ov) (home_resourceID (viewerHome self))]
         @ rest
         \<and> (\<forall>a b c d e. Send_sharereply a b c d e \<notin> set rest)) \<and>
      list_all (\<lambda>r. BIND_STATUS r = BIND_STATUS_DECLINED)
        (filter (bind_key (resourceID ov) (home_resourceID (viewerHome self)))
           (binds (snd (declineShare self w)))) \<and>
      notifications (snd (declineShare self w)) =
        (if external ov then notifications w
         else (notifications w)
           (home_uid (ownerHome self) :=
              (notifications w (home_uid (ownerHome self)))
                (shareUID self @ ''-reply'' \<mapsto>
                   (replyNotificationType self,
                    replyNotificationData (self\<lparr>bindStatus := BIND_STATUS_DECLINED\<rparr>)
                      ov None w)))))"
proof -
  have noop_a: "direct self \<or> shareStatus self = BIND_STATUS_ACCEPTED \<longrightarrow>
      acceptShare self summary w = (Inr self, w)"
    by (auto simp add: acceptShare_def)
  have noop_d: "direct self \<or> shareStatus self = BIND_STATUS_DECLINED \<longrightarrow>
      declineShare self w = (Inr self, w)"
    by (auto simp add: declineShare_def)
  have acc: "\<not> direct self \<and> shareStatus self \<noteq> BIND_STATUS_ACCEPTED \<and>
      ownerView self w = Some ov \<longrightarrow>
      fst (acceptShare self summary w) =
        Inr (self\<lparr>bindStatus := BIND_STATUS_ACCEPTED,
                  bindRevision := syncTokenRevision w (resourceID self)\<rparr>) \<and>
      (\<exists>rest. trace (snd (acceptShare self summary w)) =
         trace w
         @ (if external self
            then [Send_sharereply (home_uid (ownerHome self)) (home_uid (viewerHome self))
                    (shareUID self) BIND_STATUS_ACCEPTED summary]
            else [])
         @ [SQL_Update \<lparr>col_BIND_MODE = None, col_BIND_STATUS = Some BIND_STATUS_ACCEPTED,
                         col_MESSAGE = None, col_BIND_REVISION = None\<rparr>
              (resourceID ov) (home_resourceID (viewerHome self))]
         @ rest
         \<and> (\<forall>a b c d e. Send_sharereply a b c d e \<notin> set rest)) \<and>
      list_all (\<lambda>r. BIND_STATUS r = BIND_STATUS_ACCEPTED)
        (filter (bind_key (resourceID ov) (home_resourceID (viewerHome self)))
           (binds (snd (acceptShare self summary w)))) \<and>
      notifications (snd (acceptShare self summary w)) =
        (if external ov then notifications w
         else (notifications w)
           (home_uid (ownerHome self) :=
              (notifications w (home_uid (ownerHome self)))
                (shareUID self @ ''-reply'' \<mapsto>
                   (replyNotificationType self,
                    replyNotificationData
                      (self\<lparr>bindStatus := BIND_STATUS_ACCEPTED,
                            bindRevision := syncTokenRevision w (resourceID self)\<rparr>)
                      ov summary w))))"
  proof (intro impI, elim conjE)
    assume nd: "\<not> direct self" and st: "shareStatus self \<noteq> BIND_STATUS_ACCEPTED"
      and ov: "ownerView self w = Some ov"
    from st have st': "bindStatus self \<noteq> BIND_STATUS_ACCEPTED" by (simp add: shareStatus_def)
    let ?w1 = "if external self
               then replyExternalInvite self BIND_STATUS_ACCEPTED summary w else w"
    let ?u = "updateShare ov self None (Some BIND_STATUS_ACCEPTED) None ?w1"
    let ?self' = "self\<lparr>bindStatus := BIND_STATUS_ACCEPTED,
                       bindRevision := syncTokenRevision w (resourceID self)\<rparr>"
    have ov1: "ownerView self ?w1 = Some ov"
      using ov by (simp add: replyExternalInvite_def)
    have sync1: "syncTokenRevision ?w1 = syncTokenRevision w" "nowUTC ?w1 = nowUTC w"
      "notifications ?w1 = notifications w"
      by (simp_all add: replyExternalInvite_def)
    have v: "fst ?u = ?self'"
      using st' sync1 by (simp add: status_only_view)
    have cs: "col_BIND_STATUS (columnMap_of self None (Some BIND_STATUS_ACCEPTED) None) =
                Some BIND_STATUS_ACCEPTED"
      using st' by (simp add: status_only_columnMap)
    have res: "acceptShare self summary w =
        (Inr (fst ?u),
         if \<not> external ov
         then sendReplyNotification (fst ?u) ov summary (newShare (fst ?u) summary (snd ?u))
         else newShare (fst ?u) summary (snd ?u))"
      using nd st ov1 by (simp add: acceptShare_def Let_def case_prod_beta)
    have tr: "trace (snd ?u) = trace ?w1
       @ [SQL_Update \<lparr>col_BIND_MODE = None, col_BIND_STATUS = Some BIND_STATUS_ACCEPTED,
                       col_MESSAGE = None, col_BIND_REVISION = None\<rparr> (resourceID ov) (home_resourceID (viewerHome self))]
       @ transitionEvents (self\<lparr>bindStatus := BIND_STATUS_ACCEPTED\<rparr>) ?w1
       @ cacheEvents (fst ?u) ?w1
       @ [NotifyPropertyChanged (home_resourceID (viewerHome ov)) (resourceID ov),
          NotifyChanged (home_resourceID (viewerHome self))]"
      using st' by (rule status_only_trace)
    let ?rest = "transitionEvents (self\<lparr>bindStatus := BIND_STATUS_ACCEPTED\<rparr>) ?w1
       @ cacheEvents (fst ?u) ?w1
       @ [NotifyPropertyChanged (home_resourceID (viewerHome ov)) (resourceID ov),
          NotifyChanged (home_resourceID (viewerHome self))]
       @ [NewShare (home_resourceID (viewerHome (fst ?u))) (resourceID (fst ?u)) summary]
       @ (if \<not> external ov
          then [WriteNotificationObject (home_uid (ownerHome (fst ?u)))
                  (shareUID (fst ?u) @ ''-reply'') (replyNotificationType (fst ?u))
                  (replyNotificationData (fst ?u) ov summary
                     (newShare (fst ?u) summary (snd ?u)))]
          else [])"
    have c1: "fst (acceptShare self summary w) = Inr ?self'"
      using res v by simp
    have c2: "trace (snd (acceptShare self summary w)) =
         trace w
         @ (if external self
            then [Send_sharereply (home_uid (ownerHome self)) (home_uid (viewerHome self))
                    (shareUID self) BIND_STATUS_ACCEPTED summary]
            else [])
         @ [SQL_Update \<lparr>col_BIND_MODE = None, col_BIND_STATUS = Some BIND_STATUS_ACCEPTED,
                         col_MESSAGE = None, col_BIND_REVISION = None\<rparr>
              (resourceID ov) (home_resourceID (viewerHome self))]
         @ ?rest"
      using res tr
      by (simp add: sendReplyNotification_def writeNotificationObject_def newShare_def
            replyExternalInvite_def)
    have c3: "\<forall>a b c d e. Send_sharereply a b c d e \<notin> set ?rest"
      by (simp add: no_reply_in_transition)
    have c4: "list_all (\<lambda>r. BIND_STATUS r = BIND_STATUS_ACCEPTED)
        (filter (bind_key (resourceID ov) (home_resourceID (viewerHome self)))
           (binds (snd (acceptShare self summary w))))"
      using res updateShare_status_rows [OF cs, of ov ?w1]
      by (simp add: sendReplyNotification_def writeNotificationObject_def newShare_def)
    have c5: "notifications (snd (acceptShare self summary w)) =
        (if external ov then notifications w
         else (notifications w)
           (home_uid (ownerHome self) :=
              (notifications w (home_uid (ownerHome self)))
                (shareUID self @ ''-reply'' \<mapsto>
                   (replyNotificationType self,
                    replyNotificationData ?self' ov summary w))))"
      using res v sync1
      by (simp add: sendReplyNotification_def writeNotificationObject_def newShare_def
            updateShare_frame shareUID_def replyNotificationType_def sharedResourceType_def
            replyNotificationData_def)
    from c2 c3 have c23: "\<exists>rest. trace (snd (acceptShare self summary w)) =
         trace w
         @ (if external self
            then [Send_sharereply (home_uid (ownerHome self)) (home_uid (viewerHome self))
                    (shareUID self) BIND_STATUS_ACCEPTED summary]
            else [])
         @ [SQL_Update \<lparr>col_BIND_MODE = None, col_BIND_STATUS = Some BIND_STATUS_ACCEPTED,
                         col_MESSAGE = None, col_BIND_REVISION = None\<rparr>
              (resourceID ov) (home_resourceID (viewerHome self))]
         @ rest
         \<and> (\<forall>a b c d e. Send_sharereply a b c d e \<notin> set rest)"
      by - (rule exI [of _ ?rest], blast)
    from c1 c23 c4 c5 show "fst (acceptShare self summary w) = Inr ?self' \<and>
      (\<exists>rest. trace (snd (acceptShare self summary w)) =
         trace w
         @ (if external self
            then [Send_sharereply (home_uid (ownerHome self)) (home_uid (viewerHome self))
                    (shareUID self) BIND_STATUS_ACCEPTED summary]
            else [])
         @ [SQL_Update \<lparr>col_BIND_MODE = None, col_BIND_STATUS = Some BIND_STATUS_ACCEPTED,
                         col_MESSAGE = None, col_BIND_REVISION = None\<rparr>
              (resourceID ov) (home_resourceID (viewerHome self))]
         @ rest
         \<and> (\<forall>a b c d e. Send_sharereply a b c d e \<notin> set rest)) \<and>
      list_all (\<lambda>r. BIND_STATUS r = BIND_STATUS_ACCEPTED)
        (filter (bind_key (resourceID ov) (home_resourceID (viewerHome self)))
           (binds (snd (acceptShare self summary w)))) \<and>
      notifications (snd (acceptShare self summary w)) =
        (if external ov then notifications w
         else (notifications w)
           (home_uid (ownerHome self) :=
              (notifications w (home_uid (ownerHome self)))
                (shareUID self @ ''-reply'' \<mapsto>
                   (replyNotificationType self,
                    replyNotificationData ?self' ov summary w))))"
      by blast
  qed
  have dec: "\<not> direct self \<and> shareStatus self \<noteq> BIND_STATUS_DECLINED \<and>
      ownerView self w = Some ov \<longrightarrow>
      fst (declineShare self w) = Inr (self\<lparr>bindStatus := BIND_STATUS_DECLINED\<rparr>) \<and>
      (\<exists>rest. trace (snd (declineShare self w)) =
         trace w
         @ (if external self
            then [Send_sharereply (home_uid (ownerHome self)) (home_uid (viewerHome self))
                    (shareUID self) BIND_STATUS_DECLINED None]
            else [])
         @ [SQL_Update \<lparr>col_BIND_MODE = None, col_BIND_STATUS = Some BIND_STATUS_DECLINED,
                         col_MESSAGE = None, col_BIND_REVISION = None\<rparr>
              (resourceID ov) (home_resourceID (viewerHome self))]
         @ rest
         \<and> (\<forall>a b c d e. Send_sharereply a b c d e \<notin> set rest)) \<and>
      list_all (\<lambda>r. BIND_STATUS r = BIND_STATUS_DECLINED)
        (filter (bind_key (resourceID ov) (home_resourceID (viewerHome self)))
           (binds (snd (declineShare self w)))) \<and>
      notifications (snd (declineShare self w)) =
        (if external ov then notifications w
         else (notifications w)
           (home_uid (ownerHome self) :=
              (notifications w (home_uid (ownerHome self)))
                (shareUID self @ ''-reply'' \<mapsto>
                   (replyNotificationType self,
                    replyNotificationData (self\<lparr>bindStatus := BIND_STATUS_DECLINED\<rparr>)
                      ov None w))))"
  proof (intro impI, elim conjE)
    assume nd: "\<not> direct self" and st: "shareStatus self \<noteq> BIND_STATUS_DECLINED"
      and ov: "ownerView self w = Some ov"
    from st have st': "bindStatus self \<noteq> BIND_STATUS_DECLINED" by (simp add: shareStatus_def)
    let ?w1 = "if external self
               then replyExternalInvite self BIND_STATUS_DECLINED None w else w"
    let ?u = "updateShare ov self None (Some BIND_STATUS_DECLINED) None ?w1"
    let ?self' = "self\<lparr>bindStatus := BIND_STATUS_DECLINED\<rparr>"
    have ov1: "ownerView self ?w1 = Some ov"
      using ov by (simp add: replyExternalInvite_def)
    have sync1: "nowUTC ?w1 = nowUTC w" "notifications ?w1 = notifications w"
      by (simp_all add: replyExternalInvite_def)
    have v: "fst ?u = ?self'"
      using st' by (simp add: status_only_view)
    have cs: "col_BIND_STATUS (columnMap_of self None (Some BIND_STATUS_DECLINED) None) =
                Some BIND_STATUS_DECLINED"
      using st' by (simp add: status_only_columnMap)
    have res: "declineShare self w =
        (Inr (fst ?u),
         if \<not> external ov then sendReplyNotification (fst ?u) ov None (snd ?u) else snd ?u)"
      using nd st ov1 by (simp add: declineShare_def Let_def case_prod_beta)
    have tr: "trace (snd ?u) = trace ?w1
       @ [SQL_Update \<lparr>col_BIND_MODE = None, col_BIND_STATUS = Some BIND_STATUS_DECLINED,
                       col_MESSAGE = None, col_BIND_REVISION = None\<rparr> (resourceID ov) (home_resourceID (viewerHome self))]
       @ transitionEvents (self\<lparr>bindStatus := BIND_STATUS_DECLINED\<rparr>) ?w1
       @ cacheEvents (fst ?u) ?w1
       @ [NotifyPropertyChanged (home_resourceID (viewerHome ov)) (resourceID ov),
          NotifyChanged (home_resourceID (viewerHome self))]"
      using st' by (rule status_only_trace)
    let ?rest = "transitionEvents (self\<lparr>bindStatus := BIND_STATUS_DECLINED\<rparr>) ?w1
       @ cacheEvents (fst ?u) ?w1
       @ [NotifyPropertyChanged (home_resourceID (viewerHome ov)) (resourceID ov),
          NotifyChanged (home_resourceID (viewerHome self))]
       @ (if \<not> external ov
          then [WriteNotificationObject (home_uid (ownerHome (fst ?u)))
                  (shareUID (fst ?u) @ ''-reply'') (replyNotificationType (fst ?u))
                  (replyNotificationData (fst ?u) ov None (snd ?u))]
          else [])"
    have c1: "fst (declineShare self w) = Inr ?self'"
      using res v by simp
    have c2: "trace (snd (declineShare self w)) =
         trace w
         @ (if external self
            then [Send_sharereply (home_uid (ownerHome self)) (home_uid (viewerHome self))
                    (shareUID self) BIND_STATUS_DECLINED None]
            else [])
         @ [SQL_Update \<lparr>col_BIND_MODE = None, col_BIND_STATUS = Some BIND_STATUS_DECLINED,
                         col_MESSAGE = None, col_BIND_REVISION = None\<rparr>
              (resourceID ov) (home_resourceID (viewerHome self))]
         @ ?rest"
      using res tr
      by (simp add: sendReplyNotification_def writeNotificationObject_def
            replyExternalInvite_def)
    have c3: "\<forall>a b c d e. Send_sharereply a b c d e \<notin> set ?rest"
      by (simp add: no_reply_in_transition)
    have c4: "list_all (\<lambda>r. BIND_STATUS r = BIND_STATUS_DECLINED)
        (filter (bind_key (resourceID ov) (home_resourceID (viewerHome self)))
           (binds (snd (declineShare self w))))"
      using res updateShare_status_rows [OF cs, of ov ?w1]
      by (simp add: sendReplyNotification_def writeNotificationObject_def)
    have c5: "notifications (snd (declineShare self w)) =
        (if external ov then notifications w
         else (notifications w)
           (home_uid (ownerHome self) :=
              (notifications w (home_uid (ownerHome self)))
                (shareUID self @ ''-reply'' \<mapsto>
                   (replyNotificationType self,
                    replyNotificationData ?self' ov None w))))"
      using res v sync1
      by (simp add: sendReplyNotification_def writeNotificationObject_def
            updateShare_frame shareUID_def replyNotificationType_def sharedResourceType_def
            replyNotificationData_def)
    from c2 c3 have c23: "\<exists>rest. trace (snd (declineShare self w)) =
         trace w
         @ (if external self
            then [Send_sharereply (home_uid (ownerHome self)) (home_uid (viewerHome self))
                    (shareUID self) BIND_STATUS_DECLINED None]
            else [])
         @ [SQL_Update \<lparr>col_BIND_MODE = None, col_BIND_STATUS = Some BIND_STATUS_DECLINED,
                         col_MESSAGE = None, col_BIND_REVISION = None\<rparr>
              (resourceID ov) (home_resourceID (viewerHome self))]
         @ rest
         \<and> (\<forall>a b c d e. Send_sharereply a b c d e \<notin> set rest)"
      by - (rule exI [of _ ?rest], blast)
    from c1 c23 c4 c5 show "fst (declineShare self w) = Inr ?self' \<and>
      (\<exists>rest. trace (snd (declineShare self w)) =
         trace w
         @ (if external self
            then [Send_sharereply (home_uid (ownerHome self)) (home_uid (viewerHome self))
                    (shareUID self) BIND_STATUS_DECLINED None]
            else [])
         @ [SQL_Update \<lparr>col_BIND_MODE = None, col_BIND_STATUS = Some BIND_STATUS_DECLINED,
                         col_MESSAGE = None, col_BIND_REVISION = None\<rparr>
              (resourceID ov) (home_resourceID (viewerHome self))]
         @ rest
         \<and> (\<forall>a b c d e. Send_sharereply a b c d e \<notin> set rest)) \<and>
      list_all (\<lambda>r. BIND_STATUS r = BIND_STATUS_DECLINED)
        (filter (bind_key (resourceID ov) (home_resourceID (viewerHome self)))
           (binds (snd (declineShare self w)))) \<and>
      notifications (snd (declineShare self w)) =
        (if external ov then notifications w
         else (notifications w)
           (home_uid (ownerHome self) :=
              (notifications w (home_uid (ownerHome self)))
                (shareUID self @ ''-reply'' \<mapsto>
                   (replyNotificationType self,
                    replyNotificationData ?self' ov None w))))"
      by blast
  qed
  from noop_a noop_d acc dec show ?thesis by (intro conjI)
qed

text \<open>The theorem on a local sharee invited with read access who accepts, and on an
  accepted one who accepts again.\<close>

theorem acceptShare_declineShare_witness:
  "\<not> direct (ex_shareeView ex_shareeHome ''s1'' BIND_MODE_READ BIND_STATUS_INVITED) \<and>
   shareStatus (ex_shareeView ex_shareeHome ''s1'' BIND_MODE_READ BIND_STATUS_INVITED) \<noteq>
     BIND_STATUS_ACCEPTED \<and>
   ownerView (ex_shareeView ex_shareeHome ''s1'' BIND_MODE_READ BIND_STATUS_INVITED)
     (ex_world [ex_shareRow 2 ''s1'' BIND_MODE_READ BIND_STATUS_INVITED]) = Some ex_ownerView \<and>
   fst (acceptShare (ex_shareeView ex_shareeHome ''s1'' BIND_MODE_READ BIND_STATUS_INVITED)
          (Some ''mine'') (ex_world [ex_shareRow 2 ''s1'' BIND_MODE_READ BIND_STATUS_INVITED])) =
     Inr ((ex_shareeView ex_shareeHome ''s1'' BIND_MODE_READ BIND_STATUS_ACCEPTED)
            \<lparr>bindRevision := 7\<rparr>) \<and>
   map BIND_STATUS (binds (snd (acceptShare
       (ex_shareeView ex_shareeHome ''s1'' BIND_MODE_READ BIND_STATUS_INVITED)
       (Some ''mine'') (ex_world [ex_shareRow 2 ''s1'' BIND_MODE_READ BIND_STATUS_INVITED])))) =
     [BIND_STATUS_ACCEPTED, BIND_STATUS_ACCEPTED] \<and>
   notifications (snd (acceptShare
       (ex_shareeView ex_shareeHome ''s1'' BIND_MODE_READ BIND_STATUS_INVITED)
       (Some ''mine'') (ex_world [ex_shareRow 2 ''s1'' BIND_MODE_READ BIND_STATUS_INVITED])))
     ''owner'' ''s1-reply'' =
     Some ([(''notification-type'', VStr ''invite-reply''), (''shared-type'', VStr [])],
           [(''notification-type'', VStr ''invite-reply''), (''shared-type'', VStr []),
            (''dtstamp'', VStr ''20150101T000000Z''), (''owner'', VStr ''owner''),
            (''sharee'', VStr ''sharee''), (''status'', VStatus BIND_STATUS_ACCEPTED),
            (''ownerName'', VStr ''calendar''), (''in-reply-to'', VStr ''s1''),
            (''summary'', VStr ''mine'')]) \<and>
   shareStatus (ex_shareeView ex_shareeHome ''s1'' BIND_MODE_READ BIND_STATUS_ACCEPTED) =
     BIND_STATUS_ACCEPTED \<and>
   acceptShare (ex_shareeView ex_shareeHome ''s1'' BIND_MODE_READ BIND_STATUS_ACCEPTED)
     (Some ''mine'') (ex_world [ex_shareRow 2 ''s1'' BIND_MODE_READ BIND_STATUS_ACCEPTED]) =
     (Inr (ex_shareeView ex_shareeHome ''s1'' BIND_MODE_READ BIND_STATUS_ACCEPTED),
      ex_world [ex_shareRow 2 ''s1'' BIND_MODE_READ BIND_STATUS_ACCEPTED])"
proof -
  have ov: "ownerView (ex_shareeView ex_shareeHome ''s1'' BIND_MODE_READ BIND_STATUS_INVITED)
     (ex_world [ex_shareRow 2 ''s1'' BIND_MODE_READ BIND_STATUS_INVITED]) = Some ex_ownerView"
    by (simp add: ownerView_def childWithID_def objectWith_def makeView_def view_of_def ex_defs)
  have b: "map BIND_STATUS (binds (snd (acceptShare
       (ex_shareeView ex_shareeHome ''s1'' BIND_MODE_READ BIND_STATUS_INVITED)
       (Some ''mine'') (ex_world [ex_shareRow 2 ''s1'' BIND_MODE_READ BIND_STATUS_INVITED])))) =
     [BIND_STATUS_ACCEPTED, BIND_STATUS_ACCEPTED]"
    using ov
    by (simp add: acceptShare_def direct_def shareStatus_def external_def Let_def
          case_prod_beta updateShare_binds columnMap_of_def columnMap_empty_def
          sendReplyNotification_def writeNotificationObject_def newShare_def)
       (simp add: ex_defs bind_key_def apply_columns_def)
  from ov b
    acceptShare_declineShare [of
      "ex_shareeView ex_shareeHome ''s1'' BIND_MODE_READ BIND_STATUS_INVITED"
      "Some ''mine''" "ex_world [ex_shareRow 2 ''s1'' BIND_MODE_READ BIND_STATUS_INVITED]"
      ex_ownerView]
    acceptShare_declineShare [of
      "ex_shareeView ex_shareeHome ''s1'' BIND_MODE_READ BIND_STATUS_ACCEPTED"
      "Some ''mine''" "ex_world [ex_shareRow 2 ''s1'' BIND_MODE_READ BIND_STATUS_ACCEPTED]"
      ex_ownerView]
  show ?thesis
    by (simp add: direct_def shareStatus_def external_def shareUID_def shareName_def
          replyNotificationType_def replyNotificationData_def sharedResourceType_def
          nvalue_of_def ex_defs)
qed


section \<open>uninviteUIDFromShare\<close>

text \<open>
  Claim C4, as the specification states it, does not hold: for an accepted local sharee
  the notification written is the one \<^verbatim>\<open>_sendInviteNotification\<close> builds, of type
  \<^verbatim>\<open>invite-notification\<close>, stored in the sharee's collection under the share UID; it is not
  of the shape \<^verbatim>\<open>_sendReplyNotification\<close> builds (type \<^verbatim>\<open>invite-reply\<close>, with the key
  \<^verbatim>\<open>in-reply-to\<close>), and nothing is written under the reply UID. Its summary is the string of
  the bind message when the sharee's view has no \<open>DisplayName\<close> property.
\<close>

theorem uninvite_reply_shaped_counterexample:
  "notifications
     (uninviteUIDFromShare ex_ownerView ''sharee''
        (ex_world [ex_shareRow 2 ''s1'' BIND_MODE_READ BIND_STATUS_ACCEPTED]))
     ''sharee'' ''s1'' =
     Some ([(''notification-type'', VStr ''invite-notification''), (''shared-type'', VStr [])],
           [(''notification-type'', VStr ''invite-notification''), (''shared-type'', VStr []),
            (''dtstamp'', VStr ''20150101T000000Z''), (''owner'', VStr ''owner''),
            (''sharee'', VStr ''sharee''), (''uid'', VStr ''s1''),
            (''status'', VStatus BIND_STATUS_DELETED), (''access'', VMode BIND_MODE_READ),
            (''ownerName'', VStr ''calendar''), (''summary'', VStr ''None'')]) \<and>
   notifications
     (uninviteUIDFromShare ex_ownerView ''sharee''
        (ex_world [ex_shareRow 2 ''s1'' BIND_MODE_READ BIND_STATUS_ACCEPTED]))
     ''sharee'' ''s1-reply'' = None \<and>
   notifications
     (uninviteUIDFromShare ex_ownerView ''sharee''
        (ex_world [ex_shareRow 2 ''s1'' BIND_MODE_READ BIND_STATUS_ACCEPTED]))
     ''owner'' ''s1-reply'' = None \<and>
   replyNotificationType (ex_shareeView ex_shareeHome ''s1'' BIND_MODE_READ BIND_STATUS_ACCEPTED) =
     [(''notification-type'', VStr ''invite-reply''), (''shared-type'', VStr [])]"
  by (simp add: uninviteUIDFromShare_def shareeView_def homeWithUID_def allChildWithID_def
        objectWith_def makeView_def view_of_def ownerHomeOf_def direct_def shareStatus_def
        sendInviteNotification_def writeNotificationObject_def inviteNotificationType_def
        inviteNotificationData_def removeShare_def Let_def shareUID_def shareName_def
        shareMessage_def effectiveShareMode_def sharedResourceType_def str_option_def
        replyNotificationType_def effect_defs ex_defs)

lemma removeShare_frame:
  "notifications (removeShare self sv w) = notifications w"
  "binds (removeShare self sv w) =
     filter (\<lambda>r. \<not> bind_key (resourceID self) (home_resourceID (viewerHome sv)) r) (binds w)"
  "homes (removeShare self sv w) = homes w"
  by (simp_all add: removeShare_def Let_def effect_defs)

lemma notification_writes_frame:
  "binds (sendInviteNotification self sv st w) = binds w"
  "binds (removeInviteNotification self sv w) = binds w"
  "binds (sendExternalUninvite self sv w) = binds w"
  "notifications (sendExternalUninvite self sv w) = notifications w"
  by (simp_all add: sendInviteNotification_def removeInviteNotification_def
        sendExternalUninvite_def writeNotificationObject_def
        removeNotificationObjectWithUID_def)

text \<open>
  Claim C4, amended. When no sharee view resolves for the UID, \<^verbatim>\<open>uninviteUIDFromShare\<close>
  does nothing. When one resolves, the bind record of the resource in the sharee's home is
  removed in every branch. For a local sharee whose bind is not direct: when the status is
  not ACCEPTED the pending invite notification is removed from the sharee's collection and
  nothing is written; when the status is ACCEPTED an invite notification (type
  \<^verbatim>\<open>invite-notification\<close>) is written to the sharee's collection under the share UID, with
  status DELETED and with the summary being the \<open>DisplayName\<close> property of the sharee's view
  when it has one and the string of the bind message otherwise. For an external sharee and
  for a direct share the notification collections are left as they are.
\<close>

theorem uninviteUIDFromShare_effects:
  "(shareeView self shareeUID w = None \<longrightarrow> uninviteUIDFromShare self shareeUID w = w) \<and>
   (shareeView self shareeUID w = Some sv \<longrightarrow>
      binds (uninviteUIDFromShare self shareeUID w) =
        filter (\<lambda>r. \<not> bind_key (resourceID self) (home_resourceID (viewerHome sv)) r)
          (binds w) \<and>
      (\<not> home_external (viewerHome sv) \<and> \<not> direct sv \<and>
       shareStatus sv \<noteq> BIND_STATUS_ACCEPTED \<longrightarrow>
         notifications (uninviteUIDFromShare self shareeUID w) =
           (notifications w)
             (home_uid (viewerHome sv) :=
                (notifications w (home_uid (viewerHome sv)))(shareUID sv := None))) \<and>
      (\<not> home_external (viewerHome sv) \<and> \<not> direct sv \<and>
       shareStatus sv = BIND_STATUS_ACCEPTED \<longrightarrow>
         notifications (uninviteUIDFromShare self shareeUID w) =
           (notifications w)
             (home_uid (viewerHome sv) :=
                (notifications w (home_uid (viewerHome sv)))
                  (shareUID sv \<mapsto>
                     (inviteNotificationType sv,
                      inviteNotificationData self sv (Some BIND_STATUS_DELETED) w))) \<and>
         map_of (inviteNotificationType sv) ''notification-type'' =
           Some (VStr ''invite-notification'') \<and>
         map_of (inviteNotificationData self sv (Some BIND_STATUS_DELETED) w) ''status'' =
           Some (VStatus BIND_STATUS_DELETED) \<and>
         map_of (inviteNotificationData self sv (Some BIND_STATUS_DELETED) w) ''summary'' =
           Some (VStr (case displayName w (home_resourceID (viewerHome sv)) (resourceID sv) of
                         Some d \<Rightarrow> d
                       | None \<Rightarrow> str_option (bindMessage sv)))) \<and>
      (home_external (viewerHome sv) \<or> direct sv \<longrightarrow>
         notifications (uninviteUIDFromShare self shareeUID w) = notifications w))"
proof -
  have none: "shareeView self shareeUID w = None \<longrightarrow> uninviteUIDFromShare self shareeUID w = w"
    by (simp add: uninviteUIDFromShare_def)
  have data: "map_of (inviteNotificationType sv) ''notification-type'' =
           Some (VStr ''invite-notification'') \<and>
         map_of (inviteNotificationData self sv (Some BIND_STATUS_DELETED) w) ''status'' =
           Some (VStatus BIND_STATUS_DELETED) \<and>
         map_of (inviteNotificationData self sv (Some BIND_STATUS_DELETED) w) ''summary'' =
           Some (VStr (case displayName w (home_resourceID (viewerHome sv)) (resourceID sv) of
                         Some d \<Rightarrow> d
                       | None \<Rightarrow> str_option (bindMessage sv)))"
    by (simp add: inviteNotificationType_def inviteNotificationData_def shareMessage_def
          split: option.splits)
  have some: "shareeView self shareeUID w = Some sv \<longrightarrow>
      binds (uninviteUIDFromShare self shareeUID w) =
        filter (\<lambda>r. \<not> bind_key (resourceID self) (home_resourceID (viewerHome sv)) r)
          (binds w) \<and>
      (\<not> home_external (viewerHome sv) \<and> \<not> direct sv \<and>
       shareStatus sv \<noteq> BIND_STATUS_ACCEPTED \<longrightarrow>
         notifications (uninviteUIDFromShare self shareeUID w) =
           (notifications w)
             (home_uid (viewerHome sv) :=
                (notifications w (home_uid (viewerHome sv)))(shareUID sv := None))) \<and>
      (\<not> home_external (viewerHome sv) \<and> \<not> direct sv \<and>
       shareStatus sv = BIND_STATUS_ACCEPTED \<longrightarrow>
         notifications (uninviteUIDFromShare self shareeUID w) =
           (notifications w)
             (home_uid (viewerHome sv) :=
                (notifications w (home_uid (viewerHome sv)))
                  (shareUID sv \<mapsto>
                     (inviteNotificationType sv,
                      inviteNotificationData self sv (Some BIND_STATUS_DELETED) w)))) \<and>
      (home_external (viewerHome sv) \<or> direct sv \<longrightarrow>
         notifications (uninviteUIDFromShare self shareeUID w) = notifications w)"
    by (auto simp add: uninviteUIDFromShare_def Let_def removeShare_frame
          notification_writes_frame sendInviteNotification_def removeInviteNotification_def
          writeNotificationObject_def removeNotificationObjectWithUID_def)
  from none data some show ?thesis by blast
qed

text \<open>The theorem on a local sharee who is still only invited, and on a UID that has no
  bind.\<close>

theorem uninviteUIDFromShare_effects_witness:
  "shareeView ex_ownerView ''sharee''
     ((ex_world [ex_shareRow 2 ''s1'' BIND_MODE_READ BIND_STATUS_INVITED])
        \<lparr>notifications := (\<lambda>p. [''s1'' \<mapsto> ([], [])])\<rparr>) =
     Some (ex_shareeView ex_shareeHome ''s1'' BIND_MODE_READ BIND_STATUS_INVITED) \<and>
   binds (uninviteUIDFromShare ex_ownerView ''sharee''
     ((ex_world [ex_shareRow 2 ''s1'' BIND_MODE_READ BIND_STATUS_INVITED])
        \<lparr>notifications := (\<lambda>p. [''s1'' \<mapsto> ([], [])])\<rparr>)) = [ex_ownRow] \<and>
   notifications (uninviteUIDFromShare ex_ownerView ''sharee''
     ((ex_world [ex_shareRow 2 ''s1'' BIND_MODE_READ BIND_STATUS_INVITED])
        \<lparr>notifications := (\<lambda>p. [''s1'' \<mapsto> ([], [])])\<rparr>)) ''sharee'' ''s1'' = None \<and>
   shareeView ex_ownerView ''remote'' (ex_world []) = None \<and>
   uninviteUIDFromShare ex_ownerView ''remote'' (ex_world []) = ex_world []"
proof -
  have sv: "shareeView ex_ownerView ''sharee''
     ((ex_world [ex_shareRow 2 ''s1'' BIND_MODE_READ BIND_STATUS_INVITED])
        \<lparr>notifications := (\<lambda>p. [''s1'' \<mapsto> ([], [])])\<rparr>) =
     Some (ex_shareeView ex_shareeHome ''s1'' BIND_MODE_READ BIND_STATUS_INVITED)"
    by (simp add: shareeView_def homeWithUID_def allChildWithID_def objectWith_def
          makeView_def view_of_def ownerHomeOf_def ex_defs)
  have nv: "shareeView ex_ownerView ''remote'' (ex_world []) = None"
    by (simp add: shareeView_def homeWithUID_def allChildWithID_def objectWith_def ex_defs)
  from sv nv
    uninviteUIDFromShare_effects [of ex_ownerView "''sharee''"
      "(ex_world [ex_shareRow 2 ''s1'' BIND_MODE_READ BIND_STATUS_INVITED])
         \<lparr>notifications := (\<lambda>p. [''s1'' \<mapsto> ([], [])])\<rparr>"
      "ex_shareeView ex_shareeHome ''s1'' BIND_MODE_READ BIND_STATUS_INVITED"]
    uninviteUIDFromShare_effects [of ex_ownerView "''remote''" "ex_world []"]
  show ?thesis
    by (simp add: direct_def shareStatus_def shareUID_def bind_key_def ex_defs)
qed

section \<open>Creating a bind: the sub-transaction and its fallback\<close>

lemma find_append:
  "find P (xs @ ys) = (case find P xs of None \<Rightarrow> find P ys | Some x \<Rightarrow> Some x)"
  by (induction xs) auto

lemma find_map_preserve:
  "(\<And>x. P (g x) = P x) \<Longrightarrow> find P (map g xs) = map_option g (find P xs)"
  by (induction xs) auto

lemma find_None_list_ex: "find P xs = None \<longleftrightarrow> \<not> list_ex P xs"
  by (induction xs) auto

lemma find_Some_mem: "find P xs = Some x \<Longrightarrow> x \<in> set xs \<and> P x"
  by (induction xs) (auto split: if_splits)

lemma find_map_preserve_set:
  "(\<And>x. x \<in> set xs \<Longrightarrow> P (g x) = P x) \<Longrightarrow> find P (map g xs) = map_option g (find P xs)"
  by (induction xs) auto

lemma key_pred_eq:
  "(\<lambda>r. HOME_RESOURCE_ID r = hid \<and> RESOURCE_ID r = rid) = bind_key rid hid"
  by (auto simp add: bind_key_def fun_eq_iff)

lemma owner_resource_self [simp]:
  "owner_resource w (self\<lparr>bindMessage := m\<rparr>) = owner_resource w self"
  by (simp add: owner_resource_def owned_def)

lemma owner_resource_cong:
  "homes w' = homes w \<Longrightarrow> binds w' = binds w \<Longrightarrow> owner_resource w' self = owner_resource w self"
  by (simp add: owner_resource_def)

lemma owner_row:
  assumes "owner_resource w self"
  obtains r0 where
    "find (bind_key (resourceID self) (home_resourceID (viewerHome self))) (binds w) = Some r0"
    "BIND_MODE r0 = BIND_MODE_OWN" "BIND_STATUS r0 = BIND_STATUS_ACCEPTED"
    "r0 \<in> set (binds w)" "RESOURCE_ID r0 = resourceID self"
    "HOME_RESOURCE_ID r0 = home_resourceID (viewerHome self)"
proof -
  from assms obtain r0 where
    f: "find (bind_key (resourceID self) (home_resourceID (viewerHome self))) (binds w) = Some r0"
    and m: "BIND_MODE r0 = BIND_MODE_OWN" "BIND_STATUS r0 = BIND_STATUS_ACCEPTED"
    by (auto simp add: owner_resource_def split: option.splits)
  from find_Some_mem [OF f] have "r0 \<in> set (binds w)" "RESOURCE_ID r0 = resourceID self"
    "HOME_RESOURCE_ID r0 = home_resourceID (viewerHome self)"
    by (simp_all add: bind_key_def)
  with f m show thesis by (rule that)
qed

lemma find_first_own:
  assumes "r0 \<in> set bs" and "RESOURCE_ID r0 = rid" and "BIND_MODE r0 = BIND_MODE_OWN"
    and "list_all (\<lambda>r. RESOURCE_ID r = rid \<and> BIND_MODE r = BIND_MODE_OWN \<longrightarrow>
                        HOME_RESOURCE_ID r = hid) bs"
  shows "\<exists>r. find (\<lambda>r. RESOURCE_ID r = rid \<and> BIND_MODE r = BIND_MODE_OWN) bs = Some r \<and>
             HOME_RESOURCE_ID r = hid"
proof -
  from assms(1-3) have "list_ex (\<lambda>r. RESOURCE_ID r = rid \<and> BIND_MODE r = BIND_MODE_OWN) bs"
    by (auto simp add: list_ex_iff)
  then obtain r where r: "find (\<lambda>r. RESOURCE_ID r = rid \<and> BIND_MODE r = BIND_MODE_OWN) bs = Some r"
    by (cases "find (\<lambda>r. RESOURCE_ID r = rid \<and> BIND_MODE r = BIND_MODE_OWN) bs")
       (auto simp add: find_None_list_ex)
  from find_Some_mem [OF r] assms(4) have "HOME_RESOURCE_ID r = hid"
    by (auto simp add: list_all_iff)
  with r show ?thesis by blast
qed

lemma ownerHomeOf_owner_resource:
  assumes "owner_resource w self"
  shows "ownerHomeOf w (resourceID self) = Some (viewerHome self)"
proof -
  from assms have al: "list_all (\<lambda>r. RESOURCE_ID r = resourceID self \<and> BIND_MODE r = BIND_MODE_OWN \<longrightarrow>
                     HOME_RESOURCE_ID r = home_resourceID (viewerHome self)) (binds w)"
    and hm: "find (\<lambda>h. home_resourceID h = home_resourceID (viewerHome self)) (homes w) =
        Some (viewerHome self)"
    by (simp_all add: owner_resource_def)
  from owner_row [OF assms] obtain r0 where
    "r0 \<in> set (binds w)" "RESOURCE_ID r0 = resourceID self" "BIND_MODE r0 = BIND_MODE_OWN"
    by metis
  from find_first_own [OF this al] hm show ?thesis
    by (auto simp add: ownerHomeOf_def)
qed

lemma ownerView_owner_resource:
  assumes "owner_resource w self" and "ownerHome sv = viewerHome self"
    and "resourceID sv = resourceID self"
  shows "\<exists>ov. ownerView sv w = Some ov \<and> viewerHome ov = viewerHome self \<and>
               ownerHome ov = viewerHome self \<and> resourceID ov = resourceID self \<and>
               owned ov"
proof -
  from owner_row [OF assms(1)] obtain r0 where
    f: "find (bind_key (resourceID self) (home_resourceID (viewerHome self))) (binds w) = Some r0"
    and m: "BIND_MODE r0 = BIND_MODE_OWN" "BIND_STATUS r0 = BIND_STATUS_ACCEPTED"
    and k: "RESOURCE_ID r0 = resourceID self"
    by metis
  show ?thesis
    using f m k assms(2,3)
    by (simp add: ownerView_def childWithID_def objectWith_def key_pred_eq makeView_def
          view_of_def owned_def)
qed

text \<open>Every attempt of the insert fails while a row of the pair is in the table; only
  the stream of UUIDs advances.\<close>

lemma doInsert_conflict:
  assumes "list_ex (bind_key (resourceID self) (home_resourceID shareeHome)) (binds w)"
  shows "\<exists>k. doInsert self shareeHome mode st summary nopt w =
               (Inl IntegrityError, w\<lparr>uuid_count := k\<rparr>)"
proof -
  have c: "\<And>n c. insert_conflict
      \<lparr>HOME_RESOURCE_ID = home_resourceID shareeHome, RESOURCE_ID = resourceID self,
       EXTERNAL_ID = externalID self, RESOURCE_NAME = n, BIND_MODE = mode, BIND_STATUS = st,
       BIND_REVISION = 0, MESSAGE = summary\<rparr> (w\<lparr>uuid_count := c\<rparr>)"
    using assms by (auto simp add: insert_conflict_def list_ex_iff bind_key_def)
  show ?thesis
  proof (cases nopt)
    case None
    then show ?thesis
      using c [of "uuid4 w (uuid_count w)" "Suc (uuid_count w)"]
      by (auto simp add: doInsert_def newShareName_def Let_def)
  next
    case (Some n)
    then show ?thesis
      using c [of n "uuid_count w"]
      by (auto simp add: doInsert_def Let_def intro!: exI [of _ "uuid_count w"])
  qed
qed

lemma attempt_conflict:
  assumes "list_ex (bind_key (resourceID self) (home_resourceID shareeHome)) (binds w)"
  shows "\<exists>k. attempt n (doInsert self shareeHome mode st summary nopt) w =
               (Inl AllRetriesFailed, w\<lparr>uuid_count := k\<rparr>)"
  using assms
proof (induction n arbitrary: w)
  case 0
  then show ?case by (auto intro!: exI [of _ "uuid_count w"])
next
  case (Suc n)
  from doInsert_conflict [OF Suc.prems] obtain k where
    k: "doInsert self shareeHome mode st summary nopt w = (Inl IntegrityError, w\<lparr>uuid_count := k\<rparr>)"
    by blast
  have "list_ex (bind_key (resourceID self) (home_resourceID shareeHome))
          (binds (w\<lparr>uuid_count := k\<rparr>))"
    using Suc.prems by simp
  from Suc.IH [OF this] obtain k' where
    "attempt n (doInsert self shareeHome mode st summary nopt) (w\<lparr>uuid_count := k\<rparr>) =
       (Inl AllRetriesFailed, w\<lparr>uuid_count := k'\<rparr>)"
    by auto
  with k show ?case by (auto intro!: exI [of _ k'])
qed

lemma subtransaction_conflict:
  assumes "list_ex (bind_key (resourceID self) (home_resourceID shareeHome)) (binds w)"
  shows "\<exists>k. subtransaction (doInsert self shareeHome mode st summary nopt) w =
               (Inl AllRetriesFailed, w\<lparr>uuid_count := k\<rparr>)"
  unfolding subtransaction_def using assms by (rule attempt_conflict)

lemma uuid_count_update_fields [simp]:
  "allChildWithID (w\<lparr>uuid_count := k\<rparr>) h rid = allChildWithID w h rid"
  "anyObjectWithShareUID (w\<lparr>uuid_count := k\<rparr>) h n = anyObjectWithShareUID w h n"
  by (simp_all add: lookups_cong [of "w\<lparr>uuid_count := k\<rparr>" w])

lemma allChildWithID_Some_key:
  assumes "allChildWithID w h rid = Some child"
  shows "list_ex (bind_key rid (home_resourceID h)) (binds w)"
    and "viewerHome child = h" and "resourceID child = rid"
proof -
  from assms obtain r where
    r: "find (\<lambda>r. HOME_RESOURCE_ID r = home_resourceID h \<and> RESOURCE_ID r = rid) (binds w) = Some r"
    and mv: "makeView w h r = Some child"
    by (auto simp add: allChildWithID_def objectWith_def split: option.splits)
  from find_Some_mem [OF r] show "list_ex (bind_key rid (home_resourceID h)) (binds w)"
    by (auto simp add: list_ex_iff bind_key_def)
  from mv find_Some_mem [OF r] show "viewerHome child = h" "resourceID child = rid"
    by (auto simp add: makeView_def view_of_def split: option.splits)
qed

lemma filter_map_preserve:
  "(\<And>x. P (g x) = P x) \<Longrightarrow> filter P (map g xs) = map g (filter P xs)"
  by (induction xs) auto

text \<open>\<^verbatim>\<open>setShared(True)\<close> on an owned view.\<close>

lemma shared_row_fields [simp]:
  "HOME_RESOURCE_ID (shared_row self r) = HOME_RESOURCE_ID r"
  "RESOURCE_ID (shared_row self r) = RESOURCE_ID r"
  "RESOURCE_NAME (shared_row self r) = RESOURCE_NAME r"
  "EXTERNAL_ID (shared_row self r) = EXTERNAL_ID r"
  "BIND_MODE (shared_row self r) = BIND_MODE r"
  "BIND_STATUS (shared_row self r) = BIND_STATUS r"
  "BIND_REVISION (shared_row self r) = BIND_REVISION r"
  "bind_key rid hid (shared_row self r) = bind_key rid hid r"
  by (simp_all add: shared_row_def bind_key_def)

lemma shared_row_other:
  "\<not> bind_key (resourceID self) (home_resourceID (viewerHome self)) r \<Longrightarrow>
     shared_row self r = r"
  by (simp add: shared_row_def)

lemma setShared_owned:
  assumes "owned self"
  shows "fst (setShared self True w) = Inr (self\<lparr>bindMessage := Some ''shared''\<rparr>)"
    and "binds (snd (setShared self True w)) = map (shared_row self) (binds w)"
    and "homes (snd (setShared self True w)) = homes w"
    and "notifications (snd (setShared self True w)) = notifications w"
    and "children (snd (setShared self True w)) = children w"
    and "\<exists>es. trace (snd (setShared self True w)) = trace w @ es \<and>
           (\<forall>e\<in>set es. (\<exists>m r h. e = SQL_UpdateMessage m r h) \<or>
                        (\<exists>k. e = InvalidateAfterCommit k) \<or>
                        (\<exists>h r. e = NotifyPropertyChanged h r))"
proof -
  show "fst (setShared self True w) = Inr (self\<lparr>bindMessage := Some ''shared''\<rparr>)"
    using assms by (cases "bindMessage self = Some ''shared''") (simp_all add: setShared_def Let_def)
  show "binds (snd (setShared self True w)) = map (shared_row self) (binds w)"
    using assms
    by (cases "bindMessage self = Some ''shared''")
       (simp_all add: setShared_def Let_def effect_defs shared_row_def map_idI)
  show "homes (snd (setShared self True w)) = homes w"
    "notifications (snd (setShared self True w)) = notifications w"
    "children (snd (setShared self True w)) = children w"
    using assms by (simp_all add: setShared_def Let_def effect_defs)
  show "\<exists>es. trace (snd (setShared self True w)) = trace w @ es \<and>
           (\<forall>e\<in>set es. (\<exists>m r h. e = SQL_UpdateMessage m r h) \<or>
                        (\<exists>k. e = InvalidateAfterCommit k) \<or>
                        (\<exists>h r. e = NotifyPropertyChanged h r))"
    using assms by (auto simp add: setShared_def Let_def effect_defs)
qed

lemma setShared_owned_eq:
  assumes "owned self"
  shows "setShared self True w =
           (Inr (self\<lparr>bindMessage := Some ''shared''\<rparr>), snd (setShared self True w))"
  using setShared_owned(1) [OF assms, of w] by (cases "setShared self True w") simp

text \<open>The fallback of \<^verbatim>\<open>shareWith\<close>: a row of the pair is in the table and its view
  resolves.\<close>

lemma shareWith_fallback:
  assumes "owned self" and "allChildWithID w shareeHome (resourceID self) = Some child"
  shows "\<exists>k. shareWith self shareeHome mode (Some st) summary nopt w =
     (Inr (name child, self\<lparr>bindMessage := Some ''shared''\<rparr>),
      notifyChanged shareeHome
        (notifyPropertyChanged (self\<lparr>bindMessage := Some ''shared''\<rparr>)
           (snd (setShared self True
              (snd (updateShare self child (Some mode) (Some st) summary
                      (w\<lparr>uuid_count := k\<rparr>)))))))"
proof -
  from allChildWithID_Some_key(1) [OF assms(2)]
  have "list_ex (bind_key (resourceID self) (home_resourceID shareeHome)) (binds w)" .
  from subtransaction_conflict [OF this, of mode st summary nopt] obtain k where
    k: "subtransaction (doInsert self shareeHome mode st summary nopt) w =
          (Inl AllRetriesFailed, w\<lparr>uuid_count := k\<rparr>)"
    by blast
  have nm: "name (fst (updateShare self child (Some mode) (Some st) summary
                          (w\<lparr>uuid_count := k\<rparr>))) = name child"
    by (simp add: updateShare_view Let_def applied_view_def)
  show ?thesis
    using k assms(2) nm
    by (intro exI [of _ k])
       (simp add: shareWith_def shareWith_try_def andThen_def case_prod_beta setShared_owned(1) [OF assms(1)])
qed

text \<open>The insert path of \<^verbatim>\<open>shareWith\<close>.\<close>

lemma doInsert_ok:
  assumes "can_insert self shareeHome (chosenName nopt w) w"
  shows "doInsert self shareeHome mode st summary nopt w =
     (Inr (chosenName nopt w),
      emit (SQL_Insert ((newBindRow self shareeHome mode st summary nopt w)\<lparr>BIND_REVISION := 0\<rparr>))
        (w\<lparr>uuid_count := (case nopt of Some n \<Rightarrow> uuid_count w | None \<Rightarrow> Suc (uuid_count w)),
           binds := binds w @ [(newBindRow self shareeHome mode st summary nopt w)\<lparr>BIND_REVISION := 0\<rparr>]\<rparr>))"
  using assms
  by (cases nopt)
     (simp_all add: doInsert_def newShareName_def Let_def can_insert_def insert_conflict_def
        chosenName_def newBindRow_def emit_def)

lemma subtransaction_ok:
  assumes "can_insert self shareeHome (chosenName nopt w) w"
  shows "subtransaction (doInsert self shareeHome mode st summary nopt) w =
     (Inr (chosenName nopt w),
      emit (SQL_Insert ((newBindRow self shareeHome mode st summary nopt w)\<lparr>BIND_REVISION := 0\<rparr>))
        (w\<lparr>uuid_count := (case nopt of Some n \<Rightarrow> uuid_count w | None \<Rightarrow> Suc (uuid_count w)),
           binds := binds w @ [(newBindRow self shareeHome mode st summary nopt w)\<lparr>BIND_REVISION := 0\<rparr>]\<rparr>))"
  by (simp add: subtransaction_def doInsert_ok [OF assms])

lemma initBindRevision_frame:
  "binds (snd (initBindRevision v w)) =
     map (\<lambda>r. if bind_key (resourceID v) (home_resourceID (viewerHome v)) r
               then r\<lparr>BIND_REVISION := syncTokenRevision w (resourceID v)\<rparr> else r) (binds w)"
  "homes (snd (initBindRevision v w)) = homes w"
  "notifications (snd (initBindRevision v w)) = notifications w"
  "children (snd (initBindRevision v w)) = children w"
  "trace (snd (initBindRevision v w)) =
     trace w @ SQL_Update (revisionMap (syncTokenRevision w (resourceID v))) (resourceID v)
                 (home_resourceID (viewerHome v))
             # cacheEvents (v\<lparr>bindRevision := syncTokenRevision w (resourceID v)\<rparr>) w"
  by (simp_all add: initBindRevision_def Let_def effect_defs cacheEvents_def)

lemma not_outward_cacheEvents [simp]: "list_all (\<lambda>e. \<not> outward e) (cacheEvents v w)"
  by (simp add: cacheEvents_def queryCacheKeys_def)

lemma not_outward_transitionEvents [simp]: "list_all (\<lambda>e. \<not> outward e) (transitionEvents v w)"
  by (simp add: transitionEvents_def)

lemma shareWith_try_insert:
  assumes ci: "can_insert self shareeHome (chosenName nopt w) w"
    and oh: "ownerHomeOf w (resourceID self) = Some oh"
  obtains W where
    "shareWith_try self shareeHome mode st summary nopt w = (Inr (chosenName nopt w), W)"
    "binds W = binds w @ [newBindRow self shareeHome mode st summary nopt w]"
    "homes W = homes w"
    "notifications W = notifications w"
    "children W = children w"
    "\<exists>es. trace W = trace w @ es \<and> list_all (\<lambda>e. \<not> outward e) es"
proof -
  let ?row0 = "(newBindRow self shareeHome mode st summary nopt w)\<lparr>BIND_REVISION := 0\<rparr>"
  let ?w2 = "emit (SQL_Insert ?row0)
        (w\<lparr>uuid_count := (case nopt of Some n \<Rightarrow> uuid_count w | None \<Rightarrow> Suc (uuid_count w)),
           binds := binds w @ [?row0]\<rparr>)"
  have sub: "subtransaction (doInsert self shareeHome mode st summary nopt) w =
               (Inr (chosenName nopt w), ?w2)"
    by (rule subtransaction_ok [OF ci])
  have nokey: "\<And>r. r \<in> set (binds w) \<Longrightarrow>
      \<not> (HOME_RESOURCE_ID r = home_resourceID shareeHome \<and> RESOURCE_ID r = resourceID self)"
    and noname: "\<And>r. r \<in> set (binds w) \<Longrightarrow>
      \<not> (HOME_RESOURCE_ID r = home_resourceID shareeHome \<and> RESOURCE_NAME r = chosenName nopt w)"
    using ci by (auto simp add: can_insert_def list_ex_iff)
  show thesis
  proof (cases "st = BIND_STATUS_ACCEPTED")
    case False
    have "shareWith_try self shareeHome mode st summary nopt w = (Inr (chosenName nopt w), ?w2)"
      using sub False by (simp add: shareWith_try_def)
    moreover have "binds ?w2 = binds w @ [newBindRow self shareeHome mode st summary nopt w]"
      using False by (simp add: newBindRow_def)
    moreover have "\<exists>es. trace ?w2 = trace w @ es \<and> list_all (\<lambda>e. \<not> outward e) es"
      by (simp add: emit_def)
    ultimately show thesis
      by (intro that [of ?w2]) (simp_all add: emit_def)
  next
    case True
    let ?oh = "if mode = BIND_MODE_OWN then shareeHome else oh"
    let ?sv = "view_of shareeHome ?oh ?row0"
    have f1: "find (\<lambda>r. HOME_RESOURCE_ID r = home_resourceID shareeHome \<and>
                          RESOURCE_NAME r = chosenName nopt w) (binds w) = None"
      using noname by (auto simp add: find_None_iff)
    have own2: "ownerHomeOf ?w2 (resourceID self) = Some oh"
      using oh
      by (auto simp add: ownerHomeOf_def emit_def find_append split: option.splits)
    have any: "anyObjectWithShareUID ?w2 shareeHome (chosenName nopt w) = Some ?sv"
      using f1 own2
      by (simp add: anyObjectWithShareUID_def objectWith_def find_append makeView_def)
         (simp add: newBindRow_def)
    let ?w3 = "snd (initBindRevision ?sv (initSyncToken ?sv ?w2))"
    have res: "shareWith_try self shareeHome mode st summary nopt w =
                 (Inr (chosenName nopt w), ?w3)"
      using sub True any by (simp add: shareWith_try_def case_prod_beta)
    have idm: "map (\<lambda>r. if bind_key (resourceID self) (home_resourceID shareeHome) r
                 then r\<lparr>BIND_REVISION := syncTokenRevision w (resourceID self)\<rparr> else r)
                 (binds w) = binds w"
      using nokey by (intro map_idI) (auto simp add: bind_key_def)
    have sv: "resourceID ?sv = resourceID self" "viewerHome ?sv = shareeHome"
      by (simp_all add: view_of_def newBindRow_def)
    have w2f: "binds (initSyncToken ?sv ?w2) = binds w @ [?row0]"
      "syncTokenRevision (initSyncToken ?sv ?w2) = syncTokenRevision w"
      "homes (initSyncToken ?sv ?w2) = homes w"
      "notifications (initSyncToken ?sv ?w2) = notifications w"
      "children (initSyncToken ?sv ?w2) = children w"
      "trace (initSyncToken ?sv ?w2) =
         trace w @ [SQL_Insert ?row0,
                    InitSyncToken (home_resourceID shareeHome) (resourceID self)]"
      by (simp_all add: initSyncToken_def emit_def sv)
    have row: "?row0\<lparr>BIND_REVISION := syncTokenRevision w (resourceID self)\<rparr> =
                 newBindRow self shareeHome mode st summary nopt w"
      "bind_key (resourceID self) (home_resourceID shareeHome) ?row0"
      using True by (simp_all add: newBindRow_def bind_key_def)
    have b3: "binds ?w3 = binds w @ [newBindRow self shareeHome mode st summary nopt w]"
      by (simp only: initBindRevision_frame sv w2f map_append idm list.map row if_True)
    have t3: "\<exists>es. trace ?w3 = trace w @ es \<and> list_all (\<lambda>e. \<not> outward e) es"
      by (simp only: initBindRevision_frame sv w2f) simp
    show thesis
      using res b3 t3
      by (intro that [of ?w3]) (simp_all only: initBindRevision_frame w2f)
  qed
qed

lemma setShared_trace_inward:
  assumes "owned self"
  shows "\<exists>es. trace (snd (setShared self True w)) = trace w @ es \<and>
              list_all (\<lambda>e. \<not> outward e) es"
proof -
  from setShared_owned(6) [OF assms, of w] obtain es where
    es: "trace (snd (setShared self True w)) = trace w @ es"
    and f: "\<forall>e\<in>set es. (\<exists>m r h. e = SQL_UpdateMessage m r h) \<or>
                        (\<exists>k. e = InvalidateAfterCommit k) \<or>
                        (\<exists>h r. e = NotifyPropertyChanged h r)"
    by blast
  from f have "list_all (\<lambda>e. \<not> outward e) es"
    by (auto simp add: list_all_iff)
  with es show ?thesis by blast
qed

lemma shareWith_tail:
  assumes own: "owned self"
    and t: "shareWith_try self shareeHome mode st summary nopt w = (Inr bindName, W1)"
  shows "shareWith self shareeHome mode (Some st) summary nopt w =
     (Inr (bindName, self\<lparr>bindMessage := Some ''shared''\<rparr>),
      notifyChanged shareeHome
        (notifyPropertyChanged (self\<lparr>bindMessage := Some ''shared''\<rparr>)
           (snd (setShared self True W1))))"
  using t by (simp add: shareWith_def andThen_def case_prod_beta setShared_owned(1) [OF own])

lemma shareWith_tail_frame:
  assumes own: "owned self"
  shows "binds (notifyChanged shareeHome (notifyPropertyChanged v (snd (setShared self True W1)))) =
           map (shared_row self) (binds W1)"
    and "homes (notifyChanged shareeHome (notifyPropertyChanged v (snd (setShared self True W1)))) =
           homes W1"
    and "notifications (notifyChanged shareeHome (notifyPropertyChanged v (snd (setShared self True W1)))) =
           notifications W1"
    and "children (notifyChanged shareeHome (notifyPropertyChanged v (snd (setShared self True W1)))) =
           children W1"
    and "\<exists>es. trace (notifyChanged shareeHome (notifyPropertyChanged v (snd (setShared self True W1)))) =
           trace W1 @ es \<and> list_all (\<lambda>e. \<not> outward e) es"
proof -
  from setShared_trace_inward [OF own, of W1] obtain es where
    es: "trace (snd (setShared self True W1)) = trace W1 @ es" "list_all (\<lambda>e. \<not> outward e) es"
    by blast
  show "\<exists>es. trace (notifyChanged shareeHome (notifyPropertyChanged v (snd (setShared self True W1)))) =
           trace W1 @ es \<and> list_all (\<lambda>e. \<not> outward e) es"
    using es
    by (intro exI [of _ "es @ [NotifyPropertyChanged (home_resourceID (viewerHome v)) (resourceID v),
                              NotifyChanged (home_resourceID shareeHome)]"])
       (simp add: notifyChanged_def notifyPropertyChanged_def)
qed (simp_all add: notifyChanged_def notifyPropertyChanged_def setShared_owned [OF own])

lemma shareWith_insert:
  assumes own: "owned self"
    and ci: "can_insert self shareeHome (chosenName nopt w) w"
    and oh: "ownerHomeOf w (resourceID self) = Some oh"
  obtains W where
    "shareWith self shareeHome mode (Some st) summary nopt w =
       (Inr (chosenName nopt w, self\<lparr>bindMessage := Some ''shared''\<rparr>), W)"
    "binds W = map (shared_row self) (binds w @ [newBindRow self shareeHome mode st summary nopt w])"
    "homes W = homes w"
    "notifications W = notifications w"
    "children W = children w"
    "\<exists>es. trace W = trace w @ es \<and> list_all (\<lambda>e. \<not> outward e) es"
proof -
  from shareWith_try_insert [OF ci oh, of mode st summary] obtain W1 where
    t: "shareWith_try self shareeHome mode st summary nopt w = (Inr (chosenName nopt w), W1)"
    and b: "binds W1 = binds w @ [newBindRow self shareeHome mode st summary nopt w]"
    and f: "homes W1 = homes w" "notifications W1 = notifications w" "children W1 = children w"
    and tr: "\<exists>es. trace W1 = trace w @ es \<and> list_all (\<lambda>e. \<not> outward e) es"
    by blast
  let ?self' = "self\<lparr>bindMessage := Some ''shared''\<rparr>"
  let ?W = "notifyChanged shareeHome (notifyPropertyChanged ?self' (snd (setShared self True W1)))"
  from tr obtain es1 where es1: "trace W1 = trace w @ es1" "list_all (\<lambda>e. \<not> outward e) es1"
    by blast
  from shareWith_tail_frame(5) [OF own, of shareeHome ?self' W1] obtain es2 where
    es2: "trace ?W = trace W1 @ es2" "list_all (\<lambda>e. \<not> outward e) es2"
    by blast
  have "\<exists>es. trace ?W = trace w @ es \<and> list_all (\<lambda>e. \<not> outward e) es"
    using es1 es2 by (intro exI [of _ "es1 @ es2"]) simp
  then show thesis
    using shareWith_tail [OF own t] b f
    by (intro that [of ?W]) (simp_all only: shareWith_tail_frame(1-4) [OF own])
qed

text \<open>Resolving or provisioning the sharee's home.\<close>

lemma homeWithUID_create:
  assumes "homeWithUID u True w = (Some sh, w0)"
  shows "find (\<lambda>h. home_uid h = u) (homes w0) = Some sh"
    and "binds w0 = binds w"
    and "notifications w0 = notifications w"
    and "children w0 = children w"
    and "trace w0 = trace w"
    and "uuid4 w0 = uuid4 w" and "uuid_count w0 = uuid_count w"
    and "syncTokenRevision w0 = syncTokenRevision w"
    and "\<exists>hs. homes w0 = homes w @ hs"
  using assms
  by (auto simp add: homeWithUID_def Let_def find_append split: option.splits if_splits)

lemma homeWithUID_lookup:
  "find (\<lambda>h. home_uid h = u) (homes w) = Some sh \<Longrightarrow> fst (homeWithUID u False w) = Some sh"
  by (simp add: homeWithUID_def)

lemma find_home_append:
  "find P hs = Some h \<Longrightarrow> find P (hs @ hs') = Some h"
  by (simp add: find_append)

lemma ownerHomeOf_homes_append:
  assumes "ownerHomeOf w rid = Some oh" and "binds w0 = binds w" and "homes w0 = homes w @ hs"
  shows "ownerHomeOf w0 rid = Some oh"
  using assms by (auto simp add: ownerHomeOf_def find_append split: option.splits)

lemma can_insert_cong:
  "binds w0 = binds w \<Longrightarrow> can_insert self sh n w0 = can_insert self sh n w"
  by (simp add: can_insert_def)

lemma chosenName_cong:
  "uuid4 w0 = uuid4 w \<Longrightarrow> uuid_count w0 = uuid_count w \<Longrightarrow> chosenName nopt w0 = chosenName nopt w"
  by (simp add: chosenName_def split: option.splits)

lemma newBindRow_cong:
  "uuid4 w0 = uuid4 w \<Longrightarrow> uuid_count w0 = uuid_count w \<Longrightarrow>
   syncTokenRevision w0 = syncTokenRevision w \<Longrightarrow>
     newBindRow self sh mode st summary nopt w0 = newBindRow self sh mode st summary nopt w"
  by (simp add: newBindRow_def chosenName_def split: option.splits)

text \<open>The view a lookup returns for the inserted row.\<close>

lemma allChildWithID_inserted:
  assumes ci: "can_insert self sh n w"
    and b: "binds W = map (shared_row self) (binds w @ [row])"
    and hW: "\<exists>hs. homes W = homes w @ hs"
    and row: "HOME_RESOURCE_ID row = home_resourceID sh" "RESOURCE_ID row = resourceID self"
    and ne: "home_resourceID sh \<noteq> home_resourceID (viewerHome self)"
    and oh: "ownerHomeOf w (resourceID self) = Some oh"
  shows "allChildWithID W sh (resourceID self) =
           Some (view_of sh (if BIND_MODE row = BIND_MODE_OWN then sh else oh) row)"
proof -
  have nokey: "find (bind_key (resourceID self) (home_resourceID sh)) (binds w) = None"
    using ci by (auto simp add: can_insert_def find_None_iff list_ex_iff bind_key_def)
  have srow: "shared_row self row = row"
    using row ne by (simp add: shared_row_def bind_key_def)
  have f: "find (bind_key (resourceID self) (home_resourceID sh)) (binds W) = Some row"
    using nokey srow row
    by (simp add: b find_append find_map_preserve bind_key_def)
  from oh obtain r where
    r: "find (\<lambda>r. RESOURCE_ID r = resourceID self \<and> BIND_MODE r = BIND_MODE_OWN) (binds w) = Some r"
    and h: "find (\<lambda>h. home_resourceID h = HOME_RESOURCE_ID r) (homes w) = Some oh"
    by (auto simp add: ownerHomeOf_def split: option.splits)
  from hW obtain hs where hs: "homes W = homes w @ hs" by blast
  have "find (\<lambda>r. RESOURCE_ID r = resourceID self \<and> BIND_MODE r = BIND_MODE_OWN) (binds W) =
          Some (shared_row self r)"
    using r by (simp add: b find_append find_map_preserve)
  then have own: "ownerHomeOf W (resourceID self) = Some oh"
    using h hs by (simp add: ownerHomeOf_def find_append)
  show ?thesis
    using f own row
    by (simp add: allChildWithID_def objectWith_def key_pred_eq makeView_def)
qed

lemma createShare_insert:
  assumes own: "owned self"
    and oh: "ownerHomeOf w (resourceID self) = Some oh"
    and hw: "homeWithUID shareeUID True w = (Some sh, w0)"
    and ci: "can_insert self sh (chosenName nopt w) w"
    and uid: "home_uid (viewerHome self) \<noteq> shareeUID"
    and ne: "home_resourceID sh \<noteq> home_resourceID (viewerHome self)"
    and st: "st = (if mode \<noteq> BIND_MODE_DIRECT then BIND_STATUS_INVITED
                   else BIND_STATUS_ACCEPTED)"
    and vo: "vo = (if mode = BIND_MODE_OWN then sh else oh)"
  obtains W where
    "createShare self shareeUID mode summary nopt w =
       (Inr (Some (view_of sh vo (newBindRow self sh mode st summary nopt w)),
             self\<lparr>bindMessage := Some ''shared''\<rparr>), W)"
    "shareeView (self\<lparr>bindMessage := Some ''shared''\<rparr>) shareeUID W =
       Some (view_of sh vo (newBindRow self sh mode st summary nopt w))"
    "binds W = map (shared_row self) (binds w @ [newBindRow self sh mode st summary nopt w])"
    "homes W = homes w0"
    "notifications W = notifications w"
    "children W = children w"
    "\<exists>es. trace W = trace w @ es \<and> list_all (\<lambda>e. \<not> outward e) es"
proof -
  let ?row = "newBindRow self sh mode st summary nopt w"
  let ?self' = "self\<lparr>bindMessage := Some ''shared''\<rparr>"
  note h0 = homeWithUID_create [OF hw]
  from h0(9) obtain hs where hs: "homes w0 = homes w @ hs" by blast
  have ci0: "can_insert self sh (chosenName nopt w0) w0"
    using ci by (simp add: can_insert_cong [OF h0(2)] chosenName_cong [OF h0(6,7)])
  have oh0: "ownerHomeOf w0 (resourceID self) = Some oh"
    by (rule ownerHomeOf_homes_append [OF oh h0(2) hs])
  from shareWith_insert [OF own ci0 oh0, of mode st summary] obtain W where
    sw: "shareWith self sh mode (Some st) summary nopt w0 =
           (Inr (chosenName nopt w0, ?self'), W)"
    and b: "binds W = map (shared_row self) (binds w0 @ [newBindRow self sh mode st summary nopt w0])"
    and f: "homes W = homes w0" "notifications W = notifications w0" "children W = children w0"
    and tr: "\<exists>es. trace W = trace w0 @ es \<and> list_all (\<lambda>e. \<not> outward e) es"
    by blast
  have b': "binds W = map (shared_row self) (binds w @ [?row])"
    using b by (simp only: h0(2) newBindRow_cong [OF h0(6,7,8)])
  have rowf: "HOME_RESOURCE_ID ?row = home_resourceID sh" "RESOURCE_ID ?row = resourceID self"
    "BIND_MODE ?row = mode"
    by (simp_all add: newBindRow_def)
  have hW: "\<exists>hs. homes W = homes w @ hs"
    using f(1) hs by simp
  have look: "allChildWithID W sh (resourceID self) = Some (view_of sh vo ?row)"
    using allChildWithID_inserted [OF ci b' hW rowf(1,2) ne oh] by (simp only: rowf(3) vo)
  have hl: "fst (homeWithUID shareeUID False W) = Some sh"
    using h0(1) f(1) by (simp add: homeWithUID_def)
  have sv: "shareeView ?self' shareeUID W = Some (view_of sh vo ?row)"
    using uid hl look by (simp add: shareeView_def)
  have cs: "createShare self shareeUID mode summary nopt w =
       (Inr (Some (view_of sh vo ?row), ?self'), W)"
    using hw sw sv st by (simp add: createShare_def andThen_def)
  from cs sv b' f tr show thesis
    by (intro that [of W]) (simp_all only: h0)
qed



section \<open>directShareWithUser\<close>



section \<open>shareWith: the create race\<close>



lemma find_filter_single: "filter P xs = [r] \<Longrightarrow> find P xs = Some r"
  by (induction xs) (auto split: if_splits simp add: filter_empty_conv find_None_iff)

lemma filter_single_eq:
  assumes "filter P xs = [r]" and "x \<in> set xs" and "P x"
  shows "x = r"
proof -
  from assms(2,3) have "x \<in> set (filter P xs)" by simp
  with assms(1) show ?thesis by simp
qed







section \<open>inviteUIDToShare\<close>

lemma sole_share_self [simp]:
  "sole_share w (self\<lparr>bindMessage := m\<rparr>) sh r = sole_share w self sh r"
  by (simp add: sole_share_def)

lemma sole_share_row:
  assumes "sole_share w self sh r"
  shows "find (bind_key (resourceID self) (home_resourceID sh)) (binds w) = Some r"
    and "r \<in> set (binds w)"
    and "RESOURCE_ID r = resourceID self" and "HOME_RESOURCE_ID r = home_resourceID sh"
    and "\<And>x. x \<in> set (binds w) \<Longrightarrow> bind_key (resourceID self) (home_resourceID sh) x \<Longrightarrow> x = r"
proof -
  from assms have one: "filter (bind_key (resourceID self) (home_resourceID sh)) (binds w) = [r]"
    by (simp add: sole_share_def pair_rows_def)
  from one show f: "find (bind_key (resourceID self) (home_resourceID sh)) (binds w) = Some r"
    by (rule find_filter_single)
  from find_Some_mem [OF f] show "r \<in> set (binds w)" "RESOURCE_ID r = resourceID self"
    "HOME_RESOURCE_ID r = home_resourceID sh"
    by (simp_all add: bind_key_def)
  show "\<And>x. x \<in> set (binds w) \<Longrightarrow> bind_key (resourceID self) (home_resourceID sh) x \<Longrightarrow> x = r"
    using one by (rule filter_single_eq)
qed

text \<open>The lookups of the sharee's record and of the owner's.\<close>

lemma sole_share_lookup:
  assumes s: "sole_share w self sh r"
  shows "allChildWithID w sh (resourceID self) = Some (view_of sh (viewerHome self) r)"
    and "shareeView self (home_uid sh) w = Some (view_of sh (viewerHome self) r)"
proof -
  from s have own: "owner_resource w self" and nown: "BIND_MODE r \<noteq> BIND_MODE_OWN"
    and h: "find (\<lambda>h. home_uid h = home_uid sh) (homes w) = Some sh"
    and u: "home_uid (viewerHome self) \<noteq> home_uid sh"
    by (simp_all add: sole_share_def)
  note r = sole_share_row [OF s]
  show a: "allChildWithID w sh (resourceID self) = Some (view_of sh (viewerHome self) r)"
    using r(1,3) nown ownerHomeOf_owner_resource [OF own]
    by (simp add: allChildWithID_def objectWith_def key_pred_eq makeView_def)
  show "shareeView self (home_uid sh) w = Some (view_of sh (viewerHome self) r)"
    using u h a by (simp add: shareeView_def homeWithUID_def)
qed

text \<open>A rewrite of the bind table that replaces the sharee's record and keeps the key,
  mode and status of every other record keeps the invariant.\<close>

lemma sole_share_map:
  assumes s: "sole_share w self sh r"
    and b: "binds W = map f (binds w)" and h: "homes W = homes w"
    and ids: "\<And>x. RESOURCE_ID (f x) = RESOURCE_ID x \<and> HOME_RESOURCE_ID (f x) = HOME_RESOURCE_ID x"
    and np: "\<And>x. \<not> bind_key (resourceID self) (home_resourceID sh) x \<Longrightarrow>
                  BIND_MODE (f x) = BIND_MODE x \<and> BIND_STATUS (f x) = BIND_STATUS x"
    and pr: "f r = r'" and nown: "BIND_MODE r' \<noteq> BIND_MODE_OWN"
  shows "sole_share W self sh r'"
proof -
  let ?key = "bind_key (resourceID self) (home_resourceID sh)"
  let ?okey = "bind_key (resourceID self) (home_resourceID (viewerHome self))"
  from s have own: "owner_resource w self"
    and ne: "home_resourceID sh \<noteq> home_resourceID (viewerHome self)"
    and one: "pair_rows w (resourceID self) (home_resourceID sh) = [r]"
    and rn: "BIND_MODE r \<noteq> BIND_MODE_OWN"
    by (simp_all add: sole_share_def)
  note r = sole_share_row [OF s]
  have kf: "\<And>rid hid x. bind_key rid hid (f x) = bind_key rid hid x"
    using ids by (simp add: bind_key_def)
  from owner_row [OF own] obtain r0 where
    f0: "find ?okey (binds w) = Some r0"
    and m0: "BIND_MODE r0 = BIND_MODE_OWN" "BIND_STATUS r0 = BIND_STATUS_ACCEPTED"
    and k0: "HOME_RESOURCE_ID r0 = home_resourceID (viewerHome self)"
    by metis
  have nk0: "\<not> ?key r0"
    using k0 ne by (simp add: bind_key_def)
  have f1: "find ?okey (binds W) = Some (f r0)"
    using f0 by (simp add: b find_map_preserve [of ?okey f, OF kf])
  have al: "list_all (\<lambda>x. RESOURCE_ID x = resourceID self \<and> BIND_MODE x = BIND_MODE_OWN \<longrightarrow>
                     HOME_RESOURCE_ID x = home_resourceID (viewerHome self)) (binds w)"
    using own by (simp add: owner_resource_def)
  have al': "list_all (\<lambda>x. RESOURCE_ID x = resourceID self \<and> BIND_MODE x = BIND_MODE_OWN \<longrightarrow>
                     HOME_RESOURCE_ID x = home_resourceID (viewerHome self)) (binds W)"
    unfolding b list_all_iff
  proof (intro ballI impI)
    fix y assume y: "y \<in> set (map f (binds w))"
      and c: "RESOURCE_ID y = resourceID self \<and> BIND_MODE y = BIND_MODE_OWN"
    from y obtain x where x: "x \<in> set (binds w)" and yx: "y = f x" by auto
    show "HOME_RESOURCE_ID y = home_resourceID (viewerHome self)"
    proof (cases "?key x")
      case True
      with r(5) [OF x] have "x = r" by simp
      with c yx pr nown show ?thesis by simp
    next
      case False
      with np [of x] ids [of x] c yx al x show ?thesis
        by (auto simp add: list_all_iff)
    qed
  qed
  have own': "owner_resource W self"
    using own f1 al' np [OF nk0] m0 by (simp add: owner_resource_def h)
  have "filter ?key (map f (binds w)) = map f (filter ?key (binds w))"
    by (rule filter_map_preserve) (rule kf)
  then have pr': "pair_rows W (resourceID self) (home_resourceID sh) = [r']"
    using one pr by (simp add: pair_rows_def b)
  from s own' pr' nown show ?thesis
    by (simp add: sole_share_def h)
qed

text \<open>\<^verbatim>\<open>updateShare\<close> on the one record of a pair.\<close>

lemma updateShare_pair_binds:
  assumes s: "sole_share w self sh r"
    and ov: "resourceID ov = resourceID self"
    and r': "r' = r\<lparr>BIND_MODE := (case mo of None \<Rightarrow> BIND_MODE r | Some m \<Rightarrow> m),
                      BIND_STATUS := (case sto of None \<Rightarrow> BIND_STATUS r | Some t \<Rightarrow> t),
                      MESSAGE := (case summary of None \<Rightarrow> MESSAGE r | Some m \<Rightarrow> Some m),
                      BIND_REVISION :=
                        (if sto = Some BIND_STATUS_ACCEPTED \<and>
                            BIND_STATUS r \<noteq> BIND_STATUS_ACCEPTED
                         then syncTokenRevision w (resourceID self) else BIND_REVISION r)\<rparr>"
  shows "binds (snd (updateShare ov (view_of sh oh r) mo sto summary w)) =
           map (\<lambda>x. if bind_key (resourceID self) (home_resourceID sh) x then r' else x)
             (binds w)"
    and "fst (updateShare ov (view_of sh oh r) mo sto summary w) = view_of sh oh r'"
proof -
  let ?child = "view_of sh oh r"
  let ?key = "bind_key (resourceID self) (home_resourceID sh)"
  let ?cm = "columnMap_of ?child mo sto summary"
  let ?r1 = "r\<lparr>BIND_MODE := (case mo of None \<Rightarrow> BIND_MODE r | Some m \<Rightarrow> m),
                BIND_STATUS := (case sto of None \<Rightarrow> BIND_STATUS r | Some t \<Rightarrow> t),
                MESSAGE := (case summary of None \<Rightarrow> MESSAGE r | Some m \<Rightarrow> Some m)\<rparr>"
  note r = sole_share_row [OF s]
  have cf: "viewerHome ?child = sh" "resourceID ?child = resourceID self"
    "bindMode ?child = BIND_MODE r" "bindStatus ?child = BIND_STATUS r"
    "bindMessage ?child = MESSAGE r" "bindRevision ?child = BIND_REVISION r"
    using r(3) by (simp_all add: view_of_def)
  have ap: "apply_columns ?cm r = ?r1"
    by (simp add: apply_columns_def columnMap_of_def cf split: option.splits)
  have acc: "col_BIND_STATUS ?cm = Some BIND_STATUS_ACCEPTED \<longleftrightarrow>
               sto = Some BIND_STATUS_ACCEPTED \<and> BIND_STATUS r \<noteq> BIND_STATUS_ACCEPTED"
    by (auto simp add: columnMap_of_def cf)
  have emp: "columnMap_empty ?cm \<Longrightarrow> ?r1 = r"
    and emp2: "columnMap_empty ?cm \<Longrightarrow> \<not> (sto = Some BIND_STATUS_ACCEPTED \<and>
                                            BIND_STATUS r \<noteq> BIND_STATUS_ACCEPTED)"
    by (auto simp add: columnMap_empty_def columnMap_of_def cf split: option.splits if_splits)
  have kr: "?key r"
    using r(3,4) by (simp add: bind_key_def)
  show "fst (updateShare ov ?child mo sto summary w) = view_of sh oh r'"
    by (simp add: updateShare_view Let_def applied_view_def acc cf r')
       (simp add: view_of_def columnMap_of_def split: option.splits)
  show "binds (snd (updateShare ov ?child mo sto summary w)) =
          map (\<lambda>x. if ?key x then r' else x) (binds w)"
  proof (cases "columnMap_empty ?cm")
    case True
    note e1 = emp [OF True] and e2 = emp2 [OF True]
    have i: "(if sto = Some BIND_STATUS_ACCEPTED \<and> BIND_STATUS r \<noteq> BIND_STATUS_ACCEPTED
              then syncTokenRevision w (resourceID self) else BIND_REVISION r) = BIND_REVISION r"
      using e2 by auto
    have "r' = r\<lparr>BIND_REVISION := BIND_REVISION r\<rparr>"
      unfolding r' by (simp only: e1 i)
    then have rr: "r' = r" by simp
    have "map (\<lambda>x. if ?key x then r' else x) (binds w) = binds w"
      unfolding rr by (intro map_idI) (auto dest: r(5))
    with True show ?thesis
      by (simp add: updateShare_binds Let_def)
  next
    case False
    have M: "map ((\<lambda>x. if ?key x \<and> col_BIND_STATUS ?cm = Some BIND_STATUS_ACCEPTED
                    then x\<lparr>BIND_REVISION := syncTokenRevision w (resourceID self)\<rparr> else x) \<circ>
               (\<lambda>x. if ?key x then apply_columns ?cm x else x)) (binds w) =
          map (\<lambda>x. if ?key x then r' else x) (binds w)"
    proof (rule map_cong [OF refl])
      fix x assume x: "x \<in> set (binds w)"
      show "((\<lambda>x. if ?key x \<and> col_BIND_STATUS ?cm = Some BIND_STATUS_ACCEPTED
                    then x\<lparr>BIND_REVISION := syncTokenRevision w (resourceID self)\<rparr> else x) \<circ>
               (\<lambda>x. if ?key x then apply_columns ?cm x else x)) x =
            (if ?key x then r' else x)"
      proof (cases "?key x")
        case True
        with r(5) [OF x] have xr: "x = r" by simp
        have g: "(if ?key r then apply_columns ?cm r else r) = ?r1"
          using kr ap by (simp only: if_True)
        show ?thesis
          unfolding xr comp_def g r' using kr acc by (simp add: bind_key_def)
      next
        case False
        then show ?thesis by simp
      qed
    qed
    have U: "binds (snd (updateShare ov ?child mo sto summary w)) =
          map ((\<lambda>x. if ?key x \<and> col_BIND_STATUS ?cm = Some BIND_STATUS_ACCEPTED
                    then x\<lparr>BIND_REVISION := syncTokenRevision w (resourceID self)\<rparr> else x) \<circ>
               (\<lambda>x. if ?key x then apply_columns ?cm x else x)) (binds w)"
      using False
      by (cases "col_BIND_STATUS ?cm = Some BIND_STATUS_ACCEPTED")
         (simp_all add: updateShare_binds Let_def cf ov comp_def)
    show ?thesis by (rule trans [OF U M])
  qed
qed

lemma sole_share_cong:
  "homes W = homes w \<Longrightarrow> binds W = binds w \<Longrightarrow> sole_share W self sh r = sole_share w self sh r"
  by (simp add: sole_share_def pair_rows_def owner_resource_cong [of W w])

lemma outward_frame:
  "binds (sendExternalInvite self sv w) = binds w"
  "homes (sendExternalInvite self sv w) = homes w"
  "binds (sendInviteNotification self sv st w) = binds w"
  "homes (sendInviteNotification self sv st w) = homes w"
  "binds (sendReplyNotification sv ov summary w) = binds w"
  "homes (sendReplyNotification sv ov summary w) = homes w"
  "binds (replyExternalInvite sv st' summary w) = binds w"
  "homes (replyExternalInvite sv st' summary w) = homes w"
  "syncTokenRevision (replyExternalInvite sv st' summary w) = syncTokenRevision w"
  "binds (newShare sv summary w) = binds w"
  "homes (newShare sv summary w) = homes w"
  by (simp_all add: sendExternalInvite_def sendInviteNotification_def sendReplyNotification_def
        replyExternalInvite_def newShare_def writeNotificationObject_def)

text \<open>An invitation for a sharee who has a record.\<close>

lemma invite_existing:
  assumes s: "sole_share w self sh r" and m: "mode \<noteq> BIND_MODE_OWN"
    and r': "r' = r\<lparr>BIND_MODE := mode,
                      BIND_STATUS :=
                        (if BIND_STATUS r = BIND_STATUS_DECLINED \<or>
                            BIND_STATUS r = BIND_STATUS_INVALID
                         then BIND_STATUS_INVITED else BIND_STATUS r),
                      MESSAGE := (case summary of None \<Rightarrow> MESSAGE r | Some m \<Rightarrow> Some m)\<rparr>"
  shows "fst (inviteUIDToShare self (home_uid sh) mode summary nopt w) =
           Inr (view_of sh (viewerHome self) r', self)"
    and "binds (snd (inviteUIDToShare self (home_uid sh) mode summary nopt w)) =
           map (\<lambda>x. if bind_key (resourceID self) (home_resourceID sh) x then r' else x)
             (binds w)"
    and "homes (snd (inviteUIDToShare self (home_uid sh) mode summary nopt w)) = homes w"
    and "sole_share (snd (inviteUIDToShare self (home_uid sh) mode summary nopt w)) self sh r'"
proof -
  let ?sv = "view_of sh (viewerHome self) r"
  let ?sto = "if BIND_STATUS r = BIND_STATUS_DECLINED \<or> BIND_STATUS r = BIND_STATUS_INVALID
              then Some BIND_STATUS_INVITED else None"
  let ?u = "updateShare self ?sv (Some mode) ?sto summary w"
  let ?W = "snd (inviteUIDToShare self (home_uid sh) mode summary nopt w)"
  let ?key = "bind_key (resourceID self) (home_resourceID sh)"
  have look: "shareeView self (home_uid sh) w = Some ?sv"
    by (rule sole_share_lookup(2) [OF s])
  have rr: "r' = r\<lparr>BIND_MODE := (case Some mode of None \<Rightarrow> BIND_MODE r | Some m \<Rightarrow> m),
                    BIND_STATUS := (case ?sto of None \<Rightarrow> BIND_STATUS r | Some t \<Rightarrow> t),
                    MESSAGE := (case summary of None \<Rightarrow> MESSAGE r | Some m \<Rightarrow> Some m),
                    BIND_REVISION :=
                      (if ?sto = Some BIND_STATUS_ACCEPTED \<and>
                          BIND_STATUS r \<noteq> BIND_STATUS_ACCEPTED
                       then syncTokenRevision w (resourceID self) else BIND_REVISION r)\<rparr>"
    unfolding r' by simp
  note u = updateShare_pair_binds [OF s refl rr, of "viewerHome self"]
  have st: "shareStatus ?sv = BIND_STATUS r"
    by (simp add: shareStatus_def view_of_def)
  have vh: "viewerHome (view_of sh (viewerHome self) r') = sh"
    by (simp add: view_of_def)
  have res: "inviteUIDToShare self (home_uid sh) mode summary nopt w =
      (if home_external sh
       then (Inr (view_of sh (viewerHome self) r', self),
             sendExternalInvite self (view_of sh (viewerHome self) r') (snd ?u))
       else (Inr (view_of sh (viewerHome self) r', self),
             sendInviteNotification self (view_of sh (viewerHome self) r') None (snd ?u)))"
    using u(2) vh
    by (simp add: inviteUIDToShare_def andThen_def look st Let_def case_prod_beta)
  show "fst (inviteUIDToShare self (home_uid sh) mode summary nopt w) =
          Inr (view_of sh (viewerHome self) r', self)"
    by (simp add: res)
  show b: "binds ?W = map (\<lambda>x. if ?key x then r' else x) (binds w)"
    by (simp add: res outward_frame u(1))
  show h: "homes ?W = homes w"
    by (simp add: res outward_frame updateShare_frame)
  have kr: "?key r"
    using sole_share_row(3,4) [OF s] by (simp add: bind_key_def)
  have ids: "\<And>x. RESOURCE_ID (if ?key x then r' else x) = RESOURCE_ID x \<and>
                  HOME_RESOURCE_ID (if ?key x then r' else x) = HOME_RESOURCE_ID x"
    using kr by (simp add: r' bind_key_def)
  show "sole_share ?W self sh r'"
    by (rule sole_share_map [OF s b h ids]) (simp_all add: kr r' m)
qed

text \<open>Accepting and declining the one record of a pair.\<close>

lemma reply_step:
  assumes s: "sole_share w self sh r"
    and d: "BIND_MODE r \<noteq> BIND_MODE_DIRECT"
    and t: "BIND_STATUS r \<noteq> st" and st: "st = BIND_STATUS_ACCEPTED \<or> st = BIND_STATUS_DECLINED"
    and r': "r' = r\<lparr>BIND_STATUS := st,
                      BIND_REVISION := (if st = BIND_STATUS_ACCEPTED
                                        then syncTokenRevision w (resourceID self)
                                        else BIND_REVISION r)\<rparr>"
    and W: "W = (if st = BIND_STATUS_ACCEPTED
                 then acceptShare (view_of sh (viewerHome self) r) summary w
                 else declineShare (view_of sh (viewerHome self) r) w)"
  shows "fst W = Inr (view_of sh (viewerHome self) r')"
    and "binds (snd W) =
           map (\<lambda>x. if bind_key (resourceID self) (home_resourceID sh) x then r' else x)
             (binds w)"
    and "homes (snd W) = homes w"
    and "sole_share (snd W) self sh r'"
proof -
  let ?sv = "view_of sh (viewerHome self) r"
  let ?key = "bind_key (resourceID self) (home_resourceID sh)"
  let ?w1 = "if external ?sv then replyExternalInvite ?sv st (if st = BIND_STATUS_ACCEPTED then summary else None) w else w"
  from s have own: "owner_resource w self" by (simp add: sole_share_def)
  note r = sole_share_row [OF s]
  have svf: "ownerHome ?sv = viewerHome self" "resourceID ?sv = resourceID self"
    "\<not> direct ?sv" "shareStatus ?sv = BIND_STATUS r"
    using r(3) d by (simp_all add: view_of_def direct_def shareStatus_def)
  from ownerView_owner_resource [OF own svf(1,2)] obtain ov where
    ov: "ownerView ?sv w = Some ov" and ovid: "resourceID ov = resourceID self"
    by blast
  have f1: "homes ?w1 = homes w" "binds ?w1 = binds w"
    "syncTokenRevision ?w1 = syncTokenRevision w"
    by (simp_all add: outward_frame)
  have ov1: "ownerView ?sv ?w1 = Some ov"
    using ov lookups_cong(6) [OF f1(1,2)] by simp
  have s1: "sole_share ?w1 self sh r"
    using s sole_share_cong [OF f1(1,2)] by simp
  have rr: "r' = r\<lparr>BIND_MODE := (case None of None \<Rightarrow> BIND_MODE r | Some m \<Rightarrow> m),
                    BIND_STATUS := (case Some st of None \<Rightarrow> BIND_STATUS r | Some t \<Rightarrow> t),
                    MESSAGE := (case None of None \<Rightarrow> MESSAGE r | Some m \<Rightarrow> Some m),
                    BIND_REVISION :=
                      (if Some st = Some BIND_STATUS_ACCEPTED \<and>
                          BIND_STATUS r \<noteq> BIND_STATUS_ACCEPTED
                       then syncTokenRevision ?w1 (resourceID self) else BIND_REVISION r)\<rparr>"
    unfolding r' f1(3) using t by auto
  note u = updateShare_pair_binds [OF s1 ovid rr, of "viewerHome self"]
  let ?u = "updateShare ov ?sv None (Some st) None ?w1"
  have fu: "fst ?u = view_of sh (viewerHome self) r'" by (rule u(2))
  have bu: "binds (snd ?u) = map (\<lambda>x. if ?key x then r' else x) (binds w)"
    using u(1) by (simp only: f1(2))
  have hu: "homes (snd ?u) = homes w"
    by (simp add: updateShare_frame outward_frame)
  show fw: "fst W = Inr (view_of sh (viewerHome self) r')"
    using st svf(3,4) t ov1 fu
    by (auto simp add: W acceptShare_def declineShare_def Let_def case_prod_beta)
  show b: "binds (snd W) = map (\<lambda>x. if ?key x then r' else x) (binds w)"
    using st svf(3,4) t ov1 bu
    by (auto simp add: W acceptShare_def declineShare_def Let_def case_prod_beta outward_frame)
  show h: "homes (snd W) = homes w"
    using st svf(3,4) t ov1 hu
    by (auto simp add: W acceptShare_def declineShare_def Let_def case_prod_beta outward_frame)
  have kr: "?key r"
    using r(3,4) by (simp add: bind_key_def)
  have ids: "\<And>x. RESOURCE_ID (if ?key x then r' else x) = RESOURCE_ID x \<and>
                  HOME_RESOURCE_ID (if ?key x then r' else x) = HOME_RESOURCE_ID x"
    using kr by (simp add: r' bind_key_def)
  from s have "BIND_MODE r \<noteq> BIND_MODE_OWN" by (simp add: sole_share_def)
  then show "sole_share (snd W) self sh r'"
    by (intro sole_share_map [OF s b h ids]) (simp_all add: kr r')
qed

text \<open>An invitation for a sharee who has no record.\<close>

lemma shareeView_none:
  assumes hw: "homeWithUID shareeUID True w = (Some sh, w0)"
    and ci: "can_insert self sh n w"
  shows "shareeView self shareeUID w = None"
proof -
  have "find (bind_key (resourceID self) (home_resourceID h)) (binds w) = None"
    if "find (\<lambda>h. home_uid h = shareeUID) (homes w) = Some h" for h
  proof -
    from that hw have "h = sh" by (simp add: homeWithUID_def)
    with ci show ?thesis
      by (auto simp add: can_insert_def find_None_iff list_ex_iff bind_key_def)
  qed
  then show ?thesis
    by (auto simp add: shareeView_def homeWithUID_def allChildWithID_def objectWith_def
          key_pred_eq split: option.splits)
qed

lemma invite_new:
  assumes own: "owner_resource w self"
    and hw: "homeWithUID shareeUID True w = (Some sh, w0)"
    and ci: "can_insert self sh (chosenName nopt w) w"
    and uid: "home_uid (viewerHome self) \<noteq> shareeUID"
    and ne: "home_resourceID sh \<noteq> home_resourceID (viewerHome self)"
    and m: "mode \<noteq> BIND_MODE_OWN"
    and row: "row = newBindRow self sh mode
                      (if mode \<noteq> BIND_MODE_DIRECT then BIND_STATUS_INVITED
                       else BIND_STATUS_ACCEPTED) summary nopt w"
  shows "fst (inviteUIDToShare self shareeUID mode summary nopt w) =
           Inr (view_of sh (viewerHome self) row, self\<lparr>bindMessage := Some ''shared''\<rparr>)"
    and "binds (snd (inviteUIDToShare self shareeUID mode summary nopt w)) =
           map (shared_row self) (binds w @ [row])"
    and "homes (snd (inviteUIDToShare self shareeUID mode summary nopt w)) = homes w0"
    and "sole_share (snd (inviteUIDToShare self shareeUID mode summary nopt w)) self sh row"
    and "home_uid sh = shareeUID"
proof -
  let ?self' = "self\<lparr>bindMessage := Some ''shared''\<rparr>"
  let ?sv = "view_of sh (viewerHome self) row"
  let ?I = "inviteUIDToShare self shareeUID mode summary nopt w"
  let ?key = "bind_key (resourceID self) (home_resourceID sh)"
  let ?okey = "bind_key (resourceID self) (home_resourceID (viewerHome self))"
  from own have owned: "owned self" by (simp add: owner_resource_def)
  note oh = ownerHomeOf_owner_resource [OF own]
  have st: "(if mode \<noteq> BIND_MODE_DIRECT then BIND_STATUS_INVITED else BIND_STATUS_ACCEPTED) =
            (if mode \<noteq> BIND_MODE_DIRECT then BIND_STATUS_INVITED else BIND_STATUS_ACCEPTED)"
    and vo: "viewerHome self = (if mode = BIND_MODE_OWN then sh else viewerHome self)"
    using m by simp_all
  obtain W where
    cs: "createShare self shareeUID mode summary nopt w = (Inr (Some ?sv, ?self'), W)"
    and b: "binds W = map (shared_row self) (binds w @ [row])"
    and h: "homes W = homes w0"
    unfolding row by (rule createShare_insert [OF owned oh hw ci uid ne st vo, of summary])
  have none: "shareeView self shareeUID w = None"
    by (rule shareeView_none [OF hw ci])
  have vh: "viewerHome ?sv = sh" by (simp add: view_of_def)
  have res: "?I = (if home_external sh
                   then (Inr (?sv, ?self'), sendExternalInvite ?self' ?sv W)
                   else (Inr (?sv, ?self'), sendInviteNotification ?self' ?sv None W))"
    by (simp add: inviteUIDToShare_def andThen_def none cs vh)
  show "fst ?I = Inr (?sv, ?self')" by (simp add: res)
  show bI: "binds (snd ?I) = map (shared_row self) (binds w @ [row])"
    by (simp add: res outward_frame b)
  show hI: "homes (snd ?I) = homes w0"
    by (simp add: res outward_frame h)
  note h0 = homeWithUID_create [OF hw]
  from find_Some_mem [OF h0(1)] show su: "home_uid sh = shareeUID" by simp
  let ?w' = "w0\<lparr>binds := binds w @ [row]\<rparr>"
  from h0(9) obtain hs where hs: "homes w0 = homes w @ hs" by blast
  have rowf: "RESOURCE_ID row = resourceID self" "HOME_RESOURCE_ID row = home_resourceID sh"
    "BIND_MODE row = mode"
    by (simp_all add: row newBindRow_def)
  have nk: "\<not> ?okey row" using rowf ne by (simp add: bind_key_def)
  have kr: "?key row" using rowf by (simp add: bind_key_def)
  from owner_row [OF own] obtain r0 where
    f0: "find ?okey (binds w) = Some r0"
    and m0: "BIND_MODE r0 = BIND_MODE_OWN" "BIND_STATUS r0 = BIND_STATUS_ACCEPTED"
    by metis
  have own': "owner_resource ?w' self"
    using own f0 m0 m rowf
    by (simp add: owner_resource_def hs find_append)
  have nokey: "filter ?key (binds w) = []"
    using ci by (auto simp add: can_insert_def filter_empty_conv list_ex_iff bind_key_def)
  have s': "sole_share ?w' self sh row"
    using own' h0(1) uid ne nokey kr m rowf(3)
    by (simp add: sole_share_def pair_rows_def su)
  show "sole_share (snd ?I) self sh row"
  proof (rule sole_share_map [OF s', of _ "shared_row self"])
    show "binds (snd ?I) = map (shared_row self) (binds ?w')" by (simp add: bI)
    show "homes (snd ?I) = homes ?w'" by (simp add: hI)
    show "shared_row self row = row" by (rule shared_row_other [OF nk])
    show "BIND_MODE row \<noteq> BIND_MODE_OWN" using m rowf(3) by simp
  qed simp_all
qed

text \<open>
  Claim C2, as the specification states it, does not hold for the mode DIRECT: an
  invitation with that mode for a sharee who has no bind creates the bind with status
  ACCEPTED, the status \<^verbatim>\<open>createShare\<close> gives a direct share.
\<close>

theorem inviteUIDToShare_creates_invited_counterexample:
  "shareeView ex_ownerView ''sharee'' (ex_world []) = None \<and>
   fst (inviteUIDToShare ex_ownerView ''sharee'' BIND_MODE_DIRECT None (Some ''s1'')
          (ex_world [])) =
     Inr ((ex_shareeView ex_shareeHome ''s1'' BIND_MODE_DIRECT BIND_STATUS_ACCEPTED)
            \<lparr>bindRevision := 7\<rparr>,
          ex_ownerView\<lparr>bindMessage := Some ''shared''\<rparr>) \<and>
   pair_rows (snd (inviteUIDToShare ex_ownerView ''sharee'' BIND_MODE_DIRECT None
                     (Some ''s1'') (ex_world []))) 10 2 =
     [(ex_shareRow 2 ''s1'' BIND_MODE_DIRECT BIND_STATUS_ACCEPTED)\<lparr>BIND_REVISION := 7\<rparr>]"
proof -
  have own: "owner_resource (ex_world []) ex_ownerView"
    by (simp add: owner_resource_def owned_def bind_key_def ex_defs)
  have hw: "homeWithUID ''sharee'' True (ex_world []) = (Some ex_shareeHome, ex_world [])"
    by (simp add: homeWithUID_def ex_defs)
  have ci: "can_insert ex_ownerView ex_shareeHome (chosenName (Some ''s1'') (ex_world []))
              (ex_world [])"
    by (simp add: can_insert_def chosenName_def ex_defs)
  have uid: "home_uid (viewerHome ex_ownerView) \<noteq> ''sharee''"
    and ne: "home_resourceID ex_shareeHome \<noteq> home_resourceID (viewerHome ex_ownerView)"
    and m: "BIND_MODE_DIRECT \<noteq> BIND_MODE_OWN"
    by (simp_all add: ex_defs)
  note n1 = invite_new(1) [OF own hw ci uid ne m refl, of None]
    and n4 = invite_new(4) [OF own hw ci uid ne m refl, of None]
  have row: "newBindRow ex_ownerView ex_shareeHome BIND_MODE_DIRECT BIND_STATUS_ACCEPTED None
                (Some ''s1'') (ex_world []) =
             (ex_shareRow 2 ''s1'' BIND_MODE_DIRECT BIND_STATUS_ACCEPTED)\<lparr>BIND_REVISION := 7\<rparr>"
    by (simp add: newBindRow_def chosenName_def ex_defs)
  have p: "pair_rows (snd (inviteUIDToShare ex_ownerView ''sharee'' BIND_MODE_DIRECT None
                        (Some ''s1'') (ex_world []))) 10 2 =
             [(ex_shareRow 2 ''s1'' BIND_MODE_DIRECT BIND_STATUS_ACCEPTED)\<lparr>BIND_REVISION := 7\<rparr>]"
    using n4 by (simp add: sole_share_def row) (simp add: ex_defs)
  have v: "fst (inviteUIDToShare ex_ownerView ''sharee'' BIND_MODE_DIRECT None (Some ''s1'')
          (ex_world [])) =
     Inr ((ex_shareeView ex_shareeHome ''s1'' BIND_MODE_DIRECT BIND_STATUS_ACCEPTED)
            \<lparr>bindRevision := 7\<rparr>,
          ex_ownerView\<lparr>bindMessage := Some ''shared''\<rparr>)"
    using n1 by (simp add: row) (simp add: view_of_def ex_defs)
  from shareeView_none [OF hw ci] v p show ?thesis by (intro conjI)
qed

text \<open>
  Claim C2, amended. With an existing bind for the sharee, \<^verbatim>\<open>inviteUIDToShare\<close> returns the
  sharee view with the requested mode, with the summary when one is given, and with its
  status set to INVITED when the status was DECLINED or INVALID and left as it was
  otherwise; when the bind is the one record of the resource in the sharee's home, that
  record is rewritten in the same way and every other record is left as it was. With no
  existing bind, and a home for the sharee that can take the record, it creates one
  record, with status INVITED when the mode is not DIRECT (and ACCEPTED when it is).
  Consequently, for a mode that is not DIRECT, the sequence invite, accept, decline,
  invite, starting from no bind, goes through the statuses INVITED, ACCEPTED and DECLINED
  and ends with the one record of the pair at status INVITED.
\<close>

theorem inviteUIDToShare_status:
  "(shareeView self shareeUID w = Some sv \<longrightarrow>
      fst (inviteUIDToShare self shareeUID mode summary nopt w) =
        Inr (sv\<lparr>bindMode := mode,
                bindStatus :=
                  (if bindStatus sv = BIND_STATUS_DECLINED \<or> bindStatus sv = BIND_STATUS_INVALID
                   then BIND_STATUS_INVITED else bindStatus sv),
                bindMessage := (case summary of None \<Rightarrow> bindMessage sv | Some m \<Rightarrow> Some m)\<rparr>,
             self)) \<and>
   (sole_share w self sh r \<and> mode \<noteq> BIND_MODE_OWN \<longrightarrow>
      shareeView self (home_uid sh) w = Some (view_of sh (viewerHome self) r) \<and>
      binds (snd (inviteUIDToShare self (home_uid sh) mode summary nopt w)) =
        map (\<lambda>x. if bind_key (resourceID self) (home_resourceID sh) x
                  then r\<lparr>BIND_MODE := mode,
                         BIND_STATUS :=
                           (if BIND_STATUS r = BIND_STATUS_DECLINED \<or>
                               BIND_STATUS r = BIND_STATUS_INVALID
                            then BIND_STATUS_INVITED else BIND_STATUS r),
                         MESSAGE := (case summary of None \<Rightarrow> MESSAGE r | Some m \<Rightarrow> Some m)\<rparr>
                  else x) (binds w)) \<and>
   (owner_resource w self \<and> homeWithUID shareeUID True w = (Some sh, w0) \<and>
    can_insert self sh (chosenName nopt w) w \<and>
    home_uid (viewerHome self) \<noteq> shareeUID \<and>
    home_resourceID sh \<noteq> home_resourceID (viewerHome self) \<and>
    mode \<noteq> BIND_MODE_OWN \<longrightarrow>
      shareeView self shareeUID w = None \<and>
      fst (inviteUIDToShare self shareeUID mode summary nopt w) =
        Inr (view_of sh (viewerHome self)
               (newBindRow self sh mode
                  (if mode \<noteq> BIND_MODE_DIRECT then BIND_STATUS_INVITED
                   else BIND_STATUS_ACCEPTED) summary nopt w),
             self\<lparr>bindMessage := Some ''shared''\<rparr>) \<and>
      binds (snd (inviteUIDToShare self shareeUID mode summary nopt w)) =
        map (shared_row self)
          (binds w @
           [newBindRow self sh mode
              (if mode \<noteq> BIND_MODE_DIRECT then BIND_STATUS_INVITED
               else BIND_STATUS_ACCEPTED) summary nopt w]) \<and>
      pair_rows (snd (inviteUIDToShare self shareeUID mode summary nopt w))
          (resourceID self) (home_resourceID sh) =
        [newBindRow self sh mode
           (if mode \<noteq> BIND_MODE_DIRECT then BIND_STATUS_INVITED
            else BIND_STATUS_ACCEPTED) summary nopt w]) \<and>
   (owner_resource w self \<and> homeWithUID shareeUID True w = (Some sh, w0) \<and>
    can_insert self sh (chosenName nopt w) w \<and>
    home_uid (viewerHome self) \<noteq> shareeUID \<and>
    home_resourceID sh \<noteq> home_resourceID (viewerHome self) \<and>
    mode \<noteq> BIND_MODE_OWN \<and> mode \<noteq> BIND_MODE_DIRECT \<and> mode4 \<noteq> BIND_MODE_OWN \<longrightarrow>
      (\<exists>sv1 W1 sv2 W2 sv3 W3 sv4 W4 r4.
         inviteUIDToShare self shareeUID mode summary nopt w =
           (Inr (sv1, self\<lparr>bindMessage := Some ''shared''\<rparr>), W1) \<and>
         bindStatus sv1 = BIND_STATUS_INVITED \<and>
         acceptShare sv1 reply W1 = (Inr sv2, W2) \<and>
         bindStatus sv2 = BIND_STATUS_ACCEPTED \<and>
         declineShare sv2 W2 = (Inr sv3, W3) \<and>
         bindStatus sv3 = BIND_STATUS_DECLINED \<and>
         inviteUIDToShare (self\<lparr>bindMessage := Some ''shared''\<rparr>) shareeUID mode4 summary4
             nopt4 W3 =
           (Inr (sv4, self\<lparr>bindMessage := Some ''shared''\<rparr>), W4) \<and>
         bindStatus sv4 = BIND_STATUS_INVITED \<and>
         pair_rows W4 (resourceID self) (home_resourceID sh) = [r4] \<and>
         BIND_STATUS r4 = BIND_STATUS_INVITED \<and> BIND_MODE r4 = mode4 \<and>
         RESOURCE_NAME r4 = chosenName nopt w))"
proof -
  let ?self' = "self\<lparr>bindMessage := Some ''shared''\<rparr>"
  let ?row = "newBindRow self sh mode
                (if mode \<noteq> BIND_MODE_DIRECT then BIND_STATUS_INVITED
                 else BIND_STATUS_ACCEPTED) summary nopt w"
  have a1: "shareeView self shareeUID w = Some sv \<longrightarrow>
      fst (inviteUIDToShare self shareeUID mode summary nopt w) =
        Inr (sv\<lparr>bindMode := mode,
                bindStatus :=
                  (if bindStatus sv = BIND_STATUS_DECLINED \<or> bindStatus sv = BIND_STATUS_INVALID
                   then BIND_STATUS_INVITED else bindStatus sv),
                bindMessage := (case summary of None \<Rightarrow> bindMessage sv | Some m \<Rightarrow> Some m)\<rparr>,
             self)"
    by (auto simp add: inviteUIDToShare_def andThen_def Let_def case_prod_beta shareStatus_def
          updateShare_view applied_view_def columnMap_of_def split: option.splits)
  have a2: "sole_share w self sh r \<and> mode \<noteq> BIND_MODE_OWN \<longrightarrow>
      shareeView self (home_uid sh) w = Some (view_of sh (viewerHome self) r) \<and>
      binds (snd (inviteUIDToShare self (home_uid sh) mode summary nopt w)) =
        map (\<lambda>x. if bind_key (resourceID self) (home_resourceID sh) x
                  then r\<lparr>BIND_MODE := mode,
                         BIND_STATUS :=
                           (if BIND_STATUS r = BIND_STATUS_DECLINED \<or>
                               BIND_STATUS r = BIND_STATUS_INVALID
                            then BIND_STATUS_INVITED else BIND_STATUS r),
                         MESSAGE := (case summary of None \<Rightarrow> MESSAGE r | Some m \<Rightarrow> Some m)\<rparr>
                  else x) (binds w)"
    using sole_share_lookup(2) [of w self sh r]
      invite_existing(2) [OF _ _ refl, of w self sh r mode summary nopt]
    by blast
  have b: "owner_resource w self \<and> homeWithUID shareeUID True w = (Some sh, w0) \<and>
    can_insert self sh (chosenName nopt w) w \<and>
    home_uid (viewerHome self) \<noteq> shareeUID \<and>
    home_resourceID sh \<noteq> home_resourceID (viewerHome self) \<and>
    mode \<noteq> BIND_MODE_OWN \<longrightarrow>
      shareeView self shareeUID w = None \<and>
      fst (inviteUIDToShare self shareeUID mode summary nopt w) =
        Inr (view_of sh (viewerHome self) ?row, ?self') \<and>
      binds (snd (inviteUIDToShare self shareeUID mode summary nopt w)) =
        map (shared_row self) (binds w @ [?row]) \<and>
      pair_rows (snd (inviteUIDToShare self shareeUID mode summary nopt w))
          (resourceID self) (home_resourceID sh) = [?row]"
  proof (intro impI, elim conjE)
    assume own: "owner_resource w self"
      and hw: "homeWithUID shareeUID True w = (Some sh, w0)"
      and ci: "can_insert self sh (chosenName nopt w) w"
      and uid: "home_uid (viewerHome self) \<noteq> shareeUID"
      and ne: "home_resourceID sh \<noteq> home_resourceID (viewerHome self)"
      and m: "mode \<noteq> BIND_MODE_OWN"
    note n1 = invite_new(1) [OF own hw ci uid ne m refl, of summary]
      and n2 = invite_new(2) [OF own hw ci uid ne m refl, of summary]
      and n4 = invite_new(4) [OF own hw ci uid ne m refl, of summary]
    from n4 have "pair_rows (snd (inviteUIDToShare self shareeUID mode summary nopt w))
          (resourceID self) (home_resourceID sh) = [?row]"
      by (simp add: sole_share_def)
    with shareeView_none [OF hw ci] n1 n2
    show "shareeView self shareeUID w = None \<and>
      fst (inviteUIDToShare self shareeUID mode summary nopt w) =
        Inr (view_of sh (viewerHome self) ?row, ?self') \<and>
      binds (snd (inviteUIDToShare self shareeUID mode summary nopt w)) =
        map (shared_row self) (binds w @ [?row]) \<and>
      pair_rows (snd (inviteUIDToShare self shareeUID mode summary nopt w))
          (resourceID self) (home_resourceID sh) = [?row]"
      by (intro conjI)
  qed
  have c: "owner_resource w self \<and> homeWithUID shareeUID True w = (Some sh, w0) \<and>
    can_insert self sh (chosenName nopt w) w \<and>
    home_uid (viewerHome self) \<noteq> shareeUID \<and>
    home_resourceID sh \<noteq> home_resourceID (viewerHome self) \<and>
    mode \<noteq> BIND_MODE_OWN \<and> mode \<noteq> BIND_MODE_DIRECT \<and> mode4 \<noteq> BIND_MODE_OWN \<longrightarrow>
      (\<exists>sv1 W1 sv2 W2 sv3 W3 sv4 W4 r4.
         inviteUIDToShare self shareeUID mode summary nopt w = (Inr (sv1, ?self'), W1) \<and>
         bindStatus sv1 = BIND_STATUS_INVITED \<and>
         acceptShare sv1 reply W1 = (Inr sv2, W2) \<and>
         bindStatus sv2 = BIND_STATUS_ACCEPTED \<and>
         declineShare sv2 W2 = (Inr sv3, W3) \<and>
         bindStatus sv3 = BIND_STATUS_DECLINED \<and>
         inviteUIDToShare ?self' shareeUID mode4 summary4 nopt4 W3 = (Inr (sv4, ?self'), W4) \<and>
         bindStatus sv4 = BIND_STATUS_INVITED \<and>
         pair_rows W4 (resourceID self) (home_resourceID sh) = [r4] \<and>
         BIND_STATUS r4 = BIND_STATUS_INVITED \<and> BIND_MODE r4 = mode4 \<and>
         RESOURCE_NAME r4 = chosenName nopt w)"
  proof (intro impI, elim conjE)
    assume own: "owner_resource w self"
      and hw: "homeWithUID shareeUID True w = (Some sh, w0)"
      and ci: "can_insert self sh (chosenName nopt w) w"
      and uid: "home_uid (viewerHome self) \<noteq> shareeUID"
      and ne: "home_resourceID sh \<noteq> home_resourceID (viewerHome self)"
      and m: "mode \<noteq> BIND_MODE_OWN" and d: "mode \<noteq> BIND_MODE_DIRECT"
      and m4: "mode4 \<noteq> BIND_MODE_OWN"
    let ?oh = "viewerHome self"
    let ?r1 = "newBindRow self sh mode BIND_STATUS_INVITED summary nopt w"
    have rw: "?row = ?r1" using d by simp
    let ?I1 = "inviteUIDToShare self shareeUID mode summary nopt w"
    let ?W1 = "snd ?I1"
    have i1: "fst ?I1 = Inr (view_of sh ?oh ?r1, ?self')"
      using invite_new(1) [OF own hw ci uid ne m refl, of summary] by (simp only: rw)
    have s1: "sole_share ?W1 self sh ?r1"
      using invite_new(4) [OF own hw ci uid ne m refl, of summary] by (simp only: rw)
    have su: "home_uid sh = shareeUID"
      by (rule invite_new(5) [OF own hw ci uid ne m refl])
    have f1: "BIND_MODE ?r1 = mode" "BIND_STATUS ?r1 = BIND_STATUS_INVITED"
      "RESOURCE_NAME ?r1 = chosenName nopt w"
      by (simp_all add: newBindRow_def)
    let ?r2 = "?r1\<lparr>BIND_STATUS := BIND_STATUS_ACCEPTED,
                   BIND_REVISION := syncTokenRevision ?W1 (resourceID self)\<rparr>"
    let ?A = "acceptShare (view_of sh ?oh ?r1) reply ?W1"
    have a: "fst ?A = Inr (view_of sh ?oh ?r2)" "sole_share (snd ?A) self sh ?r2"
      using reply_step(1,4) [OF s1, of BIND_STATUS_ACCEPTED ?r2 ?A reply] f1 d by simp_all
    let ?r3 = "?r2\<lparr>BIND_STATUS := BIND_STATUS_DECLINED\<rparr>"
    let ?D = "declineShare (view_of sh ?oh ?r2) (snd ?A)"
    have dd: "fst ?D = Inr (view_of sh ?oh ?r3)" "sole_share (snd ?D) self sh ?r3"
      using reply_step(1,4) [OF a(2), of BIND_STATUS_DECLINED ?r3 ?D reply] f1 d by simp_all
    let ?r4 = "?r3\<lparr>BIND_MODE := mode4,
                   BIND_STATUS :=
                     (if BIND_STATUS ?r3 = BIND_STATUS_DECLINED \<or>
                         BIND_STATUS ?r3 = BIND_STATUS_INVALID
                      then BIND_STATUS_INVITED else BIND_STATUS ?r3),
                   MESSAGE := (case summary4 of None \<Rightarrow> MESSAGE ?r3 | Some m \<Rightarrow> Some m)\<rparr>"
    let ?I4 = "inviteUIDToShare ?self' shareeUID mode4 summary4 nopt4 (snd ?D)"
    have s3: "sole_share (snd ?D) ?self' sh ?r3" using dd(2) by simp
    have i4: "fst ?I4 = Inr (view_of sh ?oh ?r4, ?self')" "sole_share (snd ?I4) ?self' sh ?r4"
      using invite_existing(1,4) [OF s3 m4 refl, of summary4 nopt4] by (simp_all add: su)
    have p4: "pair_rows (snd ?I4) (resourceID self) (home_resourceID sh) = [?r4]"
      using i4(2) by (simp add: sole_share_def)
    have e1: "?I1 = (Inr (view_of sh ?oh ?r1, ?self'), ?W1)"
      using i1 by (simp add: prod_eq_iff)
    have e2: "?A = (Inr (view_of sh ?oh ?r2), snd ?A)"
      using a(1) by (simp add: prod_eq_iff)
    have e3: "?D = (Inr (view_of sh ?oh ?r3), snd ?D)"
      using dd(1) by (simp add: prod_eq_iff)
    have e4: "?I4 = (Inr (view_of sh ?oh ?r4, ?self'), snd ?I4)"
      using i4(1) by (simp add: prod_eq_iff)
    have st: "bindStatus (view_of sh ?oh ?r1) = BIND_STATUS_INVITED"
      "bindStatus (view_of sh ?oh ?r2) = BIND_STATUS_ACCEPTED"
      "bindStatus (view_of sh ?oh ?r3) = BIND_STATUS_DECLINED"
      "bindStatus (view_of sh ?oh ?r4) = BIND_STATUS_INVITED"
      "BIND_STATUS ?r4 = BIND_STATUS_INVITED" "BIND_MODE ?r4 = mode4"
      "RESOURCE_NAME ?r4 = chosenName nopt w"
      by (simp_all add: view_of_def newBindRow_def)
    show "\<exists>sv1 W1 sv2 W2 sv3 W3 sv4 W4 r4.
         inviteUIDToShare self shareeUID mode summary nopt w = (Inr (sv1, ?self'), W1) \<and>
         bindStatus sv1 = BIND_STATUS_INVITED \<and>
         acceptShare sv1 reply W1 = (Inr sv2, W2) \<and>
         bindStatus sv2 = BIND_STATUS_ACCEPTED \<and>
         declineShare sv2 W2 = (Inr sv3, W3) \<and>
         bindStatus sv3 = BIND_STATUS_DECLINED \<and>
         inviteUIDToShare ?self' shareeUID mode4 summary4 nopt4 W3 = (Inr (sv4, ?self'), W4) \<and>
         bindStatus sv4 = BIND_STATUS_INVITED \<and>
         pair_rows W4 (resourceID self) (home_resourceID sh) = [r4] \<and>
         BIND_STATUS r4 = BIND_STATUS_INVITED \<and> BIND_MODE r4 = mode4 \<and>
         RESOURCE_NAME r4 = chosenName nopt w"
      using e1 e2 e3 e4 p4 st
      by (intro exI [of _ "view_of sh ?oh ?r1"] exI [of _ ?W1]
            exI [of _ "view_of sh ?oh ?r2"] exI [of _ "snd ?A"]
            exI [of _ "view_of sh ?oh ?r3"] exI [of _ "snd ?D"]
            exI [of _ "view_of sh ?oh ?r4"] exI [of _ "snd ?I4"] exI [of _ ?r4] conjI)
  qed
  from a1 a2 b c show ?thesis by (intro conjI)
qed

text \<open>The theorem on the example: a sharee who has declined an invitation with read access
  is invited again with write access; and a sharee who has no bind is invited with read
  access, accepts, declines, and is invited again with write access.\<close>

theorem inviteUIDToShare_status_witness:
  "shareeView ex_ownerView ''sharee''
     (ex_world [ex_shareRow 2 ''s1'' BIND_MODE_READ BIND_STATUS_DECLINED]) =
     Some (ex_shareeView ex_shareeHome ''s1'' BIND_MODE_READ BIND_STATUS_DECLINED) \<and>
   sole_share (ex_world [ex_shareRow 2 ''s1'' BIND_MODE_READ BIND_STATUS_DECLINED])
     ex_ownerView ex_shareeHome (ex_shareRow 2 ''s1'' BIND_MODE_READ BIND_STATUS_DECLINED) \<and>
   BIND_MODE_WRITE \<noteq> BIND_MODE_OWN \<and>
   fst (inviteUIDToShare ex_ownerView ''sharee'' BIND_MODE_WRITE None None
          (ex_world [ex_shareRow 2 ''s1'' BIND_MODE_READ BIND_STATUS_DECLINED])) =
     Inr (ex_shareeView ex_shareeHome ''s1'' BIND_MODE_WRITE BIND_STATUS_INVITED,
          ex_ownerView) \<and>
   binds (snd (inviteUIDToShare ex_ownerView ''sharee'' BIND_MODE_WRITE None None
                 (ex_world [ex_shareRow 2 ''s1'' BIND_MODE_READ BIND_STATUS_DECLINED]))) =
     [ex_ownRow, ex_shareRow 2 ''s1'' BIND_MODE_WRITE BIND_STATUS_INVITED] \<and>
   owner_resource (ex_world []) ex_ownerView \<and>
   homeWithUID ''sharee'' True (ex_world []) = (Some ex_shareeHome, ex_world []) \<and>
   can_insert ex_ownerView ex_shareeHome (chosenName (Some ''s1'') (ex_world []))
     (ex_world []) \<and>
   home_uid (viewerHome ex_ownerView) \<noteq> ''sharee'' \<and>
   home_resourceID ex_shareeHome \<noteq> home_resourceID (viewerHome ex_ownerView) \<and>
   BIND_MODE_READ \<noteq> BIND_MODE_OWN \<and> BIND_MODE_READ \<noteq> BIND_MODE_DIRECT \<and>
   pair_rows (snd (inviteUIDToShare ex_ownerView ''sharee'' BIND_MODE_READ None (Some ''s1'')
                     (ex_world []))) 10 2 =
     [ex_shareRow 2 ''s1'' BIND_MODE_READ BIND_STATUS_INVITED] \<and>
   (\<exists>sv1 W1 sv2 W2 sv3 W3 sv4 W4 r4.
      inviteUIDToShare ex_ownerView ''sharee'' BIND_MODE_READ None (Some ''s1'') (ex_world []) =
        (Inr (sv1, ex_ownerView\<lparr>bindMessage := Some ''shared''\<rparr>), W1) \<and>
      bindStatus sv1 = BIND_STATUS_INVITED \<and>
      acceptShare sv1 None W1 = (Inr sv2, W2) \<and>
      bindStatus sv2 = BIND_STATUS_ACCEPTED \<and>
      declineShare sv2 W2 = (Inr sv3, W3) \<and>
      bindStatus sv3 = BIND_STATUS_DECLINED \<and>
      inviteUIDToShare (ex_ownerView\<lparr>bindMessage := Some ''shared''\<rparr>) ''sharee''
          BIND_MODE_WRITE None None W3 =
        (Inr (sv4, ex_ownerView\<lparr>bindMessage := Some ''shared''\<rparr>), W4) \<and>
      bindStatus sv4 = BIND_STATUS_INVITED \<and>
      pair_rows W4 10 2 = [r4] \<and>
      BIND_STATUS r4 = BIND_STATUS_INVITED \<and> BIND_MODE r4 = BIND_MODE_WRITE \<and>
      RESOURCE_NAME r4 = ''s1'')"
proof -
  let ?wd = "ex_world [ex_shareRow 2 ''s1'' BIND_MODE_READ BIND_STATUS_DECLINED]"
  let ?rd = "ex_shareRow 2 ''s1'' BIND_MODE_READ BIND_STATUS_DECLINED"
  let ?svd = "ex_shareeView ex_shareeHome ''s1'' BIND_MODE_READ BIND_STATUS_DECLINED"
  have own: "owner_resource (ex_world []) ex_ownerView"
    by (simp add: owner_resource_def owned_def bind_key_def ex_defs)
  have hw: "homeWithUID ''sharee'' True (ex_world []) = (Some ex_shareeHome, ex_world [])"
    by (simp add: homeWithUID_def ex_defs)
  have ci: "can_insert ex_ownerView ex_shareeHome (chosenName (Some ''s1'') (ex_world []))
              (ex_world [])"
    by (simp add: can_insert_def chosenName_def ex_defs)
  have uid: "home_uid (viewerHome ex_ownerView) \<noteq> ''sharee''"
    and ne: "home_resourceID ex_shareeHome \<noteq> home_resourceID (viewerHome ex_ownerView)"
    and m: "BIND_MODE_READ \<noteq> BIND_MODE_OWN" "BIND_MODE_READ \<noteq> BIND_MODE_DIRECT"
      "BIND_MODE_WRITE \<noteq> BIND_MODE_OWN"
    by (simp_all add: ex_defs)
  have hsv: "shareeView ex_ownerView ''sharee'' ?wd = Some ?svd"
    by (simp add: shareeView_def homeWithUID_def allChildWithID_def objectWith_def makeView_def
          view_of_def ownerHomeOf_def ex_defs)
  have hs: "sole_share ?wd ex_ownerView ex_shareeHome ?rd"
    by (simp add: sole_share_def owner_resource_def owned_def pair_rows_def bind_key_def ex_defs)
  note T1 = inviteUIDToShare_status [where self = ex_ownerView and shareeUID = "''sharee''"
      and w = ?wd and sv = ?svd and mode = BIND_MODE_WRITE and summary = None and nopt = None
      and sh = ex_shareeHome and r = ?rd and ?w0.0 = ?wd and ?mode4.0 = BIND_MODE_WRITE
      and ?summary4.0 = None and ?nopt4.0 = None and reply = None]
  note T2 = inviteUIDToShare_status [where self = ex_ownerView and shareeUID = "''sharee''"
      and w = "ex_world []" and sv = ?svd and mode = BIND_MODE_READ and summary = None
      and nopt = "Some ''s1''" and sh = ex_shareeHome and r = ?rd and ?w0.0 = "ex_world []"
      and ?mode4.0 = BIND_MODE_WRITE and ?summary4.0 = None and ?nopt4.0 = None
      and reply = None]
  have c1: "fst (inviteUIDToShare ex_ownerView ''sharee'' BIND_MODE_WRITE None None ?wd) =
     Inr (ex_shareeView ex_shareeHome ''s1'' BIND_MODE_WRITE BIND_STATUS_INVITED, ex_ownerView)"
    using T1 [THEN conjunct1] hsv by (simp add: ex_shareeView_def)
  have su: "home_uid ex_shareeHome = ''sharee''" by (simp add: ex_defs)
  have c2: "binds (snd (inviteUIDToShare ex_ownerView ''sharee'' BIND_MODE_WRITE None None ?wd)) =
     [ex_ownRow, ex_shareRow 2 ''s1'' BIND_MODE_WRITE BIND_STATUS_INVITED]"
    using T1 [THEN conjunct2, THEN conjunct1] hs m(3)
    by (simp add: su) (simp add: bind_key_def ex_defs)
  have c3: "pair_rows (snd (inviteUIDToShare ex_ownerView ''sharee'' BIND_MODE_READ None
                              (Some ''s1'') (ex_world []))) 10 2 =
     [ex_shareRow 2 ''s1'' BIND_MODE_READ BIND_STATUS_INVITED]"
    using T2 [THEN conjunct2, THEN conjunct2, THEN conjunct1] own hw ci uid ne m(1)
    by (simp add: newBindRow_def chosenName_def ex_defs)
  have c4: "\<exists>sv1 W1 sv2 W2 sv3 W3 sv4 W4 r4.
      inviteUIDToShare ex_ownerView ''sharee'' BIND_MODE_READ None (Some ''s1'') (ex_world []) =
        (Inr (sv1, ex_ownerView\<lparr>bindMessage := Some ''shared''\<rparr>), W1) \<and>
      bindStatus sv1 = BIND_STATUS_INVITED \<and>
      acceptShare sv1 None W1 = (Inr sv2, W2) \<and>
      bindStatus sv2 = BIND_STATUS_ACCEPTED \<and>
      declineShare sv2 W2 = (Inr sv3, W3) \<and>
      bindStatus sv3 = BIND_STATUS_DECLINED \<and>
      inviteUIDToShare (ex_ownerView\<lparr>bindMessage := Some ''shared''\<rparr>) ''sharee''
          BIND_MODE_WRITE None None W3 =
        (Inr (sv4, ex_ownerView\<lparr>bindMessage := Some ''shared''\<rparr>), W4) \<and>
      bindStatus sv4 = BIND_STATUS_INVITED \<and>
      pair_rows W4 (resourceID ex_ownerView) (home_resourceID ex_shareeHome) = [r4] \<and>
      BIND_STATUS r4 = BIND_STATUS_INVITED \<and> BIND_MODE r4 = BIND_MODE_WRITE \<and>
      RESOURCE_NAME r4 = chosenName (Some ''s1'') (ex_world [])"
    using T2 [THEN conjunct2, THEN conjunct2, THEN conjunct2] own hw ci uid ne m
    by (elim impE) (intro conjI, assumption+)
  have ids: "resourceID ex_ownerView = 10" "home_resourceID ex_shareeHome = 2"
    "chosenName (Some ''s1'') (ex_world []) = ''s1''"
    by (simp_all add: chosenName_def ex_defs)
  from hsv hs own hw ci uid ne m c1 c2 c3 c4 [unfolded ids] show ?thesis
    by (intro conjI)
qed
section \<open>processExternalInvite: the repair of a name collision\<close>

lemma emit_more_fields [simp]:
  "uuid4 (emit e w) = uuid4 w"
  "uuid_count (emit e w) = uuid_count w"
  "resource_seq (emit e w) = resource_seq w"
  "hasSupportedComponents (emit e w) = hasSupportedComponents w"
  by (simp_all add: emit_def)

lemma objectWith_Some_row:
  assumes "objectWith w h P a = Some v"
  shows "\<exists>r. r \<in> set (binds w) \<and> HOME_RESOURCE_ID r = home_resourceID h \<and> P r \<and>
             resourceID v = RESOURCE_ID r \<and> name v = RESOURCE_NAME r"
proof -
  from assms obtain r where
    r: "find (\<lambda>r. HOME_RESOURCE_ID r = home_resourceID h \<and> P r) (binds w) = Some r"
    and mv: "makeView w h r = Some v"
    by (auto simp add: objectWith_def split: option.splits if_splits)
  from mv have "resourceID v = RESOURCE_ID r" "name v = RESOURCE_NAME r"
    by (auto simp add: makeView_def view_of_def split: option.splits)
  with find_Some_mem [OF r] show ?thesis by blast
qed

text \<open>The stale collection has live invitations: the creation error is raised again.\<close>

lemma externalOwnerView_conflict:
  assumes x: "childWithExternalID w oh ownerRID = None"
    and n: "childWithName w oh ownerName = Some old"
    and i: "sharingInvites old w \<noteq> []"
  shows "externalOwnerView oh ownerRID ownerName comps w =
           (Inl HomeChildNameAlreadyExistsError,
            emit (LogError ''External invite collection name is present with a different externalID and still has shares'') w)"
proof -
  from objectWith_Some_row [OF n [unfolded childWithName_def]]
  have ex: "list_ex (\<lambda>r. HOME_RESOURCE_ID r = home_resourceID oh \<and> RESOURCE_NAME r = ownerName)
              (binds w)"
    by (auto simp add: list_ex_iff)
  then have c: "createChildWithName oh ownerName (Some ownerRID) w =
                  (Inl HomeChildNameAlreadyExistsError, w)"
    by (simp add: createChildWithName_def)
  show ?thesis
    using x n i by (simp add: externalOwnerView_def andThen_def c)
qed

text \<open>The stale collection has no invitation: it is removed and the collection is
  created under the new external id.\<close>

lemma externalOwnerView_repair:
  assumes x: "childWithExternalID w oh ownerRID = None"
    and n: "childWithName w oh ownerName = Some old"
    and i: "sharingInvites old w = []"
    and u: "list_all (\<lambda>r. HOME_RESOURCE_ID r = home_resourceID oh \<and> RESOURCE_NAME r = ownerName
                          \<longrightarrow> RESOURCE_ID r = resourceID old) (binds w)"
    and row: "row = \<lparr>HOME_RESOURCE_ID = home_resourceID oh, RESOURCE_ID = resource_seq w,
                     EXTERNAL_ID = Some ownerRID, RESOURCE_NAME = ownerName,
                     BIND_MODE = BIND_MODE_OWN, BIND_STATUS = BIND_STATUS_ACCEPTED,
                     BIND_REVISION = 0, MESSAGE = None\<rparr>"
  shows "fst (externalOwnerView oh ownerRID ownerName comps w) = Inr (view_of oh oh row)"
    and "binds (snd (externalOwnerView oh ownerRID ownerName comps w)) =
           filter (\<lambda>r. RESOURCE_ID r \<noteq> resourceID old) (binds w) @ [row]"
    and "homes (snd (externalOwnerView oh ownerRID ownerName comps w)) = homes w"
    and "uuid4 (snd (externalOwnerView oh ownerRID ownerName comps w)) = uuid4 w"
    and "syncTokenRevision (snd (externalOwnerView oh ownerRID ownerName comps w)) =
           syncTokenRevision w"
proof -
  let ?w2 = "removeExternalChild oh old
               (emit (LogError ''External invite collection name is present with a different externalID - trying to fix'') w)"
  from objectWith_Some_row [OF n [unfolded childWithName_def]]
  have ex: "list_ex (\<lambda>r. HOME_RESOURCE_ID r = home_resourceID oh \<and> RESOURCE_NAME r = ownerName)
              (binds w)"
    by (auto simp add: list_ex_iff)
  then have c: "createChildWithName oh ownerName (Some ownerRID) w =
                  (Inl HomeChildNameAlreadyExistsError, w)"
    by (simp add: createChildWithName_def)
  have b2: "binds ?w2 = filter (\<lambda>r. RESOURCE_ID r \<noteq> resourceID old) (binds w)"
    "resource_seq ?w2 = resource_seq w" "homes ?w2 = homes w" "uuid4 ?w2 = uuid4 w"
    "syncTokenRevision ?w2 = syncTokenRevision w"
    by (simp_all add: removeExternalChild_def)
  have free: "\<not> list_ex (\<lambda>r. HOME_RESOURCE_ID r = home_resourceID oh \<and> RESOURCE_NAME r = ownerName)
                  (binds ?w2)"
    using u by (auto simp add: b2 list_ex_iff list_all_iff)
  let ?w3 = "emit (CreateChild (home_resourceID oh) (resource_seq w))
               (?w2\<lparr>binds := binds ?w2 @ [row], resource_seq := Suc (resource_seq ?w2)\<rparr>)"
  have c2: "createChildWithName oh ownerName (Some ownerRID) ?w2 = (Inr (view_of oh oh row), ?w3)"
    using free by (simp add: createChildWithName_def Let_def b2(2) row)
  have e: "externalOwnerView oh ownerRID ownerName comps w =
      (case comps of
         Some cs \<Rightarrow> if hasSupportedComponents ?w3
                    then (Inr (view_of oh oh row), setSupportedComponents (view_of oh oh row) cs ?w3)
                    else (Inr (view_of oh oh row), ?w3)
       | None \<Rightarrow> (Inr (view_of oh oh row), ?w3))"
    using x n i by (simp add: externalOwnerView_def andThen_def c c2)
  have b3: "binds ?w3 = filter (\<lambda>r. RESOURCE_ID r \<noteq> resourceID old) (binds w) @ [row]"
    "homes ?w3 = homes w" "uuid4 ?w3 = uuid4 w" "syncTokenRevision ?w3 = syncTokenRevision w"
    by (simp_all add: b2)
  show "fst (externalOwnerView oh ownerRID ownerName comps w) = Inr (view_of oh oh row)"
    by (simp add: e split: option.splits)
  show "binds (snd (externalOwnerView oh ownerRID ownerName comps w)) =
           filter (\<lambda>r. RESOURCE_ID r \<noteq> resourceID old) (binds w) @ [row]"
    "homes (snd (externalOwnerView oh ownerRID ownerName comps w)) = homes w"
    "uuid4 (snd (externalOwnerView oh ownerRID ownerName comps w)) = uuid4 w"
    "syncTokenRevision (snd (externalOwnerView oh ownerRID ownerName comps w)) =
           syncTokenRevision w"
    using b3 by (simp_all add: e setSupportedComponents_def split: option.splits)
qed

text \<open>A direct share for a sharee who has no record.\<close>

lemma direct_new:
  assumes own: "owner_resource w self"
    and hw: "homeWithUID shareeUID True w = (Some sh, w0)"
    and ci: "can_insert self sh (chosenName nopt w) w"
    and uid: "home_uid (viewerHome self) \<noteq> shareeUID"
    and ne: "home_resourceID sh \<noteq> home_resourceID (viewerHome self)"
    and row: "row = newBindRow self sh BIND_MODE_DIRECT BIND_STATUS_ACCEPTED None nopt w"
  shows "fst (directShareWithUser self shareeUID nopt w) =
           Inr (view_of sh (viewerHome self) row, self\<lparr>bindMessage := Some ''shared''\<rparr>)"
    and "binds (snd (directShareWithUser self shareeUID nopt w)) =
           map (shared_row self) (binds w @ [row])"
proof -
  let ?self' = "self\<lparr>bindMessage := Some ''shared''\<rparr>"
  let ?sv = "view_of sh (viewerHome self) row"
  from own have owned: "owned self" by (simp add: owner_resource_def)
  note oh = ownerHomeOf_owner_resource [OF own]
  have st: "BIND_STATUS_ACCEPTED =
        (if BIND_MODE_DIRECT \<noteq> BIND_MODE_DIRECT then BIND_STATUS_INVITED
         else BIND_STATUS_ACCEPTED)"
    and vo: "viewerHome self = (if BIND_MODE_DIRECT = BIND_MODE_OWN then sh else viewerHome self)"
    by simp_all
  obtain W where
    cs: "createShare self shareeUID BIND_MODE_DIRECT None nopt w = (Inr (Some ?sv, ?self'), W)"
    and b: "binds W = map (shared_row self) (binds w @ [row])"
    unfolding row by (rule createShare_insert [OF owned oh hw ci uid ne st vo, of None])
  have none: "shareeView self shareeUID w = None"
    by (rule shareeView_none [OF hw ci])
  have vh: "viewerHome ?sv = sh" by (simp add: view_of_def)
  have res: "directShareWithUser self shareeUID nopt w =
      (if home_external sh
       then (Inr (?sv, ?self'), sendExternalInvite ?self' ?sv (newShare ?sv None W))
       else (Inr (?sv, ?self'), newShare ?sv None W))"
    by (simp add: directShareWithUser_def andThen_def none cs vh Let_def)
  show "fst (directShareWithUser self shareeUID nopt w) = Inr (?sv, ?self')"
    by (simp add: res)
  show "binds (snd (directShareWithUser self shareeUID nopt w)) =
          map (shared_row self) (binds w @ [row])"
    by (simp add: res outward_frame b)
qed

text \<open>After the repair the invitation goes through: the table is the former one without
  the records of the stale collection, with the OWN record of the new collection, marked
  as shared, and the sharee's record.\<close>

lemma processExternalInvite_repair:
  assumes h1: "find (\<lambda>h. home_uid h = ownerUID) (homes w) = Some oh"
    and h2: "home_external oh"
    and x: "childWithExternalID w oh ownerRID = None"
    and n: "childWithName w oh ownerName = Some old"
    and i: "sharingInvites old w = []"
    and u: "list_all (\<lambda>r. HOME_RESOURCE_ID r = home_resourceID oh \<and> RESOURCE_NAME r = ownerName
                          \<longrightarrow> RESOURCE_ID r = resourceID old) (binds w)"
    and fr: "list_all (\<lambda>r. RESOURCE_ID r \<noteq> resource_seq w) (binds w)"
    and hid: "find (\<lambda>h. home_resourceID h = home_resourceID oh) (homes w) = Some oh"
    and hs: "find (\<lambda>h. home_uid h = home_uid self) (homes w) = Some self"
    and su: "home_uid self \<noteq> ownerUID"
    and ne: "home_resourceID self \<noteq> home_resourceID oh"
    and fn: "\<not> list_ex (\<lambda>r. HOME_RESOURCE_ID r = home_resourceID self \<and> RESOURCE_NAME r = uid)
                 (binds w)"
    and m: "mode \<noteq> BIND_MODE_OWN"
  shows "fst (processExternalInvite self ownerUID ownerRID ownerName uid mode summary comps w) =
           Inr ()"
    and "binds (snd (processExternalInvite self ownerUID ownerRID ownerName uid mode summary
                       comps w)) =
           filter (\<lambda>r. RESOURCE_ID r \<noteq> resourceID old) (binds w) @
           [\<lparr>HOME_RESOURCE_ID = home_resourceID oh, RESOURCE_ID = resource_seq w,
             EXTERNAL_ID = Some ownerRID, RESOURCE_NAME = ownerName,
             BIND_MODE = BIND_MODE_OWN, BIND_STATUS = BIND_STATUS_ACCEPTED,
             BIND_REVISION = 0, MESSAGE = Some ''shared''\<rparr>,
            \<lparr>HOME_RESOURCE_ID = home_resourceID self, RESOURCE_ID = resource_seq w,
             EXTERNAL_ID = Some ownerRID, RESOURCE_NAME = uid,
             BIND_MODE = mode,
             BIND_STATUS = (if mode = BIND_MODE_DIRECT then BIND_STATUS_ACCEPTED
                            else BIND_STATUS_INVITED),
             BIND_REVISION = (if mode = BIND_MODE_DIRECT
                              then syncTokenRevision w (resource_seq w) else 0),
             MESSAGE = (if mode = BIND_MODE_DIRECT then None else summary)\<rparr>]"
proof -
  let ?P = "processExternalInvite self ownerUID ownerRID ownerName uid mode summary comps w"
  let ?own = "\<lparr>HOME_RESOURCE_ID = home_resourceID oh, RESOURCE_ID = resource_seq w,
               EXTERNAL_ID = Some ownerRID, RESOURCE_NAME = ownerName,
               BIND_MODE = BIND_MODE_OWN, BIND_STATUS = BIND_STATUS_ACCEPTED,
               BIND_REVISION = 0, MESSAGE = None\<rparr>"
  let ?ov = "view_of oh oh ?own"
  let ?E = "externalOwnerView oh ownerRID ownerName comps w"
  let ?W = "snd ?E"
  let ?old = "filter (\<lambda>r. RESOURCE_ID r \<noteq> resourceID old) (binds w)"
  note E = externalOwnerView_repair [OF x n i u refl, of comps]
  have hw0: "homeWithUID ownerUID True w = (Some oh, w)"
    using h1 by (simp add: homeWithUID_def)
  have ou: "home_uid oh = ownerUID"
    using find_Some_mem [OF h1] by simp
  have ovf: "viewerHome ?ov = oh" "ownerHome ?ov = oh" "resourceID ?ov = resource_seq w"
    "externalID ?ov = Some ownerRID" "bindMessage ?ov = None" "owned ?ov"
    by (simp_all add: view_of_def owned_def)
  have freshw: "\<And>r. r \<in> set (binds w) \<Longrightarrow> RESOURCE_ID r \<noteq> resource_seq w"
    using fr by (auto simp add: list_all_iff)
  have fresh: "\<And>r. r \<in> set ?old \<Longrightarrow> RESOURCE_ID r \<noteq> resource_seq w"
    using freshw by simp
  have nf: "find (bind_key (resource_seq w) (home_resourceID oh)) ?old = None"
    using freshw by (auto simp add: find_None_iff bind_key_def)
  have own: "owner_resource ?W ?ov"
    using freshw hid
    by (simp add: owner_resource_def ovf E(2,3) find_append nf)
       (auto simp add: bind_key_def list_all_iff)
  have hwS: "homeWithUID (home_uid self) True ?W = (Some self, ?W)"
    using hs by (simp add: homeWithUID_def E(3))
  have ci: "can_insert ?ov self (chosenName (Some uid) ?W) ?W"
    using freshw fn ne
    by (auto simp add: can_insert_def chosenName_def E(2) ovf list_ex_iff)
  have uid': "home_uid (viewerHome ?ov) \<noteq> home_uid self"
    using su by (simp add: ovf ou)
  have ne': "home_resourceID self \<noteq> home_resourceID (viewerHome ?ov)"
    using ne by (simp add: ovf)
  let ?row = "newBindRow ?ov self mode
                (if mode \<noteq> BIND_MODE_DIRECT then BIND_STATUS_INVITED else BIND_STATUS_ACCEPTED)
                (if mode = BIND_MODE_DIRECT then None else summary) (Some uid) ?W"
  have PS: "fst ?P = Inr () \<and>
            binds (snd ?P) = map (shared_row ?ov) (binds ?W @ [?row])"
  proof (cases "mode = BIND_MODE_DIRECT")
    case True
    note d = direct_new [OF own hwS ci uid' ne' refl]
    from True d show ?thesis
      by (simp add: processExternalInvite_def hw0 h2 andThen_def case_prod_beta E(1)
            setInviteCopyProperties_def)
  next
    case False
    note d1 = invite_new(1) [OF own hwS ci uid' ne' m refl, of summary]
      and d2 = invite_new(2) [OF own hwS ci uid' ne' m refl, of summary]
    from False d1 d2 show ?thesis
      by (simp add: processExternalInvite_def hw0 h2 andThen_def case_prod_beta E(1)
            setInviteCopyProperties_def)
  qed
  then show "fst ?P = Inr ()" by simp
  have rowv: "?row =
            \<lparr>HOME_RESOURCE_ID = home_resourceID self, RESOURCE_ID = resource_seq w,
             EXTERNAL_ID = Some ownerRID, RESOURCE_NAME = uid,
             BIND_MODE = mode,
             BIND_STATUS = (if mode = BIND_MODE_DIRECT then BIND_STATUS_ACCEPTED
                            else BIND_STATUS_INVITED),
             BIND_REVISION = (if mode = BIND_MODE_DIRECT
                              then syncTokenRevision w (resource_seq w) else 0),
             MESSAGE = (if mode = BIND_MODE_DIRECT then None else summary)\<rparr>"
    by (simp add: newBindRow_def chosenName_def ovf E(5))
  have k1: "\<And>r. r \<in> set ?old \<Longrightarrow> shared_row ?ov r = r"
    using fresh by (intro shared_row_other) (simp add: ovf bind_key_def)
  have k1': "map (shared_row ?ov) ?old = ?old"
    by (rule map_idI) (rule k1)
  have k2: "shared_row ?ov ?own = ?own\<lparr>MESSAGE := Some ''shared''\<rparr>"
    by (simp add: shared_row_def ovf bind_key_def)
  have k3: "shared_row ?ov ?row = ?row"
    using ne by (intro shared_row_other) (simp add: ovf bind_key_def newBindRow_def)
  have "binds (snd ?P) = map (shared_row ?ov) (?old @ [?own] @ [?row])"
    using PS by (simp add: E(2))
  also have "\<dots> = ?old @ [?own\<lparr>MESSAGE := Some ''shared''\<rparr>, ?row]"
    by (simp only: map_append list.map k1' k2 k3 append.simps)
  finally show "binds (snd ?P) = ?old @
           [\<lparr>HOME_RESOURCE_ID = home_resourceID oh, RESOURCE_ID = resource_seq w,
             EXTERNAL_ID = Some ownerRID, RESOURCE_NAME = ownerName,
             BIND_MODE = BIND_MODE_OWN, BIND_STATUS = BIND_STATUS_ACCEPTED,
             BIND_REVISION = 0, MESSAGE = Some ''shared''\<rparr>,
            \<lparr>HOME_RESOURCE_ID = home_resourceID self, RESOURCE_ID = resource_seq w,
             EXTERNAL_ID = Some ownerRID, RESOURCE_NAME = uid,
             BIND_MODE = mode,
             BIND_STATUS = (if mode = BIND_MODE_DIRECT then BIND_STATUS_ACCEPTED
                            else BIND_STATUS_INVITED),
             BIND_REVISION = (if mode = BIND_MODE_DIRECT
                              then syncTokenRevision w (resource_seq w) else 0),
             MESSAGE = (if mode = BIND_MODE_DIRECT then None else summary)\<rparr>]"
    by (simp add: rowv)
qed

text \<open>
  Claim C8. The owner's home resolves and is external, no collection of it has the
  external id of the invitation, and a collection of it has the name of the invitation,
  so that the creation of the shadow collection fails with
  HomeChildNameAlreadyExistsError. When that stale collection still has invitations,
  \<^verbatim>\<open>processExternalInvite\<close> raises the same error, and nothing but the error log is
  recorded: the bind table and the index of children are as they were. When it has none,
  and names are unique in the owner's home, the next resource id is unused, and the
  sharee's home can take a record named by the share UID, the call succeeds: the records
  of the stale collection are gone from the bind table, the collection is created again
  with the new external id, and the sharee's record of the new collection is there, with
  status INVITED (ACCEPTED for a direct share).
\<close>

theorem processExternalInvite_name_collision:
  "(find (\<lambda>h. home_uid h = ownerUID) (homes w) = Some oh \<and> home_external oh \<and>
    childWithExternalID w oh ownerRID = None \<and>
    childWithName w oh ownerName = Some old \<longrightarrow>
      createChildWithName oh ownerName (Some ownerRID) w =
        (Inl HomeChildNameAlreadyExistsError, w)) \<and>
   (find (\<lambda>h. home_uid h = ownerUID) (homes w) = Some oh \<and> home_external oh \<and>
    childWithExternalID w oh ownerRID = None \<and>
    childWithName w oh ownerName = Some old \<and>
    sharingInvites old w \<noteq> [] \<longrightarrow>
      processExternalInvite self ownerUID ownerRID ownerName uid mode summary comps w =
        (Inl HomeChildNameAlreadyExistsError,
         emit (LogError ''External invite collection name is present with a different externalID and still has shares'') w) \<and>
      binds (snd (processExternalInvite self ownerUID ownerRID ownerName uid mode summary
                    comps w)) = binds w \<and>
      children (snd (processExternalInvite self ownerUID ownerRID ownerName uid mode summary
                       comps w)) = children w) \<and>
   (find (\<lambda>h. home_uid h = ownerUID) (homes w) = Some oh \<and> home_external oh \<and>
    childWithExternalID w oh ownerRID = None \<and>
    childWithName w oh ownerName = Some old \<and>
    sharingInvites old w = [] \<and>
    list_all (\<lambda>r. HOME_RESOURCE_ID r = home_resourceID oh \<and> RESOURCE_NAME r = ownerName
                   \<longrightarrow> RESOURCE_ID r = resourceID old) (binds w) \<and>
    list_all (\<lambda>r. RESOURCE_ID r \<noteq> resource_seq w) (binds w) \<and>
    find (\<lambda>h. home_resourceID h = home_resourceID oh) (homes w) = Some oh \<and>
    find (\<lambda>h. home_uid h = home_uid self) (homes w) = Some self \<and>
    home_uid self \<noteq> ownerUID \<and>
    home_resourceID self \<noteq> home_resourceID oh \<and>
    \<not> list_ex (\<lambda>r. HOME_RESOURCE_ID r = home_resourceID self \<and> RESOURCE_NAME r = uid)
          (binds w) \<and>
    mode \<noteq> BIND_MODE_OWN \<longrightarrow>
      fst (processExternalInvite self ownerUID ownerRID ownerName uid mode summary comps w) =
        Inr () \<and>
      binds (snd (processExternalInvite self ownerUID ownerRID ownerName uid mode summary
                    comps w)) =
        filter (\<lambda>r. RESOURCE_ID r \<noteq> resourceID old) (binds w) @
        [\<lparr>HOME_RESOURCE_ID = home_resourceID oh, RESOURCE_ID = resource_seq w,
          EXTERNAL_ID = Some ownerRID, RESOURCE_NAME = ownerName,
          BIND_MODE = BIND_MODE_OWN, BIND_STATUS = BIND_STATUS_ACCEPTED,
          BIND_REVISION = 0, MESSAGE = Some ''shared''\<rparr>,
         \<lparr>HOME_RESOURCE_ID = home_resourceID self, RESOURCE_ID = resource_seq w,
          EXTERNAL_ID = Some ownerRID, RESOURCE_NAME = uid,
          BIND_MODE = mode,
          BIND_STATUS = (if mode = BIND_MODE_DIRECT then BIND_STATUS_ACCEPTED
                         else BIND_STATUS_INVITED),
          BIND_REVISION = (if mode = BIND_MODE_DIRECT
                           then syncTokenRevision w (resource_seq w) else 0),
          MESSAGE = (if mode = BIND_MODE_DIRECT then None else summary)\<rparr>])"
proof -
  let ?P = "processExternalInvite self ownerUID ownerRID ownerName uid mode summary comps w"
  have fails: "find (\<lambda>h. home_uid h = ownerUID) (homes w) = Some oh \<and> home_external oh \<and>
    childWithExternalID w oh ownerRID = None \<and>
    childWithName w oh ownerName = Some old \<longrightarrow>
      createChildWithName oh ownerName (Some ownerRID) w =
        (Inl HomeChildNameAlreadyExistsError, w)"
  proof (intro impI, elim conjE)
    assume n: "childWithName w oh ownerName = Some old"
    from objectWith_Some_row [OF n [unfolded childWithName_def]]
    have "list_ex (\<lambda>r. HOME_RESOURCE_ID r = home_resourceID oh \<and> RESOURCE_NAME r = ownerName)
            (binds w)"
      by (auto simp add: list_ex_iff)
    then show "createChildWithName oh ownerName (Some ownerRID) w =
                 (Inl HomeChildNameAlreadyExistsError, w)"
      by (simp add: createChildWithName_def)
  qed
  have live: "find (\<lambda>h. home_uid h = ownerUID) (homes w) = Some oh \<and> home_external oh \<and>
    childWithExternalID w oh ownerRID = None \<and>
    childWithName w oh ownerName = Some old \<and>
    sharingInvites old w \<noteq> [] \<longrightarrow>
      ?P = (Inl HomeChildNameAlreadyExistsError,
            emit (LogError ''External invite collection name is present with a different externalID and still has shares'') w) \<and>
      binds (snd ?P) = binds w \<and> children (snd ?P) = children w"
  proof (intro impI, elim conjE)
    assume h1: "find (\<lambda>h. home_uid h = ownerUID) (homes w) = Some oh"
      and h2: "home_external oh"
      and x: "childWithExternalID w oh ownerRID = None"
      and n: "childWithName w oh ownerName = Some old"
      and i: "sharingInvites old w \<noteq> []"
    have hw0: "homeWithUID ownerUID True w = (Some oh, w)"
      using h1 by (simp add: homeWithUID_def)
    have P: "?P = (Inl HomeChildNameAlreadyExistsError,
            emit (LogError ''External invite collection name is present with a different externalID and still has shares'') w)"
      by (simp add: processExternalInvite_def hw0 h2 andThen_def
            externalOwnerView_conflict [OF x n i])
    then show "?P = (Inl HomeChildNameAlreadyExistsError,
            emit (LogError ''External invite collection name is present with a different externalID and still has shares'') w) \<and>
      binds (snd ?P) = binds w \<and> children (snd ?P) = children w"
      by simp
  qed
  from fails live
    processExternalInvite_repair [of ownerUID w oh ownerRID ownerName old self uid mode summary comps]
  show ?thesis by blast
qed

text \<open>The theorem on a remote owner whose stale collection \<open>cal\<close> (resource 11, external
  id 100) is in the way of an invitation for the collection with external id 200: once
  with an invitation of the local sharee left on the stale collection, once without.\<close>

theorem processExternalInvite_name_collision_witness:
  "find (\<lambda>h. home_uid h = ''remote'')
     (homes (ex_world
        [\<lparr>HOME_RESOURCE_ID = 3, RESOURCE_ID = 11, EXTERNAL_ID = Some 100,
          RESOURCE_NAME = ''cal'', BIND_MODE = BIND_MODE_OWN,
          BIND_STATUS = BIND_STATUS_ACCEPTED, BIND_REVISION = 0, MESSAGE = None\<rparr>])) =
     Some ex_remoteHome \<and>
   home_external ex_remoteHome \<and>
   childWithName
     (ex_world
        [\<lparr>HOME_RESOURCE_ID = 3, RESOURCE_ID = 11, EXTERNAL_ID = Some 100,
          RESOURCE_NAME = ''cal'', BIND_MODE = BIND_MODE_OWN,
          BIND_STATUS = BIND_STATUS_ACCEPTED, BIND_REVISION = 0, MESSAGE = None\<rparr>])
     ex_remoteHome ''cal'' =
     Some (view_of ex_remoteHome ex_remoteHome
        \<lparr>HOME_RESOURCE_ID = 3, RESOURCE_ID = 11, EXTERNAL_ID = Some 100,
         RESOURCE_NAME = ''cal'', BIND_MODE = BIND_MODE_OWN,
         BIND_STATUS = BIND_STATUS_ACCEPTED, BIND_REVISION = 0, MESSAGE = None\<rparr>) \<and>
   processExternalInvite ex_shareeHome ''remote'' 200 ''cal'' ''s5'' BIND_MODE_READ None None
     (ex_world
        [\<lparr>HOME_RESOURCE_ID = 3, RESOURCE_ID = 11, EXTERNAL_ID = Some 100,
          RESOURCE_NAME = ''cal'', BIND_MODE = BIND_MODE_OWN,
          BIND_STATUS = BIND_STATUS_ACCEPTED, BIND_REVISION = 0, MESSAGE = None\<rparr>,
         \<lparr>HOME_RESOURCE_ID = 2, RESOURCE_ID = 11, EXTERNAL_ID = Some 100,
          RESOURCE_NAME = ''s4'', BIND_MODE = BIND_MODE_READ,
          BIND_STATUS = BIND_STATUS_INVITED, BIND_REVISION = 0, MESSAGE = None\<rparr>]) =
     (Inl HomeChildNameAlreadyExistsError,
      emit (LogError ''External invite collection name is present with a different externalID and still has shares'')
        (ex_world
           [\<lparr>HOME_RESOURCE_ID = 3, RESOURCE_ID = 11, EXTERNAL_ID = Some 100,
             RESOURCE_NAME = ''cal'', BIND_MODE = BIND_MODE_OWN,
             BIND_STATUS = BIND_STATUS_ACCEPTED, BIND_REVISION = 0, MESSAGE = None\<rparr>,
            \<lparr>HOME_RESOURCE_ID = 2, RESOURCE_ID = 11, EXTERNAL_ID = Some 100,
             RESOURCE_NAME = ''s4'', BIND_MODE = BIND_MODE_READ,
             BIND_STATUS = BIND_STATUS_INVITED, BIND_REVISION = 0, MESSAGE = None\<rparr>])) \<and>
   fst (processExternalInvite ex_shareeHome ''remote'' 200 ''cal'' ''s5'' BIND_MODE_READ None
          None
          (ex_world
             [\<lparr>HOME_RESOURCE_ID = 3, RESOURCE_ID = 11, EXTERNAL_ID = Some 100,
               RESOURCE_NAME = ''cal'', BIND_MODE = BIND_MODE_OWN,
               BIND_STATUS = BIND_STATUS_ACCEPTED, BIND_REVISION = 0, MESSAGE = None\<rparr>])) =
     Inr () \<and>
   binds (snd (processExternalInvite ex_shareeHome ''remote'' 200 ''cal'' ''s5''
                 BIND_MODE_READ None None
                 (ex_world
                    [\<lparr>HOME_RESOURCE_ID = 3, RESOURCE_ID = 11, EXTERNAL_ID = Some 100,
                      RESOURCE_NAME = ''cal'', BIND_MODE = BIND_MODE_OWN,
                      BIND_STATUS = BIND_STATUS_ACCEPTED, BIND_REVISION = 0,
                      MESSAGE = None\<rparr>]))) =
     [ex_ownRow,
      \<lparr>HOME_RESOURCE_ID = 3, RESOURCE_ID = 20, EXTERNAL_ID = Some 200,
       RESOURCE_NAME = ''cal'', BIND_MODE = BIND_MODE_OWN,
       BIND_STATUS = BIND_STATUS_ACCEPTED, BIND_REVISION = 0, MESSAGE = Some ''shared''\<rparr>,
      \<lparr>HOME_RESOURCE_ID = 2, RESOURCE_ID = 20, EXTERNAL_ID = Some 200,
       RESOURCE_NAME = ''s5'', BIND_MODE = BIND_MODE_READ,
       BIND_STATUS = BIND_STATUS_INVITED, BIND_REVISION = 0, MESSAGE = None\<rparr>]"
proof -
  let ?stale = "\<lparr>HOME_RESOURCE_ID = 3, RESOURCE_ID = 11, EXTERNAL_ID = Some 100,
                 RESOURCE_NAME = ''cal'', BIND_MODE = BIND_MODE_OWN,
                 BIND_STATUS = BIND_STATUS_ACCEPTED, BIND_REVISION = 0, MESSAGE = None\<rparr>"
  let ?inv = "\<lparr>HOME_RESOURCE_ID = 2, RESOURCE_ID = 11, EXTERNAL_ID = Some 100,
               RESOURCE_NAME = ''s4'', BIND_MODE = BIND_MODE_READ,
               BIND_STATUS = BIND_STATUS_INVITED, BIND_REVISION = 0, MESSAGE = None\<rparr>"
  let ?old = "view_of ex_remoteHome ex_remoteHome ?stale"
  let ?wr = "ex_world [?stale]"
  let ?wc = "ex_world [?stale, ?inv]"
  have r1: "find (\<lambda>h. home_uid h = ''remote'') (homes ?wr) = Some ex_remoteHome"
    and c1: "find (\<lambda>h. home_uid h = ''remote'') (homes ?wc) = Some ex_remoteHome"
    and h2: "home_external ex_remoteHome"
    by (simp_all add: ex_defs)
  have r3: "childWithExternalID ?wr ex_remoteHome 200 = None"
    and c3: "childWithExternalID ?wc ex_remoteHome 200 = None"
    by (simp_all add: childWithExternalID_def objectWith_def ex_defs)
  have r4: "childWithName ?wr ex_remoteHome ''cal'' = Some ?old"
    and c4: "childWithName ?wc ex_remoteHome ''cal'' = Some ?old"
    by (simp_all add: childWithName_def objectWith_def makeView_def ex_defs)
  have r5: "sharingInvites ?old ?wr = []"
    and c5: "sharingInvites ?old ?wc \<noteq> []"
    by (simp_all add: sharingInvites_def sharedInvitationBindForResourceID_def owned_def
          view_of_def ex_defs)
  have r6: "list_all (\<lambda>r. HOME_RESOURCE_ID r = home_resourceID ex_remoteHome \<and>
                          RESOURCE_NAME r = ''cal'' \<longrightarrow> RESOURCE_ID r = resourceID ?old)
              (binds ?wr)"
    and r7: "list_all (\<lambda>r. RESOURCE_ID r \<noteq> resource_seq ?wr) (binds ?wr)"
    and r8: "find (\<lambda>h. home_resourceID h = home_resourceID ex_remoteHome) (homes ?wr) =
               Some ex_remoteHome"
    and r9: "find (\<lambda>h. home_uid h = home_uid ex_shareeHome) (homes ?wr) = Some ex_shareeHome"
    and r10: "home_uid ex_shareeHome \<noteq> ''remote''"
    and r11: "home_resourceID ex_shareeHome \<noteq> home_resourceID ex_remoteHome"
    and r12: "\<not> list_ex (\<lambda>r. HOME_RESOURCE_ID r = home_resourceID ex_shareeHome \<and>
                            RESOURCE_NAME r = ''s5'') (binds ?wr)"
    and r13: "BIND_MODE_READ \<noteq> BIND_MODE_OWN"
    by (simp_all add: view_of_def ex_defs)
  note T = processExternalInvite_name_collision [where ownerUID = "''remote''"
      and oh = ex_remoteHome and ownerRID = 200 and ownerName = "''cal''" and old = ?old
      and self = ex_shareeHome and uid = "''s5''" and mode = BIND_MODE_READ and summary = None
      and comps = None]
  have a: "processExternalInvite ex_shareeHome ''remote'' 200 ''cal'' ''s5'' BIND_MODE_READ None
             None ?wc =
     (Inl HomeChildNameAlreadyExistsError,
      emit (LogError ''External invite collection name is present with a different externalID and still has shares'') ?wc)"
    using T [where w = ?wc, THEN conjunct2, THEN conjunct1] c1 h2 c3 c4 c5 by blast
  have b: "fst (processExternalInvite ex_shareeHome ''remote'' 200 ''cal'' ''s5''
                  BIND_MODE_READ None None ?wr) = Inr () \<and>
     binds (snd (processExternalInvite ex_shareeHome ''remote'' 200 ''cal'' ''s5''
                   BIND_MODE_READ None None ?wr)) =
        filter (\<lambda>r. RESOURCE_ID r \<noteq> resourceID ?old) (binds ?wr) @
        [\<lparr>HOME_RESOURCE_ID = home_resourceID ex_remoteHome, RESOURCE_ID = resource_seq ?wr,
          EXTERNAL_ID = Some 200, RESOURCE_NAME = ''cal'',
          BIND_MODE = BIND_MODE_OWN, BIND_STATUS = BIND_STATUS_ACCEPTED,
          BIND_REVISION = 0, MESSAGE = Some ''shared''\<rparr>,
         \<lparr>HOME_RESOURCE_ID = home_resourceID ex_shareeHome, RESOURCE_ID = resource_seq ?wr,
          EXTERNAL_ID = Some 200, RESOURCE_NAME = ''s5'',
          BIND_MODE = BIND_MODE_READ,
          BIND_STATUS = (if BIND_MODE_READ = BIND_MODE_DIRECT then BIND_STATUS_ACCEPTED
                         else BIND_STATUS_INVITED),
          BIND_REVISION = (if BIND_MODE_READ = BIND_MODE_DIRECT
                           then syncTokenRevision ?wr (resource_seq ?wr) else 0),
          MESSAGE = (if BIND_MODE_READ = BIND_MODE_DIRECT then None else None)\<rparr>]"
    using T [where w = ?wr, THEN conjunct2, THEN conjunct2]
      r1 h2 r3 r4 r5 r6 r7 r8 r9 r10 r11 r12 r13
    by (elim impE) (intro conjI, assumption+)
  have v: "filter (\<lambda>r. RESOURCE_ID r \<noteq> resourceID ?old) (binds ?wr) = [ex_ownRow]"
    "home_resourceID ex_remoteHome = 3" "home_resourceID ex_shareeHome = 2"
    "resource_seq ?wr = 20"
    by (simp_all add: view_of_def ex_defs)
  from r1 h2 r4 a b show ?thesis
    by (simp only: v) simp
qed
end
